theory Spec2Isabelle
  imports Complex_Main "HOL-Library.AList"
begin

section \<open>JavaScript values of the state tree\<close>

text \<open>
  The data layer (\<^verbatim>\<open>_dataLayer\<close> in \<^verbatim>\<open>scripts/datalayer.js\<close>) is a tree of JSON
  values. Objects are association lists in insertion order; a key that is not in the
  list reads as \<^verbatim>\<open>undefined\<close>, which is why property reads return an option.
  Numbers are exact rationals: rounding of IEEE doubles, \<^verbatim>\<open>NaN\<close> and the infinities are
  not represented. A value of the model stands for the own enumerable properties of a
  JavaScript value whose prototype is the standard one (\<^verbatim>\<open>Object.prototype\<close> for an
  object). \<open>getProp\<close> below is the lookup among own properties; it is what a read
  \<^verbatim>\<open>v[key]\<close> returns when \<^verbatim>\<open>key\<close> is an own property or is not the name of a member
  of \<^verbatim>\<open>Object.prototype\<close>. Where the key comes from the data (a key of a payload, a
  product id, a segment of a path) the definitions say what the inherited member does
  to the read and to the assignment.
\<close>

datatype jsval =
    JNull
  | JBool bool
  | JNum rat
  | JStr string
  | JArr "jsval list"
  | JObj "(string \<times> jsval) list"

text \<open>Truthiness, as tested by \<^verbatim>\<open>!x\<close>, \<^verbatim>\<open>x && ...\<close> and \<^verbatim>\<open>x || ...\<close>.\<close>

fun truthy :: "jsval \<Rightarrow> bool" where
  "truthy JNull = False"
| "truthy (JBool b) = b"
| "truthy (JNum n) = (n \<noteq> 0)"
| "truthy (JStr s) = (s \<noteq> [])"
| "truthy (JArr xs) = True"
| "truthy (JObj kvs) = True"

text \<open>\<^verbatim>\<open>typeof x === "object"\<close>: true of \<^verbatim>\<open>null\<close>, arrays and objects.\<close>

fun typeofObject :: "jsval \<Rightarrow> bool" where
  "typeofObject JNull = True"
| "typeofObject (JArr xs) = True"
| "typeofObject (JObj kvs) = True"
| "typeofObject v = False"

text \<open>
  \<^verbatim>\<open>isObject(item)\<close> (datalayer.js, lines 68-70):
  \<^verbatim>\<open>item && typeof item === "object" && !Array.isArray(item)\<close>.
\<close>

fun isArray :: "jsval \<Rightarrow> bool" where
  "isArray (JArr xs) = True"
| "isArray v = False"

definition isObject :: "jsval \<Rightarrow> bool" where
  "isObject item = (truthy item \<and> typeofObject item \<and> \<not> isArray item)"

text \<open>Decimal rendering of an array index, the key under which an element is spread.\<close>

fun showNat :: "nat \<Rightarrow> string" where
  "showNat n =
     (if n < 10 then [char_of (48 + n)]
      else showNat (n div 10) @ [char_of (48 + n mod 10)])"

declare showNat.simps [simp del]

definition indexKeys :: "nat \<Rightarrow> string list" where
  "indexKeys n = map showNat [0..<n]"

text \<open>
  The own enumerable properties of a value, as copied by the spread \<^verbatim>\<open>{ ...v }\<close>:
  the entries of an object, the indexed elements of an array, the characters of a
  string, nothing for the other primitives.
\<close>

fun spread :: "jsval \<Rightarrow> (string \<times> jsval) list" where
  "spread (JObj kvs) = kvs"
| "spread (JArr xs) = zip (indexKeys (length xs)) xs"
| "spread (JStr s) = zip (indexKeys (length s)) (map (\<lambda>c. JStr [c]) s)"
| "spread v = []"

text \<open>\<^verbatim>\<open>v[key]\<close> on a value other than \<^verbatim>\<open>null\<close>; \<open>None\<close> is \<^verbatim>\<open>undefined\<close>.\<close>

definition getProp :: "jsval \<Rightarrow> string \<Rightarrow> jsval option" where
  "getProp v key = map_of (spread v) key"

text \<open>\<^verbatim>\<open>Object.keys(v)\<close> on a value other than \<^verbatim>\<open>null\<close>.\<close>

definition objectKeys :: "jsval \<Rightarrow> string list" where
  "objectKeys v = map fst (spread v)"

text \<open>\<^verbatim>\<open>{ ...a, ...b }\<close>: the properties of \<open>b\<close> assigned, in order, over a copy of \<open>a\<close>.\<close>

definition spreadOver :: "jsval \<Rightarrow> jsval \<Rightarrow> jsval" where
  "spreadOver a b = JObj (fold (\<lambda>(k, v). AList.update k v) (spread b) (spread a))"

text \<open>
  The names of the members that every object inherits from \<^verbatim>\<open>Object.prototype\<close>. All
  of them are functions, except \<^verbatim>\<open>__proto__\<close>, which is an accessor: read, it returns
  \<^verbatim>\<open>Object.prototype\<close> itself; assigned to, it stores no property (it replaces the
  prototype of the object when the value is an object or \<^verbatim>\<open>null\<close> and does nothing
  otherwise). Every one of them reads as a truthy value.
\<close>

definition objectPrototypeMembers :: "string list" where
  "objectPrototypeMembers =
     [''constructor'', ''__defineGetter__'', ''__defineSetter__'', ''hasOwnProperty'',
      ''__lookupGetter__'', ''__lookupSetter__'', ''isPrototypeOf'', ''propertyIsEnumerable'',
      ''toString'', ''valueOf'', ''__proto__'', ''toLocaleString'']"

text \<open>
  The own properties of an object after the assignment \<^verbatim>\<open>output[key] = v\<close>: the value of
  an existing key is replaced in place and a new key is appended, except that an
  assignment to \<^verbatim>\<open>__proto__\<close> on an object without an own property of that name goes
  to the inherited accessor and stores nothing. A prototype replaced by that accessor
  is not represented.
\<close>

definition assignProperty :: "string \<Rightarrow> jsval \<Rightarrow> (string \<times> jsval) list \<Rightarrow> (string \<times> jsval) list" where
  "assignProperty key v output =
     (if key = ''__proto__'' \<and> map_of output key = None then output
      else AList.update key v output)"

section \<open>The merge algorithm\<close>

text \<open>
  \<^verbatim>\<open>deepMerge(target, source)\<close> (datalayer.js, lines 37-61). The \<^verbatim>\<open>forEach\<close> over
  \<^verbatim>\<open>Object.keys(source)\<close> is a fold over the own keys of the source, and
  \<^verbatim>\<open>output[key] = v\<close> is \<open>assignProperty\<close>. The read \<^verbatim>\<open>target[key]\<close> of a key that the
  target does not own finds the inherited member, if there is one. A function is not
  a plain object, so the branch taken is the one of an absent value. For \<^verbatim>\<open>__proto__\<close>
  the read finds \<^verbatim>\<open>Object.prototype\<close> and the value assigned is
  \<^verbatim>\<open>deepMerge(Object.prototype, source[key])\<close>, but the assignment stores nothing,
  because the output has no own \<^verbatim>\<open>__proto__\<close> either: the value is never looked at.
\<close>

function deepMerge :: "jsval \<Rightarrow> jsval \<Rightarrow> jsval" where
  "deepMerge target source =
    (if \<not> truthy target then (if isObject source then JObj (spread source) else source)
     else if isObject target \<and> isObject source then
       JObj (fold (\<lambda>key output.
               case getProp source key of
                 None \<Rightarrow> output
               | Some sv \<Rightarrow>
                   if isObject sv then
                     (case getProp target key of
                        None \<Rightarrow> assignProperty key (JObj (spread sv)) output
                      | Some tv \<Rightarrow>
                          if \<not> truthy tv \<or> \<not> isObject tv
                          then assignProperty key (JObj (spread sv)) output
                          else assignProperty key (deepMerge tv sv) output)
                   else assignProperty key sv output)
             (objectKeys source) (spread target))
     else JObj (spread target))"
  by pat_completeness auto
termination
proof (relation "measure (\<lambda>(target, source). size source)")
  fix target source :: jsval and key :: string and sv tv :: jsval
  assume "isObject target \<and> isObject source" and "getProp source key = Some sv"
  then obtain kvs where "source = JObj kvs" and "(key, sv) \<in> set kvs"
    by (cases source) (auto simp: isObject_def getProp_def dest: map_of_SomeD)
  moreover from \<open>(key, sv) \<in> set kvs\<close>
  have "size sv < Suc (size_list (size_prod (\<lambda>_. 0) size) kvs)"
    by (induction kvs) auto
  ultimately show "((tv, sv), (target, source)) \<in> measure (\<lambda>(target, source). size source)"
    by simp
qed simp

declare deepMerge.simps [simp del]

text \<open>
  The value that the loop of \<open>deepMerge\<close> stores under one key of the source; \<open>None\<close>
  when the source does not have the key, and when the key is \<^verbatim>\<open>__proto__\<close> and the target
  has no own property of that name, so that the assignment stores nothing.
\<close>

definition mergedValue :: "jsval \<Rightarrow> jsval \<Rightarrow> string \<Rightarrow> jsval option" where
  "mergedValue target source key =
     (if key = ''__proto__'' \<and> getProp target key = None then None
      else
        (case getProp source key of
           None \<Rightarrow> None
         | Some sv \<Rightarrow>
             Some (if isObject sv then
                     (case getProp target key of
                        None \<Rightarrow> JObj (spread sv)
                      | Some tv \<Rightarrow> if isObject tv then deepMerge tv sv else JObj (spread sv))
                   else sv)))"

text \<open>
  The value found by following a path of own properties from the root of a tree;
  \<open>None\<close> when the tree has no own property along the path.
\<close>

fun getPath :: "jsval \<Rightarrow> string list \<Rightarrow> jsval option" where
  "getPath v [] = Some v"
| "getPath v (key # path) =
     (if isObject v
      then (case getProp v key of None \<Rightarrow> None | Some w \<Rightarrow> getPath w path)
      else None)"


section \<open>The state container\<close>

text \<open>
  A string of \<^verbatim>\<open>localStorage\<close> is represented by what its two readers make of it:
  \<open>Tree v\<close> is the text \<^verbatim>\<open>JSON.stringify(v)\<close>, \<open>Time n\<close> the decimal text of the
  integer \<open>n\<close> (what \<^verbatim>\<open>Date.now().toString()\<close> writes), and \<open>Garbage\<close> any other
  non-empty text, which \<^verbatim>\<open>JSON.parse\<close> rejects and \<^verbatim>\<open>parseInt\<close> reads as \<^verbatim>\<open>NaN\<close>.
  An absent key and the empty string are both falsy and are both \<open>None\<close>.
\<close>

datatype stored = Tree jsval | Time int | Garbage

datatype failure = TypeError | SyntaxError | OutsideModel

datatype level = Log | Warn | Error

fun jsonParse :: "stored \<Rightarrow> failure + jsval" where
  "jsonParse (Tree v) = Inr v"
| "jsonParse (Time n) = Inr (JNum (of_int n))"
| "jsonParse Garbage = Inl SyntaxError"

text \<open>\<^verbatim>\<open>parseInt(text, 10)\<close>; \<open>None\<close> is \<^verbatim>\<open>NaN\<close>.\<close>

fun parseInt :: "stored \<Rightarrow> int option" where
  "parseInt (Time n) = Some n"
| "parseInt v = None"

definition STORAGE_KEY :: string where
  "STORAGE_KEY = ''luma_dataLayer''"

definition STORAGE_TIMESTAMP_KEY :: string where
  "STORAGE_TIMESTAMP_KEY = ''luma_dataLayer_timestamp''"

definition STORAGE_TTL :: int where
  "STORAGE_TTL = 30 * 24 * 60 * 60 * 1000"

definition CHECKOUT_STORAGE_KEY :: string where
  "CHECKOUT_STORAGE_KEY = ''luma_checkout_data''"

definition CHECKOUT_TIMESTAMP_KEY :: string where
  "CHECKOUT_TIMESTAMP_KEY = ''luma_checkout_data_timestamp''"

definition CHECKOUT_TTL :: int where
  "CHECKOUT_TTL = 90 * 24 * 60 * 60 * 1000"

text \<open>
  The argument of \<^verbatim>\<open>addToCart\<close>, typed as its documentation comment types it
  (datalayer.js, lines 561-573). An absent \<^verbatim>\<open>id\<close> or \<^verbatim>\<open>quantity\<close> is \<open>None\<close>.
\<close>

record productData =
  p_id :: "string option"
  p_name :: string
  p_image :: string
  p_thumbnail :: string
  p_category :: string
  p_description :: string
  p_price :: rat
  p_quantity :: "int option"

text \<open>
  The module state of datalayer.js (lines 9-18) and the parts of the browser it
  writes to. \<open>dataLayer\<close> is \<^verbatim>\<open>_dataLayer\<close> (\<open>None\<close> is \<^verbatim>\<open>null\<close>);
  \<open>accessorDefined\<close> says that \<^verbatim>\<open>window.dataLayer\<close> has been defined as a
  non-configurable accessor; \<open>storageFull\<close> says that \<^verbatim>\<open>localStorage.setItem\<close>
  throws; \<open>events\<close> are the \<^verbatim>\<open>dataLayerUpdated\<close> events dispatched so far, each with
  its type tag and its deep copy of the tree; \<open>timers\<close> are the type tags of the
  dispatches deferred by \<^verbatim>\<open>setTimeout(..., 0)\<close>.
\<close>

record container =
  dataLayer :: "jsval option"
  dataLayerReady :: bool
  dataLayerUpdating :: bool
  dataLayerQueue :: "(jsval \<times> bool) list"
  cartQueue :: "productData list"
  accessorDefined :: bool
  localStorage :: "(string \<times> stored) list"
  storageFull :: bool
  events :: "(string \<times> jsval) list"
  timers :: "string list"
  console :: "(level \<times> string) list"

definition logLine :: "level \<Rightarrow> string \<Rightarrow> container \<Rightarrow> container" where
  "logLine l msg s = s\<lparr>console := console s @ [(l, msg)]\<rparr>"

text \<open>\<^verbatim>\<open>!_dataLayer\<close>\<close>

definition dataLayerMissing :: "container \<Rightarrow> bool" where
  "dataLayerMissing s = (case dataLayer s of None \<Rightarrow> True | Some v \<Rightarrow> \<not> truthy v)"

text \<open>The value \<^verbatim>\<open>JSON.parse(JSON.stringify(_dataLayer))\<close>.\<close>

definition snapshot :: "container \<Rightarrow> jsval" where
  "snapshot s = (case dataLayer s of None \<Rightarrow> JNull | Some v \<Rightarrow> v)"

text \<open>\<^verbatim>\<open>dispatchDataLayerEvent(eventType)\<close> (lines 76-86).\<close>

definition dispatchDataLayerEvent :: "string \<Rightarrow> container \<Rightarrow> container" where
  "dispatchDataLayerEvent eventType s = s\<lparr>events := events s @ [(eventType, snapshot s)]\<rparr>"

text \<open>
  The persistence block that follows every write (for instance lines 105-111): both
  keys are written, or the first \<^verbatim>\<open>setItem\<close> throws and a warning is logged.
\<close>

definition persist :: "int \<Rightarrow> string \<Rightarrow> container \<Rightarrow> container" where
  "persist now warning s =
     (if storageFull s then logLine Warn warning s
      else s\<lparr>localStorage :=
               AList.update STORAGE_TIMESTAMP_KEY (Time now)
                 (AList.update STORAGE_KEY (Tree (snapshot s)) (localStorage s))\<rparr>)"

text \<open>One entry of the update queue applied to the tree (lines 95-101, 439-445).\<close>

definition applyUpdate :: "jsval \<Rightarrow> bool \<Rightarrow> jsval \<Rightarrow> jsval" where
  "applyUpdate updates merge tree =
     (if merge then deepMerge tree updates else spreadOver tree updates)"

text \<open>\<^verbatim>\<open>processDataLayerQueue()\<close> (lines 91-119).\<close>

definition processDataLayerQueue :: "int \<Rightarrow> container \<Rightarrow> container" where
  "processDataLayerQueue now s =
     (if dataLayerQueue s \<noteq> [] then
        let s1 = s\<lparr>dataLayer :=
                    Some (fold (\<lambda>(updates, merge) tree. applyUpdate updates merge tree)
                            (dataLayerQueue s) (snapshot s))\<rparr>;
            s2 = persist now ''Could not persist dataLayer'' s1;
            s3 = s2\<lparr>dataLayerQueue := []\<rparr>
        in dispatchDataLayerEvent ''updated'' s3
      else s)"


section \<open>The cart subsystem\<close>

text \<open>
  The cart lives in the tree under the key \<^verbatim>\<open>cart\<close>. The functions below read it with
  the dynamic checks that JavaScript performs: reading a property of \<^verbatim>\<open>undefined\<close> or
  \<^verbatim>\<open>null\<close> throws a \<open>TypeError\<close>; arithmetic on a value that is not a number, and a
  line item that is not an object with numeric fields, are \<open>OutsideModel\<close> (the
  coercions of \<^verbatim>\<open>+\<close> and \<^verbatim>\<open>*\<close> are not represented). Every \<open>TypeError\<close> below is
  raised before the tree has been touched.
\<close>

text \<open>The cart built when none exists (datalayer.js, lines 148-153; cart block, lines 40-45).\<close>

definition emptyCart :: jsval where
  "emptyCart = JObj [(''productCount'', JNum 0), (''products'', JObj []),
                     (''subTotal'', JNum 0), (''total'', JNum 0)]"

text \<open>\<^verbatim>\<open>productData.quantity || 1\<close>\<close>

definition requestedQuantity :: "productData \<Rightarrow> rat" where
  "requestedQuantity productData =
     (case p_quantity productData of
        None \<Rightarrow> 1
      | Some q \<Rightarrow> if q = 0 then 1 else of_int q)"

text \<open>\<^verbatim>\<open>productData.id\<close> used as a property key.\<close>

definition productKey :: "productData \<Rightarrow> string" where
  "productKey productData =
     (case p_id productData of None \<Rightarrow> ''undefined'' | Some i \<Rightarrow> i)"

text \<open>The object literal of lines 174-186; an absent id leaves \<^verbatim>\<open>id\<close> and \<^verbatim>\<open>sku\<close> undefined.\<close>

definition newLineItem :: "productData \<Rightarrow> jsval" where
  "newLineItem productData =
     JObj ((case p_id productData of
              None \<Rightarrow> []
            | Some i \<Rightarrow> [(''id'', JStr i), (''sku'', JStr i)]) @
           [(''name'', JStr (p_name productData)),
            (''image'', JStr (p_image productData)),
            (''thumbnail'', JStr (p_thumbnail productData)),
            (''category'', JStr (p_category productData)),
            (''description'', JStr (p_description productData)),
            (''quantity'', JNum (requestedQuantity productData)),
            (''price'', JNum (p_price productData)),
            (''subTotal'', JNum (p_price productData * requestedQuantity productData)),
            (''total'', JNum (p_price productData * requestedQuantity productData))])"

text \<open>A property read as a number; \<open>None\<close> when it is absent or is not a number.\<close>

definition numberProp :: "jsval \<Rightarrow> string \<Rightarrow> rat option" where
  "numberProp v key = (case getProp v key of Some (JNum n) \<Rightarrow> Some n | other \<Rightarrow> None)"

text \<open>\<^verbatim>\<open>currentCart.products\<close>, about to be indexed by a product key.\<close>

definition cartProducts :: "jsval \<Rightarrow> failure + (string \<times> jsval) list" where
  "cartProducts currentCart =
     (case currentCart of
        JObj cartFields \<Rightarrow>
          (case map_of cartFields ''products'' of
             None \<Rightarrow> Inl TypeError
           | Some JNull \<Rightarrow> Inl TypeError
           | Some (JObj products) \<Rightarrow> Inr products
           | Some other \<Rightarrow> Inl OutsideModel)
      | other \<Rightarrow> Inl TypeError)"

text \<open>
  Lines 164-187: an existing line item has its quantity incremented and its subtotal
  and total recomputed from its own price; otherwise a new line item is stored. The
  test \<^verbatim>\<open>currentCart.products[productKey]\<close> is a plain read: for a key that the products
  do not own and that names a member of \<^verbatim>\<open>Object.prototype\<close> it finds that member,
  which is truthy, so the branch of an existing item is taken. Its three assignments
  then set \<^verbatim>\<open>quantity\<close>, \<^verbatim>\<open>subTotal\<close> and \<^verbatim>\<open>total\<close> on the inherited member (a built-in
  object, which is not part of the tree and is not represented) and the products are
  left as they were. For \<^verbatim>\<open>__proto__\<close> that member is \<^verbatim>\<open>Object.prototype\<close> itself; that
  other objects then inherit the three properties from it is not represented.
\<close>

definition addLineItem ::
  "productData \<Rightarrow> (string \<times> jsval) list \<Rightarrow> failure + (string \<times> jsval) list" where
  "addLineItem productData products =
     (case map_of products (productKey productData) of
        None \<Rightarrow>
          if productKey productData \<in> set objectPrototypeMembers then Inr products
          else Inr (AList.update (productKey productData) (newLineItem productData) products)
      | Some existing \<Rightarrow>
          if \<not> truthy existing
          then Inr (AList.update (productKey productData) (newLineItem productData) products)
          else if \<not> isObject existing then Inl OutsideModel
          else
            (case numberProp existing ''quantity'' of
               None \<Rightarrow> Inl OutsideModel
             | Some q \<Rightarrow>
                 (case numberProp existing ''price'' of
                    None \<Rightarrow> Inl OutsideModel
                  | Some price \<Rightarrow>
                      let quantity = q + requestedQuantity productData;
                          item1 = AList.update ''quantity'' (JNum quantity) (spread existing);
                          item2 = AList.update ''subTotal'' (JNum (quantity * price)) item1;
                          item3 = AList.update ''total'' (JNum (quantity * price)) item2
                      in Inr (AList.update (productKey productData) (JObj item3) products))))"

text \<open>\<^verbatim>\<open>p.quantity\<close> or \<^verbatim>\<open>p.subTotal\<close> of a line item, as a summand.\<close>

definition itemNumber :: "string \<Rightarrow> jsval \<Rightarrow> failure + rat" where
  "itemNumber field p =
     (if \<not> isObject p then Inl OutsideModel
      else (case numberProp p field of None \<Rightarrow> Inl OutsideModel | Some n \<Rightarrow> Inr n))"

text \<open>\<^verbatim>\<open>productValues.reduce((sum, p) => sum + p.field, 0)\<close>\<close>

definition reduceSum :: "string \<Rightarrow> jsval list \<Rightarrow> failure + rat" where
  "reduceSum field productValues =
     fold (\<lambda>p acc. case acc of
                      Inl e \<Rightarrow> Inl e
                    | Inr soFar \<Rightarrow> (case itemNumber field p of Inl e \<Rightarrow> Inl e | Inr n \<Rightarrow> Inr (soFar + n)))
       productValues (Inr 0)"

text \<open>
  The recomputation of the aggregates over \<^verbatim>\<open>Object.values(currentCart.products)\<close>
  (datalayer.js, lines 189-196; cart block, lines 50-60 and 107-117), with the changed
  products written back into the cart.
\<close>

definition recalculateTotals :: "(string \<times> jsval) list \<Rightarrow> jsval \<Rightarrow> failure + jsval" where
  "recalculateTotals products currentCart =
     (case reduceSum ''quantity'' (map snd products) of
        Inl e \<Rightarrow> Inl e
      | Inr productCount \<Rightarrow>
          (case reduceSum ''subTotal'' (map snd products) of
             Inl e \<Rightarrow> Inl e
           | Inr subTotal \<Rightarrow>
               Inr (JObj (AList.update ''total'' (JNum subTotal)
                           (AList.update ''subTotal'' (JNum subTotal)
                             (AList.update ''productCount'' (JNum productCount)
                               (AList.update ''products'' (JObj products)
                                 (spread currentCart))))))))"

text \<open>\<^verbatim>\<open>executeAddToCart(productData)\<close> (datalayer.js, lines 141-212).\<close>

definition executeAddToCart :: "int \<Rightarrow> productData \<Rightarrow> container \<Rightarrow> failure + container" where
  "executeAddToCart now productData s =
     (if dataLayerMissing s
      then Inr (logLine Error ''DataLayer not available for cart operation'' s)
      else
        (case getProp (snapshot s) ''cart'' of
           None \<Rightarrow> Inl TypeError
         | Some cart \<Rightarrow>
             if cart = JNull then Inl TypeError
             else
               let currentCart = (if objectKeys cart \<noteq> [] then cart else emptyCart) in
               (case cartProducts currentCart of
                  Inl e \<Rightarrow> Inl e
                | Inr products \<Rightarrow>
                    (case addLineItem productData products of
                       Inl e \<Rightarrow> Inl e
                     | Inr products' \<Rightarrow>
                         (case recalculateTotals products' currentCart of
                            Inl e \<Rightarrow> Inl e
                          | Inr currentCart' \<Rightarrow>
                              let s1 = s\<lparr>dataLayer :=
                                          Some (JObj (AList.update ''cart'' currentCart'
                                                        (spread (snapshot s))))\<rparr>;
                                  s2 = persist now ''Could not persist cart'' s1
                              in Inr (dispatchDataLayerEvent ''updated'' s2))))))"

text \<open>
  \<^verbatim>\<open>processCartQueue()\<close> (lines 124-135). An exception thrown by one entry leaves the
  \<^verbatim>\<open>forEach\<close> with the effects of the earlier entries in place and the queue not
  cleared, so the state is returned together with the failure.
\<close>

fun forEachCartOperation ::
  "int \<Rightarrow> productData list \<Rightarrow> container \<Rightarrow> container \<times> failure option" where
  "forEachCartOperation now [] s = (s, None)"
| "forEachCartOperation now (cartOperation # rest) s =
     (case executeAddToCart now cartOperation s of
        Inl e \<Rightarrow> (s, Some e)
      | Inr s' \<Rightarrow> forEachCartOperation now rest s')"

definition processCartQueue :: "int \<Rightarrow> container \<Rightarrow> container \<times> failure option" where
  "processCartQueue now s =
     (if cartQueue s \<noteq> [] then
        (case forEachCartOperation now (cartQueue s) s of
           (s', None) \<Rightarrow> (s'\<lparr>cartQueue := []\<rparr>, None)
         | (s', Some e) \<Rightarrow> (s', Some e))
      else (s, None))"


section \<open>Startup\<close>

text \<open>The tree built when nothing valid is persisted (datalayer.js, lines 248-301).\<close>

definition defaultTree :: jsval where
  "defaultTree = JObj
     [(''projectName'', JStr ''luma3''),
      (''project'', JObj [(''id'', JStr ''luma3''), (''title'', JStr ''Luma Website v3''),
                          (''template'', JStr ''web-modular/empty-website-v2''),
                          (''locale'', JStr ''en-US''), (''currency'', JStr ''USD''),
                          (''projectName'', JStr ''luma3'')]),
      (''page'', JObj [(''name'', JStr ''home''), (''title'', JStr ''HOME'')]),
      (''cart'', JObj []),
      (''product'', JObj []),
      (''partnerData'', JObj [(''PartnerID'', JStr ''Partner456''), (''BrandLoyalist'', JNum 88),
                              (''Seasonality'', JStr ''Fall'')]),
      (''personalEmail'', JObj [(''address'', JStr [])]),
      (''mobilePhone'', JObj [(''number'', JStr [])]),
      (''homeAddress'', JObj [(''street1'', JStr []), (''city'', JStr []),
                              (''postalCode'', JStr [])]),
      (''person'', JObj [(''gender'', JStr []), (''birthDayAndMonth'', JStr []),
                         (''loyaltyConsent'', JBool False),
                         (''name'', JObj [(''firstName'', JStr []), (''lastName'', JStr [])])]),
      (''individualCharacteristics'',
         JObj [(''retail'', JObj [(''shoeSize'', JStr []), (''shirtSize'', JStr []),
                                  (''favoriteColor'', JStr [])])]),
      (''consents'',
         JObj [(''marketing'', JObj [(''call'', JObj [(''val'', JBool True)]),
                                     (''email'', JObj [(''val'', JBool True)]),
                                     (''sms'', JObj [(''val'', JBool True)])])])]"

text \<open>The tree built by the \<^verbatim>\<open>catch\<close> branch (lines 362-399).\<close>

definition fallbackTree :: jsval where
  "fallbackTree = JObj
     [(''projectName'', JStr ''luma3''),
      (''project'', JObj [(''id'', JStr ''luma3''), (''title'', JStr ''Luma Website v3''),
                          (''template'', JStr ''web-modular/empty-website-v2''),
                          (''locale'', JStr ''en-US''), (''currency'', JStr ''USD''),
                          (''projectName'', JStr ''luma3'')]),
      (''page'', JObj []),
      (''cart'', JObj []),
      (''product'', JObj []),
      (''partnerData'', JObj []),
      (''personalEmail'', JObj [(''address'', JStr [])]),
      (''mobilePhone'', JObj [(''number'', JStr [])]),
      (''homeAddress'', JObj [(''street1'', JStr []), (''city'', JStr []),
                              (''postalCode'', JStr [])]),
      (''person'', JObj [(''gender'', JStr []), (''birthDayAndMonth'', JStr []),
                         (''loyaltyConsent'', JBool False),
                         (''name'', JObj [(''firstName'', JStr []), (''lastName'', JStr [])])]),
      (''individualCharacteristics'',
         JObj [(''retail'', JObj [(''shoeSize'', JStr []), (''shirtSize'', JStr []),
                                  (''favoriteColor'', JStr [])])]),
      (''consents'',
         JObj [(''marketing'', JObj [(''call'', JObj [(''val'', JBool True)]),
                                     (''email'', JObj [(''val'', JBool True)]),
                                     (''sms'', JObj [(''val'', JBool True)])])])]"

text \<open>\<^verbatim>\<open>String.prototype.toLowerCase\<close> on ASCII letters.\<close>

definition lowerChar :: "char \<Rightarrow> char" where
  "lowerChar c =
     (let n = (of_char c :: nat) in if 65 \<le> n \<and> n \<le> 90 then char_of (n + 32) else c)"

definition toLowerCase :: "string \<Rightarrow> string" where
  "toLowerCase txt = map lowerChar txt"

text \<open>
  Lines 221-235: the persisted record is valid when both keys hold a non-empty string
  and \<^verbatim>\<open>Date.now() - parseInt(savedTimestamp, 10) <= STORAGE_TTL\<close>; a comparison
  with \<^verbatim>\<open>NaN\<close> is false. An invalid record with both keys present is removed.
\<close>

definition isDataValid :: "int \<Rightarrow> container \<Rightarrow> bool" where
  "isDataValid now s =
     (case (map_of (localStorage s) STORAGE_KEY, map_of (localStorage s) STORAGE_TIMESTAMP_KEY) of
        (Some savedDataLayer, Some savedTimestamp) \<Rightarrow>
          (case parseInt savedTimestamp of
             None \<Rightarrow> False
           | Some written \<Rightarrow> now - written \<le> STORAGE_TTL)
      | other \<Rightarrow> False)"

definition clearExpired :: "int \<Rightarrow> container \<Rightarrow> container" where
  "clearExpired now s =
     (case (map_of (localStorage s) STORAGE_KEY, map_of (localStorage s) STORAGE_TIMESTAMP_KEY) of
        (Some savedDataLayer, Some savedTimestamp) \<Rightarrow>
          if isDataValid now s then s
          else s\<lparr>localStorage :=
                   AList.delete STORAGE_TIMESTAMP_KEY (AList.delete STORAGE_KEY (localStorage s))\<rparr>
      | other \<Rightarrow> s)"

text \<open>Lines 237-302: the restored tree, or the default tree, or the parser's exception.\<close>

definition restoreOrCreate :: "int \<Rightarrow> container \<Rightarrow> failure + jsval" where
  "restoreOrCreate now s =
     (case map_of (localStorage s) STORAGE_KEY of
        Some savedDataLayer \<Rightarrow>
          if isDataValid now s then jsonParse savedDataLayer else Inr defaultTree
      | None \<Rightarrow> Inr defaultTree)"

text \<open>
  Lines 304-309: \<^verbatim>\<open>page\<close> is created when it is absent or falsy, and its title and name
  are set from \<^verbatim>\<open>document.title\<close>. The module is in strict mode, so creating a property
  on a primitive throws. Named properties set on an array are \<open>OutsideModel\<close>.
\<close>

definition updatePageInfo :: "string \<Rightarrow> jsval \<Rightarrow> failure + jsval" where
  "updatePageInfo documentTitle tree =
     (case tree of
        JObj sections \<Rightarrow>
          (let page = (case map_of sections ''page'' of
                         None \<Rightarrow> JObj []
                       | Some p \<Rightarrow> if truthy p then p else JObj [])
           in case page of
                JObj pageFields \<Rightarrow>
                  Inr (JObj (AList.update ''page''
                               (JObj (AList.update ''name'' (JStr (toLowerCase documentTitle))
                                        (AList.update ''title'' (JStr documentTitle) pageFields)))
                               sections))
              | JArr xs \<Rightarrow> Inl OutsideModel
              | other \<Rightarrow> Inl TypeError)
      | JArr xs \<Rightarrow> Inl OutsideModel
      | other \<Rightarrow> Inl TypeError)"

text \<open>
  The \<^verbatim>\<open>catch\<close> branch (lines 353-415). Defining \<^verbatim>\<open>window.dataLayer\<close> a second time
  throws, because the first definition is not configurable; the exception then leaves
  \<^verbatim>\<open>buildCustomDataLayer\<close>.
\<close>

definition buildFallback :: "int \<Rightarrow> container \<Rightarrow> container \<times> failure option" where
  "buildFallback now s =
     (let s1 = logLine Error ''Error initializing dataLayer'' s;
          s2 = s1\<lparr>dataLayer := Some fallbackTree\<rparr>
      in if accessorDefined s2 then (s2, Some TypeError)
         else (processDataLayerQueue now
                 (s2\<lparr>accessorDefined := True, dataLayerReady := True\<rparr>), None))"

text \<open>The type tag of the deferred first notification (line 351): \<^verbatim>\<open>savedDataLayer ? "restored" : "initialized"\<close>.\<close>

definition initialTag :: "container \<Rightarrow> string" where
  "initialTag s =
     (if map_of (localStorage s) STORAGE_KEY \<noteq> None then ''restored'' else ''initialized'')"

text \<open>
  \<^verbatim>\<open>buildCustomDataLayer()\<close> (lines 218-416). The result is the state reached and the
  exception that leaves the function, if any. \<^verbatim>\<open>getLanguage()\<close> is not represented: the
  locale computed from it is not used.
\<close>

definition buildCustomDataLayer ::
  "int \<Rightarrow> string \<Rightarrow> container \<Rightarrow> container \<times> failure option" where
  "buildCustomDataLayer now documentTitle s =
     (let s1 = clearExpired now s in
      case restoreOrCreate now s of
        Inl e \<Rightarrow> buildFallback now s1
      | Inr tree \<Rightarrow>
          (case updatePageInfo documentTitle tree of
             Inl OutsideModel \<Rightarrow> (s, Some OutsideModel)
           | Inl e \<Rightarrow> buildFallback now s1
           | Inr tree' \<Rightarrow>
               let s2 = persist now ''Could not persist dataLayer'' (s1\<lparr>dataLayer := Some tree'\<rparr>)
               in if accessorDefined s2 then buildFallback now s2
                  else
                    let s3 = s2\<lparr>accessorDefined := True, dataLayerReady := True\<rparr>;
                        s4 = processDataLayerQueue now s3
                    in (case processCartQueue now s4 of
                          (s5, None) \<Rightarrow>
                            (s5\<lparr>timers := timers s5 @ [initialTag s]\<rparr>, None)
                        | (s5, Some OutsideModel) \<Rightarrow> (s5, Some OutsideModel)
                        | (s5, Some e) \<Rightarrow> buildFallback now s5)))"

text \<open>The deferred dispatches run when the timers fire (lines 350-352).\<close>

definition runTimers :: "container \<Rightarrow> container" where
  "runTimers s = (fold dispatchDataLayerEvent (timers s) s)\<lparr>timers := []\<rparr>"

section \<open>The public operations\<close>

text \<open>
  \<^verbatim>\<open>window.updateDataLayer(updates, merge = true)\<close> (lines 424-461). \<open>None\<close> is an
  \<^verbatim>\<open>undefined\<close> argument.
\<close>

definition validUpdates :: "jsval option \<Rightarrow> bool" where
  "validUpdates updates =
     (case updates of None \<Rightarrow> False | Some u \<Rightarrow> \<not> (\<not> truthy u \<or> \<not> typeofObject u))"

definition updateDataLayer :: "int \<Rightarrow> jsval option \<Rightarrow> bool \<Rightarrow> container \<Rightarrow> container" where
  "updateDataLayer now updates merge s =
     (case updates of
        None \<Rightarrow> logLine Error ''Invalid updates provided to updateDataLayer'' s
      | Some u \<Rightarrow>
          if \<not> truthy u \<or> \<not> typeofObject u
          then logLine Error ''Invalid updates provided to updateDataLayer'' s
          else if \<not> dataLayerReady s \<or> dataLayerMissing s
          then s\<lparr>dataLayerQueue := dataLayerQueue s @ [(u, merge)]\<rparr>
          else
            let s1 = s\<lparr>dataLayerUpdating := True\<rparr>;
                s2 = s1\<lparr>dataLayer := Some (applyUpdate u merge (snapshot s1))\<rparr>;
                s3 = persist now ''Could not persist dataLayer'' s2;
                s4 = s3\<lparr>dataLayerUpdating := False\<rparr>
            in dispatchDataLayerEvent ''updated'' s4)"

text \<open>\<^verbatim>\<open>String.prototype.split\<close> on a one-character separator.\<close>

fun splitOn :: "char \<Rightarrow> string \<Rightarrow> string list" where
  "splitOn c [] = [[]]"
| "splitOn c (x # xs) =
     (if x = c then [] # splitOn c xs
      else (case splitOn c xs of
              [] \<Rightarrow> [[x]]
            | w # ws \<Rightarrow> (x # w) # ws))"

text \<open>
  The loop of \<^verbatim>\<open>getDataLayerProperty\<close> (lines 479-485); \<open>Inr None\<close> is \<^verbatim>\<open>undefined\<close>.
  The test \<^verbatim>\<open>key in value\<close> and the read \<^verbatim>\<open>value[key]\<close> also find inherited members.
  On an object, a key that is not an own property and names a member of
  \<^verbatim>\<open>Object.prototype\<close> yields that member, which is not a value of the tree: the walk
  is \<open>OutsideModel\<close>. On an array, a key other than an index in range may be
  \<^verbatim>\<open>length\<close> or a member of \<^verbatim>\<open>Array.prototype\<close>, which the model does not list: the
  walk is \<open>OutsideModel\<close> as well.
\<close>

fun walkPath :: "jsval \<Rightarrow> string list \<Rightarrow> failure + jsval option" where
  "walkPath v [] = Inr (Some v)"
| "walkPath v (key # rest) =
     (if truthy v \<and> typeofObject v
      then (case getProp v key of
              Some w \<Rightarrow> walkPath w rest
            | None \<Rightarrow>
                if isArray v \<or> key \<in> set objectPrototypeMembers then Inl OutsideModel
                else Inr None)
      else Inr None)"

text \<open>
  \<^verbatim>\<open>window.getDataLayerProperty(path)\<close> (lines 468-489): the value read and the state,
  which gains a warning when the tree is missing.
\<close>

definition getDataLayerProperty ::
  "string \<Rightarrow> container \<Rightarrow> (failure + jsval option) \<times> container" where
  "getDataLayerProperty path s =
     (if dataLayerMissing s then (Inr None, logLine Warn ''DataLayer not initialized yet'' s)
      else if path = [] then (Inr (Some (snapshot s)), s)
      else (walkPath (snapshot s) (splitOn CHR ''.'' path), s))"

text \<open>\<^verbatim>\<open>window.clearDataLayer()\<close> (lines 495-500).\<close>

definition clearDataLayer :: "container \<Rightarrow> container" where
  "clearDataLayer s =
     s\<lparr>dataLayerQueue := [],
       cartQueue := [],
       localStorage :=
         AList.delete STORAGE_TIMESTAMP_KEY (AList.delete STORAGE_KEY (localStorage s))\<rparr>"

text \<open>\<^verbatim>\<open>window.saveCheckoutData(formData)\<close> (lines 507-520).\<close>

definition saveCheckoutData :: "int \<Rightarrow> jsval option \<Rightarrow> container \<Rightarrow> container" where
  "saveCheckoutData now formData s =
     (case formData of
        None \<Rightarrow> logLine Error ''Invalid checkout data provided'' s
      | Some f \<Rightarrow>
          if \<not> truthy f \<or> \<not> typeofObject f
          then logLine Error ''Invalid checkout data provided'' s
          else if storageFull s then logLine Warn ''Could not save checkout data'' s
          else s\<lparr>localStorage :=
                   AList.update CHECKOUT_TIMESTAMP_KEY (Time now)
                     (AList.update CHECKOUT_STORAGE_KEY (Tree f) (localStorage s))\<rparr>)"

text \<open>\<^verbatim>\<open>window.clearCheckoutData()\<close> (lines 556-559).\<close>

definition clearCheckoutData :: "container \<Rightarrow> container" where
  "clearCheckoutData s =
     s\<lparr>localStorage :=
         AList.delete CHECKOUT_TIMESTAMP_KEY (AList.delete CHECKOUT_STORAGE_KEY (localStorage s))\<rparr>"

text \<open>
  \<^verbatim>\<open>window.addToCart(productData)\<close> (lines 574-588). \<open>None\<close> is a missing argument;
  an id that is absent or the empty string is falsy.
\<close>

definition validProduct :: "productData option \<Rightarrow> bool" where
  "validProduct productData =
     (case productData of
        None \<Rightarrow> False
      | Some p \<Rightarrow> (case p_id p of None \<Rightarrow> False | Some i \<Rightarrow> i \<noteq> []))"

definition addToCart :: "int \<Rightarrow> productData option \<Rightarrow> container \<Rightarrow> failure + container" where
  "addToCart now productData s =
     (case productData of
        None \<Rightarrow> Inr (logLine Error ''Invalid product data provided to addToCart'' s)
      | Some p \<Rightarrow>
          if \<not> validProduct (Some p)
          then Inr (logLine Error ''Invalid product data provided to addToCart'' s)
          else if \<not> dataLayerReady s \<or> dataLayerMissing s
          then Inr (s\<lparr>cartQueue := cartQueue s @ [p]\<rparr>)
          else executeAddToCart now p s)"


section \<open>The cart block\<close>

text \<open>
  \<^verbatim>\<open>window.getDataLayerProperty("cart") || { productCount: 0, products: {}, ... }\<close>
  (cart block, lines 40-45 and 93-98): the copy of the cart the two functions below
  work on, and the state after the read.
\<close>

definition readCurrentCart :: "container \<Rightarrow> failure + jsval \<times> container" where
  "readCurrentCart s =
     (case getDataLayerProperty ''cart'' s of
        (found, s1) \<Rightarrow>
          (case found of
             Inl e \<Rightarrow> Inl e
           | Inr None \<Rightarrow> Inr (emptyCart, s1)
           | Inr (Some cart) \<Rightarrow> Inr (if truthy cart then cart else emptyCart, s1)))"

text \<open>
  \<^verbatim>\<open>removeFromCart(productId, block)\<close> (cart block, lines 39-78). The rendering of the
  block is not represented. The test \<^verbatim>\<open>currentCart.products[productId]\<close> also succeeds
  for an id that the products do not own and that names a member of
  \<^verbatim>\<open>Object.prototype\<close>; \<^verbatim>\<open>delete\<close> then removes nothing, and the cart is recomputed
  and written all the same.
\<close>

definition removeFromCart :: "int \<Rightarrow> string \<Rightarrow> container \<Rightarrow> failure + container" where
  "removeFromCart now productId s =
     (case readCurrentCart s of
        Inl e \<Rightarrow> Inl e
      | Inr (currentCart, s1) \<Rightarrow>
          (case cartProducts currentCart of
             Inl e \<Rightarrow> Inl e
           | Inr products \<Rightarrow>
               if (case map_of products productId of
                     None \<Rightarrow> productId \<in> set objectPrototypeMembers
                   | Some item \<Rightarrow> truthy item)
               then
                 (case recalculateTotals (AList.delete productId products) currentCart of
                    Inl e \<Rightarrow> Inl e
                  | Inr currentCart' \<Rightarrow>
                      Inr (logLine Log ''Removed product from cart''
                             (updateDataLayer now (Some (JObj [(''cart'', currentCart')])) False s1)))
               else Inr s1))"

text \<open>
  \<^verbatim>\<open>updateQuantity(productId, newQuantity, block)\<close> (cart block, lines 86-136).
  \<open>newQuantity\<close> is the integer that \<^verbatim>\<open>parseInt(newQuantity, 10)\<close> reads; a text that
  reads as \<^verbatim>\<open>NaN\<close> is not represented. For an id that the products do not own and that
  names a member of \<^verbatim>\<open>Object.prototype\<close> the test succeeds and the three assignments
  go to the inherited member (a built-in object, not represented): the products are
  left as they were, and the cart is recomputed and written. For \<^verbatim>\<open>__proto__\<close> that
  member is \<^verbatim>\<open>Object.prototype\<close> itself; that other objects then inherit the three
  properties from it is not represented.
\<close>

definition updateQuantity :: "int \<Rightarrow> string \<Rightarrow> int \<Rightarrow> container \<Rightarrow> failure + container" where
  "updateQuantity now productId newQuantity s =
     (if newQuantity < 1 then removeFromCart now productId s
      else
        (case readCurrentCart s of
           Inl e \<Rightarrow> Inl e
         | Inr (currentCart, s1) \<Rightarrow>
             (case cartProducts currentCart of
                Inl e \<Rightarrow> Inl e
              | Inr products \<Rightarrow>
                  (case map_of products productId of
                     None \<Rightarrow>
                       if productId \<in> set objectPrototypeMembers
                       then (case recalculateTotals products currentCart of
                               Inl e \<Rightarrow> Inl e
                             | Inr currentCart' \<Rightarrow>
                                 Inr (updateDataLayer now
                                        (Some (JObj [(''cart'', currentCart')])) False s1))
                       else Inr s1
                   | Some existing \<Rightarrow>
                       if \<not> truthy existing then Inr s1
                       else if \<not> isObject existing then Inl OutsideModel
                       else
                         (case numberProp existing ''price'' of
                            None \<Rightarrow> Inl OutsideModel
                          | Some price \<Rightarrow>
                              let item1 = AList.update ''quantity'' (JNum (of_int newQuantity))
                                            (spread existing);
                                  item2 = AList.update ''subTotal''
                                            (JNum (of_int newQuantity * price)) item1;
                                  item3 = AList.update ''total''
                                            (JNum (of_int newQuantity * price)) item2
                              in (case recalculateTotals
                                         (AList.update productId (JObj item3) products)
                                         currentCart of
                                    Inl e \<Rightarrow> Inl e
                                  | Inr currentCart' \<Rightarrow>
                                      Inr (updateDataLayer now
                                             (Some (JObj [(''cart'', currentCart')])) False s1)))))))"

text \<open>
  The three cart operations, and a sequence of them run from a state. An operation that
  throws leaves the state as it was (the exception ends the event handler that called
  it), and the next operation runs.
\<close>

datatype cartOperation =
    Add productData
  | Remove string
  | SetQuantity string int

fun cartStep :: "int \<Rightarrow> cartOperation \<Rightarrow> container \<Rightarrow> failure + container" where
  "cartStep now (Add productData) s = addToCart now (Some productData) s"
| "cartStep now (Remove productId) s = removeFromCart now productId s"
| "cartStep now (SetQuantity productId newQuantity) s = updateQuantity now productId newQuantity s"

fun runCart :: "int \<Rightarrow> cartOperation list \<Rightarrow> container \<Rightarrow> container" where
  "runCart now [] s = s"
| "runCart now (operation # rest) s =
     (case cartStep now operation s of
        Inl e \<Rightarrow> runCart now rest s
      | Inr s' \<Rightarrow> runCart now rest s')"

text \<open>
  The cart as its readers see it. The cart block reads the aggregates as
  \<^verbatim>\<open>cartData.productCount || 0\<close>, \<^verbatim>\<open>cartData.subTotal || 0\<close>, \<^verbatim>\<open>cartData.total || 0\<close>
  and the line items as \<^verbatim>\<open>Object.values(cartData.products || {})\<close> (lines 24-30, 240-241),
  so the cart \<^verbatim>\<open>{}\<close> of a fresh tree reads as a cart without line items.
\<close>

definition cartOf :: "container \<Rightarrow> jsval" where
  "cartOf s = (case getProp (snapshot s) ''cart'' of None \<Rightarrow> JObj [] | Some cart \<Rightarrow> cart)"

definition cartNumber :: "string \<Rightarrow> jsval \<Rightarrow> rat" where
  "cartNumber field cart = (case numberProp cart field of None \<Rightarrow> 0 | Some n \<Rightarrow> n)"

definition lineItems :: "jsval \<Rightarrow> (string \<times> jsval) list" where
  "lineItems cart = (case getProp cart ''products'' of Some (JObj products) \<Rightarrow> products | other \<Rightarrow> [])"

definition itemField :: "string \<Rightarrow> jsval \<Rightarrow> rat" where
  "itemField field item = (case numberProp item field of None \<Rightarrow> 0 | Some n \<Rightarrow> n)"

text \<open>A line item: an object whose quantity, price and subtotal are numbers.\<close>

definition isLineItem :: "jsval \<Rightarrow> bool" where
  "isLineItem item =
     (isObject item \<and> numberProp item ''quantity'' \<noteq> None \<and>
      numberProp item ''price'' \<noteq> None \<and> numberProp item ''subTotal'' \<noteq> None)"

text \<open>The invariants of the cart state.\<close>

definition cartInvariant :: "jsval \<Rightarrow> bool" where
  "cartInvariant cart =
     (distinct (map fst (lineItems cart)) \<and>
      list_all (\<lambda>item. isLineItem item \<and>
                       itemField ''subTotal'' item =
                         itemField ''price'' item * itemField ''quantity'' item)
        (map snd (lineItems cart)) \<and>
      cartNumber ''productCount'' cart = sum_list (map (itemField ''quantity'' \<circ> snd) (lineItems cart)) \<and>
      cartNumber ''subTotal'' cart = sum_list (map (itemField ''subTotal'' \<circ> snd) (lineItems cart)) \<and>
      cartNumber ''total'' cart = cartNumber ''subTotal'' cart)"


section \<open>The event trigger engine\<close>

text \<open>
  One entry of \<^verbatim>\<open>config.data\<close> in \<^verbatim>\<open>scripts/custom-events.js\<close>, with the fields the
  engine destructures (lines 394-402). An absent field is \<open>None\<close>.
\<close>

record eventConfig =
  cfgPage :: "string option"
  cfgExcludes :: "string option"
  cfgEvent :: "string option"
  cfgTrigger :: "string option"
  cfgElement :: "string option"
  cfgPreventDefaultAction :: "bool option"
  cfgBeaconDelay :: "int option"

text \<open>
  What the engine reads from the browser. \<open>regExp src\<close> is \<^verbatim>\<open>new RegExp(src)\<close>:
  \<open>None\<close> when the constructor throws a \<^verbatim>\<open>SyntaxError\<close>, otherwise the \<^verbatim>\<open>test\<close>
  function of the compiled expression.
\<close>

record browser =
  pathname :: string
  search :: string
  readyStateComplete :: bool
  regExp :: "string \<Rightarrow> (string \<Rightarrow> bool) option"

definition isSpace :: "char \<Rightarrow> bool" where
  "isSpace c = (c \<in> set [CHR '' '', CHR 0x09, CHR 0x0A, CHR 0x0B, CHR 0x0C, CHR 0x0D])"

text \<open>\<^verbatim>\<open>String.prototype.trim\<close> on ASCII white space.\<close>

definition trim :: "string \<Rightarrow> string" where
  "trim txt = rev (dropWhile isSpace (rev (dropWhile isSpace txt)))"

text \<open>\<^verbatim>\<open>txt.replace(/c/g, replacement)\<close> for a single character \<open>c\<close>.\<close>

definition replaceAll :: "char \<Rightarrow> string \<Rightarrow> string \<Rightarrow> string" where
  "replaceAll c replacement txt = concat (map (\<lambda>x. if x = c then replacement else [x]) txt)"

text \<open>Lines 180-184 and 211-215: the wildcard pattern turned into a regular expression.\<close>

definition regexPattern :: "string \<Rightarrow> string" where
  "regexPattern pattern =
     ''^'' @
     replaceAll CHR ''/'' [CHR 0x5C, CHR ''/'']
       (replaceAll CHR ''?'' [CHR 0x5C, CHR ''?'']
         (replaceAll CHR ''*'' ''.*'' pattern)) @
     ''$''"

text \<open>The test shared by the two matchers: exact match, then wildcard match.\<close>

definition matchesPath :: "browser \<Rightarrow> string \<Rightarrow> string \<Rightarrow> failure + bool" where
  "matchesPath b pattern currentPath =
     (let currentFullPath = pathname b @ search b in
      if pattern = currentPath \<or> pattern = currentFullPath then Inr True
      else if CHR ''*'' \<in> set pattern \<or> CHR ''?'' \<in> set pattern then
        (case regExp b (regexPattern pattern) of
           None \<Rightarrow> Inl SyntaxError
         | Some test \<Rightarrow> Inr (test currentPath \<or> test currentFullPath))
      else Inr False)"

text \<open>\<^verbatim>\<open>matchesPagePattern(pagePattern, currentPath)\<close> (lines 165-189).\<close>

definition matchesPagePattern :: "browser \<Rightarrow> string option \<Rightarrow> string \<Rightarrow> failure + bool" where
  "matchesPagePattern b pagePattern currentPath =
     (case pagePattern of
        None \<Rightarrow> Inr True
      | Some pattern \<Rightarrow>
          if pattern = [] \<or> pattern = ''*'' then Inr True
          else matchesPath b pattern currentPath)"

text \<open>\<^verbatim>\<open>excludeList.some(...)\<close>: the first matching entry ends the search.\<close>

fun someExcluded :: "browser \<Rightarrow> string list \<Rightarrow> string \<Rightarrow> failure + bool" where
  "someExcluded b [] currentPath = Inr False"
| "someExcluded b (excludePath # rest) currentPath =
     (case matchesPath b excludePath currentPath of
        Inl e \<Rightarrow> Inl e
      | Inr True \<Rightarrow> Inr True
      | Inr False \<Rightarrow> someExcluded b rest currentPath)"

text \<open>\<^verbatim>\<open>isPageExcluded(excludes, currentPath)\<close> (lines 197-221).\<close>

definition isPageExcluded :: "browser \<Rightarrow> string option \<Rightarrow> string \<Rightarrow> failure + bool" where
  "isPageExcluded b excludes currentPath =
     (case excludes of
        None \<Rightarrow> Inr False
      | Some list \<Rightarrow>
          if list = [] then Inr False
          else someExcluded b (map trim (splitOn CHR '','' list)) currentPath)"

text \<open>
  The element a click is matched to, with the properties the engine reads.
  \<open>closestForm\<close> is \<^verbatim>\<open>element.closest("form")\<close>.
\<close>

record formElement =
  formAction :: string
  formMethod :: string
  formTarget :: string

record domElement =
  tagName :: string
  href :: string
  linkTarget :: string
  inputType :: string
  ownForm :: formElement
  closestForm :: "formElement option"

datatype actionDetails =
    Navigation string string
  | FormSubmit string string string "domElement option"

definition orDefault :: "string \<Rightarrow> string \<Rightarrow> string" where
  "orDefault txt fallback = (if txt = [] then fallback else txt)"

text \<open>\<^verbatim>\<open>getElementDefaultAction(element)\<close> (lines 228-268).\<close>

definition getElementDefaultAction :: "domElement option \<Rightarrow> actionDetails option" where
  "getElementDefaultAction element =
     (case element of
        None \<Rightarrow> None
      | Some el \<Rightarrow>
          if tagName el = ''A'' \<and> href el \<noteq> []
          then Some (Navigation (href el) (orDefault (linkTarget el) ''_self''))
          else if tagName el = ''FORM''
          then Some (FormSubmit (formAction (ownForm el))
                       (orDefault (formMethod (ownForm el)) ''GET'')
                       (orDefault (formTarget (ownForm el)) ''_self'') None)
          else if (tagName el = ''BUTTON'' \<and> inputType el = ''submit'') \<or>
                  (tagName el = ''INPUT'' \<and> inputType el = ''submit'')
          then (case closestForm el of
                  Some form \<Rightarrow>
                    Some (FormSubmit (formAction form) (orDefault (formMethod form) ''GET'')
                            (orDefault (formTarget form) ''_self'') (Some el))
                | None \<Rightarrow> None)
          else None)"

text \<open>What the browser is made to do when a default action is replayed.\<close>

datatype browserAction =
    WindowOpen string
  | SetLocation string
  | SubmitForm formElement

text \<open>
  \<^verbatim>\<open>executeDefaultAction(actionDetails, element)\<close> (lines 275-307); \<open>None\<close> when the
  function does nothing.
\<close>

definition executeDefaultAction :: "actionDetails option \<Rightarrow> domElement \<Rightarrow> browserAction option" where
  "executeDefaultAction details element =
     (case details of
        None \<Rightarrow> None
      | Some (Navigation url windowName) \<Rightarrow>
          if windowName = ''_blank'' then Some (WindowOpen url) else Some (SetLocation url)
      | Some (FormSubmit url method windowName submitButton) \<Rightarrow>
          if tagName element = ''FORM'' then Some (SubmitForm (ownForm element))
          else (case submitButton of
                  Some button \<Rightarrow>
                    (case closestForm button of
                       Some form \<Rightarrow> Some (SubmitForm form)
                     | None \<Rightarrow> None)
                | None \<Rightarrow> None))"

text \<open>
  The closure \<^verbatim>\<open>delegatedHandler\<close> (lines 486-539) is determined by the values it
  captures: the event name, the selector, \<^verbatim>\<open>preventDefaultAction\<close> and
  \<^verbatim>\<open>beaconDelay\<close>.
\<close>

record clickRule =
  ruleEvent :: string
  ruleSelector :: string
  rulePreventDefault :: bool
  ruleBeaconDelay :: int

text \<open>
  The page as the engine changes it over time. \<open>clock\<close> is the current time in
  milliseconds; \<open>trace\<close> lists what has happened, each entry with the time at which it
  happened; \<open>pending\<close> are the callbacks handed to \<^verbatim>\<open>setTimeout\<close>, each with the time
  from which it may run; \<open>documentClickListeners\<close> are the delegated handlers on
  \<^verbatim>\<open>document\<close>, under the key that \<^verbatim>\<open>window._customEventListeners\<close> files them;
  \<open>loadListeners\<close> are the events waiting for the \<^verbatim>\<open>load\<close> of the window.
\<close>

datatype effect =
    PreventDefault
  | StopPropagation
  | Dispatched string
  | Performed browserAction
  | Warned string

record engine =
  clock :: int
  trace :: "(int \<times> effect) list"
  pending :: "(int \<times> actionDetails \<times> domElement) list"
  documentClickListeners :: "(string \<times> clickRule) list"
  loadListeners :: "string list"

definition record_effect :: "effect \<Rightarrow> engine \<Rightarrow> engine" where
  "record_effect e g = g\<lparr>trace := trace g @ [(clock g, e)]\<rparr>"

text \<open>
  \<^verbatim>\<open>dispatchCustomEvent(eventName, ..., callback)\<close> (lines 317-337): the event is
  dispatched, then the callback runs.
\<close>

definition dispatchCustomEvent :: "string \<Rightarrow> (engine \<Rightarrow> engine) \<Rightarrow> engine \<Rightarrow> engine" where
  "dispatchCustomEvent eventName callback g = callback (record_effect (Dispatched eventName) g)"

text \<open>\<^verbatim>\<open>setTimeout(() => executeDefaultAction(...), delay)\<close>; a negative delay counts as 0.\<close>

definition setTimeout :: "int \<Rightarrow> actionDetails \<Rightarrow> domElement \<Rightarrow> engine \<Rightarrow> engine" where
  "setTimeout delay details element g =
     g\<lparr>pending := pending g @ [(clock g + max 0 delay, details, element)]\<rparr>"

text \<open>
  \<^verbatim>\<open>delegatedHandler(clickEvent)\<close> (lines 486-539). \<open>matchedElement\<close> is the result of
  \<^verbatim>\<open>clickEvent.target.closest(element)\<close>.
\<close>

definition delegatedHandler :: "clickRule \<Rightarrow> domElement option \<Rightarrow> engine \<Rightarrow> engine" where
  "delegatedHandler rule matchedElement g =
     (case matchedElement of
        None \<Rightarrow> g
      | Some el \<Rightarrow>
          (case getElementDefaultAction (Some el) of
             Some defaultAction \<Rightarrow>
               if rulePreventDefault rule
               then dispatchCustomEvent (ruleEvent rule)
                      (setTimeout (ruleBeaconDelay rule) defaultAction el)
                      (record_effect StopPropagation (record_effect PreventDefault g))
               else dispatchCustomEvent (ruleEvent rule) id g
           | None \<Rightarrow> dispatchCustomEvent (ruleEvent rule) id g))"

text \<open>
  Time passes to \<open>t\<close>: the callbacks that may run by then run, in the order in which
  they fall due, and the others stay pending. Nothing runs before its time.
\<close>

definition runCallback :: "actionDetails \<times> domElement \<Rightarrow> engine \<Rightarrow> engine" where
  "runCallback task g =
     (case executeDefaultAction (Some (fst task)) (snd task) of
        None \<Rightarrow> g
      | Some a \<Rightarrow> record_effect (Performed a) g)"

definition advance :: "int \<Rightarrow> engine \<Rightarrow> engine" where
  "advance t g =
     (if t < clock g then g
      else
        let due = filter (\<lambda>task. fst task \<le> t) (pending g);
            later = filter (\<lambda>task. \<not> fst task \<le> t) (pending g)
        in fold (\<lambda>task. runCallback (snd task)) (sort_key fst due)
             (g\<lparr>clock := t, pending := later\<rparr>))"

text \<open>
  Lines 404-427: the trigger of a rule and where it came from. An explicit trigger is
  used as written; otherwise a non-blank element selector gives \<^verbatim>\<open>click\<close> and anything
  else gives \<^verbatim>\<open>pageload\<close>.
\<close>

definition inferTrigger :: "eventConfig \<Rightarrow> string \<times> string" where
  "inferTrigger config =
     (let element = (case cfgElement config of None \<Rightarrow> [] | Some e \<Rightarrow> e) in
      if element \<noteq> [] \<and> trim element \<noteq> []
      then (''click'', ''default (element defined)'')
      else if (case cfgPage config of None \<Rightarrow> False | Some p \<Rightarrow> p \<noteq> [])
      then (''pageload'', ''default (page defined)'')
      else (''pageload'', ''default (fallback)''))"

definition resolveTrigger :: "eventConfig \<Rightarrow> string \<times> string" where
  "resolveTrigger config =
     (case cfgTrigger config of
        None \<Rightarrow> inferTrigger config
      | Some explicitTrigger \<Rightarrow>
          if explicitTrigger \<noteq> [] \<and> trim explicitTrigger \<noteq> []
          then (explicitTrigger, ''explicit'')
          else inferTrigger config)"

text \<open>The key \<^verbatim>\<open>`${event}_${index}_${element}`\<close> of line 472.\<close>

definition listenerKey :: "string \<Rightarrow> nat \<Rightarrow> string \<Rightarrow> string" where
  "listenerKey eventName index element = eventName @ ''_'' @ showNat index @ ''_'' @ element"

text \<open>
  The body of the \<^verbatim>\<open>forEach\<close> over \<^verbatim>\<open>config.data\<close> (lines 393-572) for one rule.
  An exception of the regular expression constructor leaves the loop.
\<close>

definition processEventConfig ::
  "browser \<Rightarrow> string \<Rightarrow> nat \<Rightarrow> eventConfig \<Rightarrow> engine \<Rightarrow> failure + engine" where
  "processEventConfig b pagePath index config g =
     (let element = (case cfgElement config of None \<Rightarrow> [] | Some e \<Rightarrow> e);
          preventDefaultAction = (case cfgPreventDefaultAction config of None \<Rightarrow> True | Some p \<Rightarrow> p);
          beaconDelay = (case cfgBeaconDelay config of None \<Rightarrow> 100 | Some d \<Rightarrow> d);
          trigger = fst (resolveTrigger config)
      in case cfgEvent config of
           None \<Rightarrow> Inr (record_effect (Warned ''Event name not defined in config'') g)
         | Some eventName \<Rightarrow>
             if eventName = []
             then Inr (record_effect (Warned ''Event name not defined in config'') g)
             else
               (case isPageExcluded b (cfgExcludes config) pagePath of
                  Inl e \<Rightarrow> Inl e
                | Inr True \<Rightarrow> Inr g
                | Inr False \<Rightarrow>
                    (case matchesPagePattern b (cfgPage config) pagePath of
                       Inl e \<Rightarrow> Inl e
                     | Inr False \<Rightarrow> Inr g
                     | Inr True \<Rightarrow>
                         if toLowerCase trigger = ''pageload'' \<or>
                            toLowerCase trigger = ''domcontentloaded''
                         then Inr (dispatchCustomEvent eventName id g)
                         else if toLowerCase trigger = ''click''
                         then
                           if element = []
                           then Inr (record_effect
                                       (Warned ''Click trigger requires element selector'') g)
                           else
                             Inr (g\<lparr>documentClickListeners :=
                                      AList.delete (listenerKey eventName index element)
                                        (documentClickListeners g) @
                                      [(listenerKey eventName index element,
                                        \<lparr>ruleEvent = eventName, ruleSelector = element,
                                         rulePreventDefault = preventDefaultAction,
                                         ruleBeaconDelay = beaconDelay\<rparr>)]\<rparr>)
                         else if toLowerCase trigger = ''load''
                         then
                           if readyStateComplete b
                           then Inr (dispatchCustomEvent eventName id g)
                           else Inr (g\<lparr>loadListeners := loadListeners g @ [eventName]\<rparr>)
                         else Inr (record_effect (Warned ''Unknown trigger type'') g))))"

text \<open>The \<^verbatim>\<open>forEach\<close> itself: the rules in order, each with its index.\<close>

fun forEachEventConfig ::
  "browser \<Rightarrow> string \<Rightarrow> nat \<Rightarrow> eventConfig list \<Rightarrow> engine \<Rightarrow> engine \<times> failure option" where
  "forEachEventConfig b pagePath index [] g = (g, None)"
| "forEachEventConfig b pagePath index (config # rest) g =
     (case processEventConfig b pagePath index config g of
        Inl e \<Rightarrow> (g, Some e)
      | Inr g' \<Rightarrow> forEachEventConfig b pagePath (Suc index) rest g')"

text \<open>
  \<^verbatim>\<open>triggerCustomEvents(config, currentPath)\<close> (lines 345-574), called with a
  configuration whose \<^verbatim>\<open>data\<close> is the given list of rules. The engine waits until the
  container is ready, its update queue is empty and no write is in progress.
\<close>

datatype engineResult =
    RetryAfter int
  | AwaitUpdate
  | Ran "engine \<times> failure option"

definition triggerCustomEvents ::
  "browser \<Rightarrow> container \<Rightarrow> eventConfig list \<Rightarrow> string option \<Rightarrow> engine \<Rightarrow> engineResult" where
  "triggerCustomEvents b s rules currentPath g =
     (if \<not> accessorDefined s \<or> dataLayerMissing s \<or> \<not> dataLayerReady s then RetryAfter 100
      else if dataLayerQueue s \<noteq> [] then RetryAfter 100
      else if dataLayerUpdating s then AwaitUpdate
      else Ran (forEachEventConfig b
                  (case currentPath of
                     None \<Rightarrow> pathname b
                   | Some path \<Rightarrow> if path = [] then pathname b else path)
                  0 rules g))"


section \<open>Well-formed carts\<close>

text \<open>
  A line item as the cart operations leave it: its subtotal is its price times its
  quantity.
\<close>

definition lineItemOk :: "jsval \<Rightarrow> bool" where
  "lineItemOk item =
     (isLineItem item \<and>
      itemField ''subTotal'' item = itemField ''price'' item * itemField ''quantity'' item)"

text \<open>
  A cart with all four of its fields: the products are line items under distinct keys
  and the three aggregates are numbers that agree with them.
\<close>

definition fullCart :: "jsval \<Rightarrow> bool" where
  "fullCart cart =
     (case cart of
        JObj cartFields \<Rightarrow>
          (case map_of cartFields ''products'' of
             Some (JObj products) \<Rightarrow>
               distinct (map fst products) \<and>
               list_all lineItemOk (map snd products) \<and>
               map_of cartFields ''productCount'' =
                 Some (JNum (sum_list (map (itemField ''quantity'' \<circ> snd) products))) \<and>
               map_of cartFields ''subTotal'' =
                 Some (JNum (sum_list (map (itemField ''subTotal'' \<circ> snd) products))) \<and>
               map_of cartFields ''total'' =
                 Some (JNum (sum_list (map (itemField ''subTotal'' \<circ> snd) products)))
           | other \<Rightarrow> False)
      | other \<Rightarrow> False)"

text \<open>
  The states that sequences of cart operations move through: the container is ready and
  the tree is a mapping whose cart is the \<^verbatim>\<open>{}\<close> of a fresh tree or a full cart.
\<close>

definition cartReady :: "container \<Rightarrow> bool" where
  "cartReady s =
     (dataLayerReady s \<and>
      (case dataLayer s of
         Some (JObj tree) \<Rightarrow>
           (case map_of tree ''cart'' of
              Some cart \<Rightarrow> cart = JObj [] \<or> fullCart cart
            | None \<Rightarrow> False)
       | other \<Rightarrow> False))"

section \<open>Auxiliary notions for the proofs\<close>

text \<open>
  The tree that \<open>executeAddToCart\<close> computes from the current tree, apart from what it
  does to storage and to listeners.
\<close>

definition addedTree :: "productData \<Rightarrow> jsval \<Rightarrow> failure + jsval" where
  "addedTree productData tree =
     (case getProp tree ''cart'' of
        None \<Rightarrow> Inl TypeError
      | Some cart \<Rightarrow>
          if cart = JNull then Inl TypeError
          else
            (case cartProducts (if objectKeys cart \<noteq> [] then cart else emptyCart) of
               Inl e \<Rightarrow> Inl e
             | Inr products \<Rightarrow>
                 (case addLineItem productData products of
                    Inl e \<Rightarrow> Inl e
                  | Inr products' \<Rightarrow>
                      (case recalculateTotals products'
                              (if objectKeys cart \<noteq> [] then cart else emptyCart) of
                         Inl e \<Rightarrow> Inl e
                       | Inr currentCart' \<Rightarrow>
                           Inr (JObj (AList.update ''cart'' currentCart' (spread tree)))))))"

text \<open>
  The state in which the normal path of \<open>buildCustomDataLayer\<close> turns to the cart
  queue: the tree \<open>tree'\<close> has been installed and persisted, the container is ready
  and the update queue has been drained.
\<close>

definition startedState :: "int \<Rightarrow> jsval \<Rightarrow> container \<Rightarrow> container" where
  "startedState now tree' s =
     processDataLayerQueue now
       ((persist now ''Could not persist dataLayer'' ((clearExpired now s)\<lparr>dataLayer := Some tree'\<rparr>))
          \<lparr>accessorDefined := True, dataLayerReady := True\<rparr>)"

text \<open>
  Two trees that agree except for the title and the name of the page, which in the
  second are those of the current document.
\<close>

definition sameExceptPageInfo :: "string \<Rightarrow> jsval \<Rightarrow> jsval \<Rightarrow> bool" where
  "sameExceptPageInfo documentTitle base tree =
     (isObject tree \<and>
      (\<forall>key. key \<noteq> ''page'' \<longrightarrow> getProp tree key = getProp base key) \<and>
      getPath tree [''page'', ''title''] = Some (JStr documentTitle) \<and>
      getPath tree [''page'', ''name''] = Some (JStr (toLowerCase documentTitle)) \<and>
      (\<forall>field. field \<noteq> ''title'' \<and> field \<noteq> ''name'' \<longrightarrow>
         getPath tree [''page'', field] = getPath base [''page'', field]))"

text \<open>
  What an engine \<open>g'\<close> has recorded after the state \<open>g\<close> it developed from.
\<close>

definition since :: "engine \<Rightarrow> engine \<Rightarrow> (int \<times> effect) list" where
  "since g g' = drop (length (trace g)) (trace g')"

text \<open>What running a list of deferred callbacks makes the browser do, in order.\<close>

definition replayed :: "(int \<times> actionDetails \<times> domElement) list \<Rightarrow> effect list" where
  "replayed tasks =
     map Performed
       (List.map_filter (\<lambda>task. executeDefaultAction (Some (fst (snd task))) (snd (snd task))) tasks)"

text \<open>
  A field of a rule that is absent or holds only white space: the negation of the test
  \<^verbatim>\<open>field && field.trim() !== ""\<close> of lines 411 and 415.
\<close>

definition isBlank :: "string option \<Rightarrow> bool" where
  "isBlank field = (case field of None \<Rightarrow> True | Some txt \<Rightarrow> trim txt = [])"

section \<open>Example states\<close>

text \<open>A container that is ready, with a small tree, for concrete evaluations.\<close>

definition smallTree :: jsval where
  "smallTree = JObj [(''page'', JObj [(''name'', JStr ''home''), (''title'', JStr ''HOME'')]),
                     (''cart'', JObj []),
                     (''person'', JObj [(''gender'', JStr ''f''),
                                        (''name'', JObj [(''firstName'', JStr ''Ada'')])])]"

definition readyState :: container where
  "readyState =
     \<lparr>dataLayer = Some smallTree, dataLayerReady = True, dataLayerUpdating = False,
      dataLayerQueue = [], cartQueue = [], accessorDefined = True, localStorage = [],
      storageFull = False, events = [], timers = [], console = []\<rparr>"

text \<open>The state of the module before \<open>buildCustomDataLayer\<close> runs, with empty queues.\<close>

definition freshState :: container where
  "freshState =
     \<lparr>dataLayer = None, dataLayerReady = False, dataLayerUpdating = False,
      dataLayerQueue = [], cartQueue = [], accessorDefined = False, localStorage = [],
      storageFull = False, events = [], timers = [], console = []\<rparr>"

text \<open>Two products for concrete evaluations.\<close>

definition shirt :: productData where
  "shirt = \<lparr>p_id = Some ''sku1'', p_name = ''Shirt'', p_image = ''shirt.png'',
     p_thumbnail = ''shirt-small.png'', p_category = ''tops'', p_description = ''A shirt'',
     p_price = 25 / 2, p_quantity = Some 2\<rparr>"

definition socks :: productData where
  "socks = \<lparr>p_id = Some ''sku2'', p_name = ''Socks'', p_image = ''socks.png'',
     p_thumbnail = ''socks-small.png'', p_category = ''feet'', p_description = ''Socks'',
     p_price = 3, p_quantity = None\<rparr>"

text \<open>A ready container whose cart holds five shirts.\<close>

definition exampleItem :: jsval where
  "exampleItem = JObj [(''id'', JStr ''sku1''), (''sku'', JStr ''sku1''), (''name'', JStr ''Shirt''),
                       (''quantity'', JNum 5), (''price'', JNum 2), (''subTotal'', JNum 10),
                       (''total'', JNum 10)]"

definition exampleCart :: jsval where
  "exampleCart = JObj [(''productCount'', JNum 5), (''products'', JObj [(''sku1'', exampleItem)]),
                       (''subTotal'', JNum 10), (''total'', JNum 10)]"

definition cartState :: container where
  "cartState = readyState\<lparr>dataLayer := Some (JObj [(''page'', JObj []), (''cart'', exampleCart)])\<rparr>"

text \<open>
  A ready container whose cart holds five items under the id \<^verbatim>\<open>constructor\<close>, and a
  product with that id.
\<close>

definition constructorItem :: jsval where
  "constructorItem = JObj [(''id'', JStr ''constructor''), (''sku'', JStr ''constructor''),
                           (''name'', JStr ''Kit''), (''quantity'', JNum 5), (''price'', JNum 2),
                           (''subTotal'', JNum 10), (''total'', JNum 10)]"

definition constructorState :: container where
  "constructorState = readyState\<lparr>dataLayer :=
     Some (JObj [(''page'', JObj []),
                 (''cart'', JObj [(''productCount'', JNum 5),
                                  (''products'', JObj [(''constructor'', constructorItem)]),
                                  (''subTotal'', JNum 10), (''total'', JNum 10)])])\<rparr>"

definition kit :: productData where
  "kit = \<lparr>p_id = Some ''constructor'', p_name = ''Kit'', p_image = ''kit.png'',
     p_thumbnail = ''kit-small.png'', p_category = ''tools'', p_description = ''A kit'',
     p_price = 2, p_quantity = Some 2\<rparr>"

text \<open>Containers with pending queue entries, and one with a persisted record.\<close>

definition queuedWrites :: container where
  "queuedWrites = readyState\<lparr>dataLayerQueue :=
     [(JObj [(''person'', JObj [(''gender'', JStr ''m'')])], True),
      (JObj [(''page'', JObj [(''name'', JStr ''cart'')])], False)]\<rparr>"

definition queuedAdds :: container where
  "queuedAdds = readyState\<lparr>cartQueue := [shirt, socks]\<rparr>"

definition persistedState :: container where
  "persistedState = freshState\<lparr>localStorage :=
     [(''luma_dataLayer'', Tree smallTree), (''luma_dataLayer_timestamp'', Time 500)]\<rparr>"

text \<open>A container with pending work and with both persisted records.\<close>

definition shopState :: container where
  "shopState = cartState\<lparr>
     dataLayerQueue := [(JObj [(''page'', JObj [])], True)],
     cartQueue := [socks],
     localStorage := [(''luma_dataLayer'', Tree (JObj [(''page'', JObj []), (''cart'', exampleCart)])),
                      (''luma_dataLayer_timestamp'', Time 500),
                      (''luma_checkout_data'', Tree (JObj [(''city'', JStr ''Oslo'')])),
                      (''luma_checkout_data_timestamp'', Time 400)]\<rparr>"

text \<open>A container before startup whose persisted record was written at time 0.\<close>

definition oldRecordState :: container where
  "oldRecordState = freshState\<lparr>localStorage :=
     [(''luma_dataLayer'', Tree smallTree), (''luma_dataLayer_timestamp'', Time 0)]\<rparr>"

text \<open>
  An engine at time 1000 on which nothing has happened; the page \<^verbatim>\<open>/cart\<close>, fully
  loaded, whose regular expression constructor knows the one pattern that the example
  rules use; a link to the checkout; a click rule for it; and a rule for the cart page
  with a given trigger and selector.
\<close>

definition idle :: engine where
  "idle = \<lparr>clock = 1000, trace = [], pending = [], documentClickListeners = [], loadListeners = []\<rparr>"

definition cartPage :: browser where
  "cartPage = \<lparr>pathname = ''/cart'', search = [], readyStateComplete = True,
     regExp = (\<lambda>src. if src = regexPattern ''/account/*''
                     then Some (\<lambda>path. take 9 path = ''/account/'') else None)\<rparr>"

definition checkoutLink :: domElement where
  "checkoutLink = \<lparr>tagName = ''A'', href = ''/checkout'', linkTarget = [], inputType = [],
     ownForm = \<lparr>formAction = [], formMethod = [], formTarget = []\<rparr>, closestForm = None\<rparr>"

definition checkoutRule :: clickRule where
  "checkoutRule = \<lparr>ruleEvent = ''checkout-click'', ruleSelector = ''.checkout-btn'',
     rulePreventDefault = True, ruleBeaconDelay = 100\<rparr>"

definition cartViewRule :: "string option \<Rightarrow> string option \<Rightarrow> eventConfig" where
  "cartViewRule kind selector = \<lparr>cfgPage = Some ''/cart'', cfgExcludes = Some ''/checkout, /account/*'',
     cfgEvent = Some ''cart-view'', cfgTrigger = kind, cfgElement = selector,
     cfgPreventDefaultAction = None, cfgBeaconDelay = None\<rparr>"

section \<open>Properties of the merge algorithm\<close>

lemma isObject_truthy: "isObject v \<Longrightarrow> truthy v"
  by (simp add: isObject_def)

lemma isObject_JObj [simp]: "isObject (JObj kvs)"
  by (simp add: isObject_def)

lemma isObject_cases: "isObject v \<Longrightarrow> \<exists>kvs. v = JObj kvs"
  by (cases v) (auto simp: isObject_def)

lemma spread_object: "isObject v \<Longrightarrow> JObj (spread v) = v"
  by (cases v) (auto simp: isObject_def)

lemma fold_assign_lookup:
  "map_of (fold (\<lambda>key output. case h key of None \<Rightarrow> output | Some v \<Rightarrow> AList.update key v output) ks out) k
   = (if k \<in> set ks then (case h k of None \<Rightarrow> map_of out k | Some v \<Rightarrow> Some v) else map_of out k)"
  by (induction ks arbitrary: out) (auto simp: update_conv' split: option.splits)

text \<open>
  A loop of assignments never gives the output an own \<^verbatim>\<open>__proto__\<close> that it did not
  have, so the assignments to that key can be decided once, from the initial output.
\<close>

lemma fold_assignProperty:
  assumes "(map_of out ''__proto__'' = None) = absent"
  shows "fold (\<lambda>key output. case h key of None \<Rightarrow> output | Some v \<Rightarrow> assignProperty key v output) ks out
       = fold (\<lambda>key output. case (if key = ''__proto__'' \<and> absent then None else h key) of
                                None \<Rightarrow> output | Some v \<Rightarrow> AList.update key v output) ks out"
  using assms
proof (induction ks arbitrary: out)
  case Nil
  show ?case by simp
next
  case (Cons key ks)
  let ?step = "case h key of None \<Rightarrow> out | Some v \<Rightarrow> assignProperty key v out"
  have same: "(map_of ?step ''__proto__'' = None) = absent"
    using Cons.prems by (auto simp: assignProperty_def update_conv' split: option.splits)
  have step: "?step = (case (if key = ''__proto__'' \<and> absent then None else h key) of
                         None \<Rightarrow> out | Some v \<Rightarrow> AList.update key v out)"
    using Cons.prems by (auto simp: assignProperty_def split: option.splits)
  show ?case
    using Cons.IH[OF same] step by simp
qed

lemma deepMerge_objects:
  assumes "isObject target" "isObject source"
  shows "deepMerge target source =
     JObj (fold (\<lambda>key output. case mergedValue target source key of
                    None \<Rightarrow> output | Some v \<Rightarrow> AList.update key v output)
             (objectKeys source) (spread target))"
proof -
  define h where "h = (\<lambda>key. case getProp source key of
                 None \<Rightarrow> None
               | Some sv \<Rightarrow>
                   Some (if isObject sv then
                     (case getProp target key of
                        None \<Rightarrow> JObj (spread sv)
                      | Some tv \<Rightarrow> if isObject tv then deepMerge tv sv else JObj (spread sv))
                   else sv))"
  have eq: "(\<lambda>key output.
               case getProp source key of
                 None \<Rightarrow> output
               | Some sv \<Rightarrow>
                   if isObject sv then
                     (case getProp target key of
                        None \<Rightarrow> assignProperty key (JObj (spread sv)) output
                      | Some tv \<Rightarrow>
                          if \<not> truthy tv \<or> \<not> isObject tv
                          then assignProperty key (JObj (spread sv)) output
                          else assignProperty key (deepMerge tv sv) output)
                   else assignProperty key sv output)
        = (\<lambda>key output. case h key of
                    None \<Rightarrow> output | Some v \<Rightarrow> assignProperty key v output)"
    by (intro ext) (auto simp: h_def isObject_truthy split: option.splits)
  have a: "deepMerge target source =
      JObj (fold (\<lambda>key output. case h key of
                     None \<Rightarrow> output | Some v \<Rightarrow> assignProperty key v output)
              (objectKeys source) (spread target))"
    using assms by (subst deepMerge.simps) (simp add: eq isObject_truthy)
  have "(map_of (spread target) ''__proto__'' = None) = (getProp target ''__proto__'' = None)"
    by (simp add: getProp_def)
  note b = fold_assignProperty[OF this, of h "objectKeys source"]
  have c: "(\<lambda>key output.
              case (if key = ''__proto__'' \<and> getProp target ''__proto__'' = None then None else h key) of
                None \<Rightarrow> output | Some v \<Rightarrow> AList.update key v output)
        = (\<lambda>key output. case mergedValue target source key of
                    None \<Rightarrow> output | Some v \<Rightarrow> AList.update key v output)"
    by (intro ext) (auto simp: mergedValue_def h_def split: option.splits)
  show ?thesis by (simp only: a b c)
qed

lemma deepMerge_isObject: "isObject T \<Longrightarrow> isObject (deepMerge T P)"
  by (subst deepMerge.simps) (simp add: isObject_truthy)

lemma deepMerge_lookup:
  "getProp (deepMerge (JObj ts) (JObj ps)) k =
     (case mergedValue (JObj ts) (JObj ps) k of None \<Rightarrow> map_of ts k | Some v \<Rightarrow> Some v)"
proof -
  have mem: "k \<in> set (objectKeys (JObj ps)) \<longleftrightarrow> map_of ps k \<noteq> None"
    by (simp add: objectKeys_def map_of_eq_None_iff)
  have none: "map_of ps k = None \<Longrightarrow> mergedValue (JObj ts) (JObj ps) k = None"
    by (simp add: mergedValue_def getProp_def)
  have "getProp (deepMerge (JObj ts) (JObj ps)) k =
      (if k \<in> set (objectKeys (JObj ps))
       then (case mergedValue (JObj ts) (JObj ps) k of None \<Rightarrow> map_of ts k | Some v \<Rightarrow> Some v)
       else map_of ts k)"
    by (subst deepMerge_objects) (simp_all add: getProp_def fold_assign_lookup)
  then show ?thesis
    using mem none by (cases "map_of ps k") (auto split: option.splits)
qed

lemma getPath_Cons_object: "getPath v (key # path) = Some w \<Longrightarrow> isObject v"
  by (simp split: if_splits)

text \<open>
  A leaf of the payload, at any depth, is the value at the same path of the result,
  when no key on the path is \<^verbatim>\<open>__proto__\<close>.
\<close>

lemma deepMerge_leaf:
  assumes "isObject T" "getPath P path = Some v" "\<not> isObject v" "path \<noteq> []"
    "''__proto__'' \<notin> set path"
  shows "getPath (deepMerge T P) path = Some v"
  using assms
proof (induction path arbitrary: T P)
  case Nil
  then show ?case by simp
next
  case (Cons key path)
  from Cons.prems(5) have kp: "key \<noteq> ''__proto__''" "''__proto__'' \<notin> set path" by auto
  from Cons.prems(2) have objP: "isObject P" by (rule getPath_Cons_object)
  obtain ts ps where T: "T = JObj ts" and P: "P = JObj ps"
    using Cons.prems(1) objP by (auto dest!: isObject_cases)
  from Cons.prems(2) P obtain w where w: "map_of ps key = Some w" "getPath w path = Some v"
    by (auto simp: getProp_def split: option.splits)
  show ?case
  proof (cases "path = []")
    case True
    with w Cons.prems(3) kp(1) have "mergedValue T P key = Some v"
      by (simp add: mergedValue_def getProp_def P)
    then have "getProp (deepMerge T P) key = Some v"
      by (simp add: T P deepMerge_lookup)
    then show ?thesis
      using True by (simp add: deepMerge_isObject T P)
  next
    case False
    then obtain k' rest where path: "path = k' # rest" by (cases path) auto
    with w have objw: "isObject w" by (auto split: if_splits)
    show ?thesis
    proof (cases "\<exists>tv. map_of ts key = Some tv \<and> isObject tv")
      case True
      then obtain tv where tv: "map_of ts key = Some tv" "isObject tv" by blast
      then have "mergedValue T P key = Some (deepMerge tv w)"
        using w objw by (simp add: mergedValue_def getProp_def T P)
      then have "getProp (deepMerge T P) key = Some (deepMerge tv w)"
        by (simp add: T P deepMerge_lookup)
      moreover have "getPath (deepMerge tv w) path = Some v"
        using Cons.IH[OF tv(2) w(2) Cons.prems(3) False kp(2)] .
      ultimately show ?thesis
        by (simp add: deepMerge_isObject T P)
    next
      case False
      then have "mergedValue T P key = Some w"
        using w objw kp(1)
        by (auto simp: mergedValue_def getProp_def T P spread_object split: option.splits)
      then have "getProp (deepMerge T P) key = Some w"
        by (simp add: T P deepMerge_lookup)
      then show ?thesis
        using w by (simp add: deepMerge_isObject T P)
    qed
  qed
qed

text \<open>
  Where the payload and the tree both have a mapping at a path, a key that the payload's
  mapping lacks keeps the value it has in the tree.
\<close>

lemma deepMerge_frame:
  assumes "getPath P path = Some (JObj ss)" "getPath T path = Some (JObj tt)" "map_of ss key = None"
  shows "getPath (deepMerge T P) (path @ [key]) = getPath T (path @ [key])"
  using assms
proof (induction path arbitrary: T P)
  case Nil
  then have "mergedValue T P key = None"
    by (simp add: mergedValue_def getProp_def)
  then have "getProp (deepMerge (JObj tt) (JObj ss)) key = map_of tt key"
    using Nil by (simp add: deepMerge_lookup)
  moreover have "getProp T key = map_of tt key"
    using Nil by (simp add: getProp_def)
  ultimately show ?case
    using Nil by (simp add: deepMerge_isObject)
next
  case (Cons k path)
  have "isObject T" "isObject P"
    using Cons.prems by (auto split: if_splits)
  then obtain ts ps where T: "T = JObj ts" and P: "P = JObj ps"
    by (auto dest!: isObject_cases)
  from Cons.prems(1) P obtain pw where pw: "map_of ps k = Some pw" "getPath pw path = Some (JObj ss)"
    by (auto simp: getProp_def split: option.splits)
  from Cons.prems(2) T obtain tw where tw: "map_of ts k = Some tw" "getPath tw path = Some (JObj tt)"
    by (auto simp: getProp_def split: option.splits)
  have objs: "isObject pw" "isObject tw"
    using pw(2) tw(2) by (cases path; auto split: if_splits)+
  then have "mergedValue T P k = Some (deepMerge tw pw)"
    using pw tw by (simp add: mergedValue_def getProp_def T P)
  then have "getProp (deepMerge T P) k = Some (deepMerge tw pw)"
    by (simp add: T P deepMerge_lookup)
  moreover have "getPath (deepMerge tw pw) (path @ [key]) = getPath tw (path @ [key])"
    using Cons.IH[OF pw(2) tw(2) Cons.prems(3)] .
  ultimately show ?case
    using tw by (simp add: T P deepMerge_isObject getProp_def)
qed

section \<open>Properties of the container's primitives\<close>

lemma logLine_fields [simp]:
  "dataLayer (logLine l m s) = dataLayer s"
  "dataLayerReady (logLine l m s) = dataLayerReady s"
  "dataLayerUpdating (logLine l m s) = dataLayerUpdating s"
  "dataLayerQueue (logLine l m s) = dataLayerQueue s"
  "cartQueue (logLine l m s) = cartQueue s"
  "accessorDefined (logLine l m s) = accessorDefined s"
  "localStorage (logLine l m s) = localStorage s"
  "storageFull (logLine l m s) = storageFull s"
  "events (logLine l m s) = events s"
  "timers (logLine l m s) = timers s"
  "console (logLine l m s) = console s @ [(l, m)]"
  by (simp_all add: logLine_def)

lemma dispatch_fields [simp]:
  "dataLayer (dispatchDataLayerEvent t s) = dataLayer s"
  "dataLayerReady (dispatchDataLayerEvent t s) = dataLayerReady s"
  "dataLayerUpdating (dispatchDataLayerEvent t s) = dataLayerUpdating s"
  "dataLayerQueue (dispatchDataLayerEvent t s) = dataLayerQueue s"
  "cartQueue (dispatchDataLayerEvent t s) = cartQueue s"
  "accessorDefined (dispatchDataLayerEvent t s) = accessorDefined s"
  "localStorage (dispatchDataLayerEvent t s) = localStorage s"
  "storageFull (dispatchDataLayerEvent t s) = storageFull s"
  "events (dispatchDataLayerEvent t s) = events s @ [(t, snapshot s)]"
  "timers (dispatchDataLayerEvent t s) = timers s"
  "console (dispatchDataLayerEvent t s) = console s"
  by (simp_all add: dispatchDataLayerEvent_def)

lemma persist_fields [simp]:
  "dataLayer (persist now w s) = dataLayer s"
  "dataLayerReady (persist now w s) = dataLayerReady s"
  "dataLayerUpdating (persist now w s) = dataLayerUpdating s"
  "dataLayerQueue (persist now w s) = dataLayerQueue s"
  "cartQueue (persist now w s) = cartQueue s"
  "accessorDefined (persist now w s) = accessorDefined s"
  "storageFull (persist now w s) = storageFull s"
  "events (persist now w s) = events s"
  "timers (persist now w s) = timers s"
  by (simp_all add: persist_def)

lemma snapshot_simps [simp]:
  "snapshot (logLine l m s) = snapshot s"
  "snapshot (dispatchDataLayerEvent t s) = snapshot s"
  "snapshot (persist now w s) = snapshot s"
  "snapshot (s\<lparr>dataLayer := Some v\<rparr>) = v"
  "snapshot (s\<lparr>dataLayerUpdating := u\<rparr>) = snapshot s"
  "snapshot (s\<lparr>dataLayerQueue := q\<rparr>) = snapshot s"
  "snapshot (s\<lparr>cartQueue := cq\<rparr>) = snapshot s"
  "snapshot (s\<lparr>timers := ts\<rparr>) = snapshot s"
  by (simp_all add: snapshot_def)

lemma dataLayerMissing_simps [simp]:
  "dataLayerMissing (logLine l m s) = dataLayerMissing s"
  "dataLayerMissing (dispatchDataLayerEvent t s) = dataLayerMissing s"
  "dataLayerMissing (persist now w s) = dataLayerMissing s"
  "dataLayerMissing (s\<lparr>dataLayer := Some v\<rparr>) = (\<not> truthy v)"
  "dataLayerMissing (s\<lparr>dataLayerUpdating := u\<rparr>) = dataLayerMissing s"
  "dataLayerMissing (s\<lparr>dataLayerQueue := q\<rparr>) = dataLayerMissing s"
  "dataLayerMissing (s\<lparr>cartQueue := cq\<rparr>) = dataLayerMissing s"
  "dataLayerMissing (s\<lparr>timers := ts\<rparr>) = dataLayerMissing s"
  by (simp_all add: dataLayerMissing_def)

text \<open>A write that is applied at once: the tree it leaves.\<close>

lemma updateDataLayer_applied:
  assumes "dataLayerReady s" "dataLayer s = Some tree" "truthy tree"
    and "truthy u" "typeofObject u"
  shows "dataLayer (updateDataLayer now (Some u) merge s) = Some (applyUpdate u merge tree)"
  using assms by (simp add: updateDataLayer_def Let_def dataLayerMissing_def snapshot_def)


section \<open>Claim C1: deep merge through the write operation\<close>

text \<open>
  A payload \<open>P\<close> (a mapping) written with the deep-merge mode into a ready container
  whose tree is \<open>T\<close> leaves a tree \<open>R\<close> in which every key of \<open>T\<close> that \<open>P\<close> lacks keeps
  its value. Take a key other than \<^verbatim>\<open>__proto__\<close>, or one that \<open>T\<close> owns: if \<open>P\<close> maps it to
  a value that is not a plain mapping (null, empty string, array and so on), \<open>R\<close> holds
  \<open>P\<close>'s value; if \<open>P\<close> maps it to a plain mapping, \<open>R\<close> holds the recursive merge of the
  two mappings when \<open>T\<close> has a mapping there, and \<open>P\<close>'s mapping when \<open>T\<close> has nothing or
  something else there. The same holds at any depth: every leaf of \<open>P\<close> whose path does
  not go through \<^verbatim>\<open>__proto__\<close> is found at its path in \<open>R\<close>, and below a path at which
  both trees have a mapping, a key absent from \<open>P\<close>'s mapping keeps the value of \<open>T\<close>.
\<close>

lemma deepMerge_write:
  assumes "dataLayerReady s" and "dataLayer s = Some (JObj T)"
  shows "\<exists>R. dataLayer (updateDataLayer now (Some (JObj P)) True s) = Some (JObj R) \<and>
     (\<forall>key. map_of P key = None \<longrightarrow> map_of R key = map_of T key) \<and>
     (\<forall>key v. map_of P key = Some v \<and> \<not> isObject v \<and>
              (key \<noteq> ''__proto__'' \<or> map_of T key \<noteq> None) \<longrightarrow> map_of R key = Some v) \<and>
     (\<forall>key v. map_of P key = Some v \<and> isObject v \<and>
              (key \<noteq> ''__proto__'' \<or> map_of T key \<noteq> None) \<longrightarrow>
        map_of R key =
          Some (case map_of T key of
                  None \<Rightarrow> v
                | Some t \<Rightarrow> if isObject t then deepMerge t v else v)) \<and>
     (\<forall>path v. path \<noteq> [] \<and> getPath (JObj P) path = Some v \<and> \<not> isObject v \<and>
               ''__proto__'' \<notin> set path \<longrightarrow>
        getPath (JObj R) path = Some v) \<and>
     (\<forall>path key sub tsub.
        getPath (JObj P) path = Some (JObj sub) \<and> getPath (JObj T) path = Some (JObj tsub) \<and>
        map_of sub key = None \<longrightarrow>
        getPath (JObj R) (path @ [key]) = getPath (JObj T) (path @ [key]))"
proof -
  let ?M = "deepMerge (JObj T) (JObj P)"
  have "isObject ?M" by (simp add: deepMerge_isObject)
  then obtain R where R: "?M = JObj R" by (auto dest: isObject_cases)
  have written: "dataLayer (updateDataLayer now (Some (JObj P)) True s) = Some (JObj R)"
    using assms R by (simp add: updateDataLayer_applied applyUpdate_def)
  have look: "map_of R key = (case mergedValue (JObj T) (JObj P) key of None \<Rightarrow> map_of T key | Some v \<Rightarrow> Some v)" for key
    using deepMerge_lookup[of T P key] R by (simp add: getProp_def)
  have absent: "\<forall>key. map_of P key = None \<longrightarrow> map_of R key = map_of T key"
    by (simp add: look mergedValue_def getProp_def)
  have leaf: "\<forall>key v. map_of P key = Some v \<and> \<not> isObject v \<and>
              (key \<noteq> ''__proto__'' \<or> map_of T key \<noteq> None) \<longrightarrow> map_of R key = Some v"
    by (auto simp: look mergedValue_def getProp_def)
  have nested: "\<forall>key v. map_of P key = Some v \<and> isObject v \<and>
              (key \<noteq> ''__proto__'' \<or> map_of T key \<noteq> None) \<longrightarrow>
        map_of R key =
          Some (case map_of T key of
                  None \<Rightarrow> v
                | Some t \<Rightarrow> if isObject t then deepMerge t v else v)"
    by (auto simp: look mergedValue_def getProp_def spread_object split: option.splits)
  have deep: "\<forall>path v. path \<noteq> [] \<and> getPath (JObj P) path = Some v \<and> \<not> isObject v \<and>
               ''__proto__'' \<notin> set path \<longrightarrow>
        getPath (JObj R) path = Some v"
    using deepMerge_leaf[of "JObj T" "JObj P"] R by simp
  have frame: "\<forall>path key sub tsub.
        getPath (JObj P) path = Some (JObj sub) \<and> getPath (JObj T) path = Some (JObj tsub) \<and>
        map_of sub key = None \<longrightarrow>
        getPath (JObj R) (path @ [key]) = getPath (JObj T) (path @ [key])"
    using deepMerge_frame[of "JObj P" _ _ "JObj T"] R by metis
  from written absent leaf nested deep frame show ?thesis by blast
qed


text \<open>
  C1. The claim says that every leaf of a payload written with the deep-merge mode
  overwrites the corresponding leaf of the tree. A payload can own a key named
  \<^verbatim>\<open>__proto__\<close> (\<^verbatim>\<open>JSON.parse\<close> creates it as an own property, and \<^verbatim>\<open>Object.keys\<close> lists
  it). \<^verbatim>\<open>deepMerge\<close> writes a leaf with \<^verbatim>\<open>output[key] = source[key]\<close>, under the comment
  \<^verbatim>\<open>Primitive value or null, just replace\<close>; for this key, on a tree that has no own
  property of that name, the assignment goes to the accessor inherited from
  \<^verbatim>\<open>Object.prototype\<close> and stores nothing. Evaluated on a ready container, for the
  payload \<^verbatim>\<open>{"__proto__": 5}\<close> and for the payload
  \<^verbatim>\<open>{"person": {"__proto__": "x", "gender": "m"}}\<close>: the leaves under \<^verbatim>\<open>__proto__\<close> are
  leaves of the payload and are not in the tree after the write, at the root or below
  \<^verbatim>\<open>person\<close>; the first write leaves the tree as it was and still dispatches its
  notification; the leaf \<^verbatim>\<open>gender\<close> next to the lost one is written.
\<close>

theorem proto_leaf_not_written:
  "getPath (JObj [(''__proto__'', JNum 5)]) [''__proto__''] = Some (JNum 5) \<and>
   \<not> isObject (JNum 5) \<and>
   getPath (snapshot (updateDataLayer 7 (Some (JObj [(''__proto__'', JNum 5)])) True readyState))
     [''__proto__''] = None \<and>
   dataLayer (updateDataLayer 7 (Some (JObj [(''__proto__'', JNum 5)])) True readyState) =
     dataLayer readyState \<and>
   map fst (events (updateDataLayer 7 (Some (JObj [(''__proto__'', JNum 5)])) True readyState)) =
     [''updated''] \<and>
   getPath (JObj [(''person'', JObj [(''__proto__'', JStr ''x''), (''gender'', JStr ''m'')])])
     [''person'', ''__proto__''] = Some (JStr ''x'') \<and>
   \<not> isObject (JStr ''x'') \<and>
   getPath (snapshot (updateDataLayer 7
              (Some (JObj [(''person'', JObj [(''__proto__'', JStr ''x''), (''gender'', JStr ''m'')])]))
              True readyState))
     [''person'', ''__proto__''] = None \<and>
   getPath (snapshot (updateDataLayer 7
              (Some (JObj [(''person'', JObj [(''__proto__'', JStr ''x''), (''gender'', JStr ''m'')])]))
              True readyState))
     [''person'', ''gender''] = Some (JStr ''m'')"
  by code_simp


theorem proto_leaf_not_written_witness:
  "\<exists>P path v. getPath P path = Some v \<and> \<not> isObject v \<and>
     getPath (snapshot (updateDataLayer 7 (Some P) True readyState)) path = None"
  using proto_leaf_not_written
  by (intro exI[of _ "JObj [(''__proto__'', JNum 5)]"] exI[of _ "[''__proto__'']"]
      exI[of _ "JNum 5"]) simp



section \<open>Properties of the cart operations\<close>

lemma list_all_update:
  "list_all P (map snd ps) \<Longrightarrow> P v \<Longrightarrow> list_all P (map snd (AList.update k v ps))"
  by (induction ps) auto

lemma list_all_delete:
  "list_all P (map snd ps) \<Longrightarrow> list_all P (map snd (AList.delete k ps))"
  by (induction ps) (auto simp: AList.delete_eq)

lemma list_all_lookup:
  "list_all P (map snd ps) \<Longrightarrow> map_of ps k = Some v \<Longrightarrow> P v"
  by (induction ps) (auto split: if_splits)

lemma numberProp_update:
  "numberProp (JObj (AList.update k (JNum n) fs)) k' =
     (if k' = k then Some n else numberProp (JObj fs) k')"
  by (simp add: numberProp_def getProp_def update_conv')

lemma itemNumber_ok:
  assumes "lineItemOk item"
  shows "itemNumber ''quantity'' item = Inr (itemField ''quantity'' item)"
    and "itemNumber ''subTotal'' item = Inr (itemField ''subTotal'' item)"
  using assms
  by (auto simp: lineItemOk_def isLineItem_def itemNumber_def itemField_def)

lemma fold_sum_ok:
  assumes "list_all (\<lambda>p. itemNumber field p = Inr (g p)) vals"
  shows "fold (\<lambda>p acc. case acc of
                      Inl e \<Rightarrow> Inl e
                    | Inr soFar \<Rightarrow> (case itemNumber field p of Inl e \<Rightarrow> Inl e | Inr n \<Rightarrow> Inr (soFar + n)))
       vals (Inr a) = Inr (a + sum_list (map g vals))"
  using assms by (induction vals arbitrary: a) (auto simp: add.assoc)

lemma reduceSum_ok:
  assumes "list_all lineItemOk vals"
  shows "reduceSum ''quantity'' vals = Inr (sum_list (map (itemField ''quantity'') vals))"
    and "reduceSum ''subTotal'' vals = Inr (sum_list (map (itemField ''subTotal'') vals))"
proof -
  have q: "list_all (\<lambda>p. itemNumber ''quantity'' p = Inr (itemField ''quantity'' p)) vals"
    and t: "list_all (\<lambda>p. itemNumber ''subTotal'' p = Inr (itemField ''subTotal'' p)) vals"
    using assms by (auto simp: list_all_iff itemNumber_ok)
  show "reduceSum ''quantity'' vals = Inr (sum_list (map (itemField ''quantity'') vals))"
    unfolding reduceSum_def using fold_sum_ok[OF q, of 0] by simp
  show "reduceSum ''subTotal'' vals = Inr (sum_list (map (itemField ''subTotal'') vals))"
    unfolding reduceSum_def using fold_sum_ok[OF t, of 0] by simp
qed


lemma recalculateTotals_ok:
  assumes "list_all lineItemOk (map snd products)"
  shows "recalculateTotals products currentCart =
     Inr (JObj (AList.update ''total'' (JNum (sum_list (map (itemField ''subTotal'' \<circ> snd) products)))
                 (AList.update ''subTotal'' (JNum (sum_list (map (itemField ''subTotal'' \<circ> snd) products)))
                   (AList.update ''productCount'' (JNum (sum_list (map (itemField ''quantity'' \<circ> snd) products)))
                     (AList.update ''products'' (JObj products) (spread currentCart))))))"
  using reduceSum_ok[OF assms] by (simp add: recalculateTotals_def comp_def)

lemma fullCart_recalculated:
  assumes "list_all lineItemOk (map snd products)" "distinct (map fst products)"
  shows "fullCart (JObj (AList.update ''total'' (JNum (sum_list (map (itemField ''subTotal'' \<circ> snd) products)))
                 (AList.update ''subTotal'' (JNum (sum_list (map (itemField ''subTotal'' \<circ> snd) products)))
                   (AList.update ''productCount'' (JNum (sum_list (map (itemField ''quantity'' \<circ> snd) products)))
                     (AList.update ''products'' (JObj products) base)))))"
  using assms by (simp add: fullCart_def update_conv')

lemma recalculateTotals_full:
  assumes "list_all lineItemOk (map snd products)" "distinct (map fst products)"
  shows "\<exists>cart'. recalculateTotals products currentCart = Inr cart' \<and> fullCart cart' \<and>
           lineItems cart' = products"
  using assms
  by (simp add: recalculateTotals_ok fullCart_recalculated lineItems_def getProp_def update_conv')


lemma newLineItem_ok: "lineItemOk (newLineItem p)"
  by (cases "p_id p")
    (simp_all add: newLineItem_def lineItemOk_def isLineItem_def itemField_def numberProp_def getProp_def)

lemma lineItemOk_updated:
  assumes "isObject existing" "numberProp existing ''price'' = Some price"
  shows "lineItemOk (JObj (AList.update ''total'' (JNum (q * price))
                 (AList.update ''subTotal'' (JNum (q * price))
                   (AList.update ''quantity'' (JNum q) (spread existing)))))"
proof -
  obtain item where "existing = JObj item" using assms(1) by (auto dest: isObject_cases)
  with assms(2) show ?thesis
    by (simp add: lineItemOk_def isLineItem_def itemField_def numberProp_def getProp_def update_conv')
qed

lemma addLineItem_ok:
  assumes "list_all lineItemOk (map snd products)" "distinct (map fst products)"
  shows "\<exists>products'. addLineItem p products = Inr products' \<and>
           list_all lineItemOk (map snd products') \<and> distinct (map fst products')"
proof (cases "map_of products (productKey p)")
  case None
  then show ?thesis
    using assms by (simp add: addLineItem_def list_all_update newLineItem_ok distinct_update)
next
  case (Some existing)
  with assms have ok: "lineItemOk existing" by (auto dest: list_all_lookup)
  then have obj: "isObject existing" and tr: "truthy existing"
    by (auto simp: lineItemOk_def isLineItem_def isObject_truthy)
  from ok obtain q price where nums: "numberProp existing ''quantity'' = Some q"
    "numberProp existing ''price'' = Some price"
    by (auto simp: lineItemOk_def isLineItem_def)
  have "addLineItem p products =
      Inr (AList.update (productKey p)
            (JObj (AList.update ''total'' (JNum ((q + requestedQuantity p) * price))
                 (AList.update ''subTotal'' (JNum ((q + requestedQuantity p) * price))
                   (AList.update ''quantity'' (JNum (q + requestedQuantity p)) (spread existing)))))
            products)"
    using Some obj tr nums by (simp add: addLineItem_def Let_def)
  then show ?thesis
    using assms lineItemOk_updated[OF obj nums(2)] by (simp add: list_all_update distinct_update)
qed

lemma fullCart_products:
  assumes "fullCart cart"
  shows "\<exists>products. cartProducts cart = Inr products \<and> lineItems cart = products \<and>
           list_all lineItemOk (map snd products) \<and> distinct (map fst products)"
proof -
  from assms obtain cartFields where c: "cart = JObj cartFields"
    by (cases cart) (auto simp: fullCart_def)
  with assms obtain pv where pv: "map_of cartFields ''products'' = Some pv"
    by (cases "map_of cartFields ''products''") (auto simp: fullCart_def)
  with assms c obtain products where p: "pv = JObj products"
    by (cases pv) (auto simp: fullCart_def)
  show ?thesis
    using assms c pv p by (simp add: fullCart_def cartProducts_def lineItems_def getProp_def)
qed

lemma fullCart_emptyCart: "fullCart emptyCart"
  by (simp add: fullCart_def emptyCart_def)

lemma fullCart_invariant:
  assumes "fullCart cart"
  shows "cartInvariant cart"
proof -
  from assms obtain cartFields where c: "cart = JObj cartFields"
    by (cases cart) (auto simp: fullCart_def)
  with assms obtain pv where pv: "map_of cartFields ''products'' = Some pv"
    by (cases "map_of cartFields ''products''") (auto simp: fullCart_def)
  with assms c obtain products where p: "pv = JObj products"
    by (cases pv) (auto simp: fullCart_def)
  have "list_all lineItemOk (map snd products)"
    using assms c pv p by (simp add: fullCart_def)
  then have "list_all (\<lambda>item. isLineItem item \<and>
                       itemField ''subTotal'' item =
                         itemField ''price'' item * itemField ''quantity'' item) (map snd products)"
    by (simp add: list_all_iff lineItemOk_def)
  then show ?thesis
    using assms c pv p
    by (simp add: fullCart_def cartInvariant_def lineItems_def cartNumber_def numberProp_def getProp_def)
qed

lemma empty_invariant: "cartInvariant (JObj [])"
  by (simp add: cartInvariant_def lineItems_def cartNumber_def numberProp_def getProp_def)


lemma cartReadyE:
  assumes "cartReady s"
  obtains tree cartFields where "dataLayerReady s" "dataLayer s = Some (JObj tree)"
    "map_of tree ''cart'' = Some (JObj cartFields)" "cartFields = [] \<or> fullCart (JObj cartFields)"
proof -
  from assms have r: "dataLayerReady s" by (simp add: cartReady_def)
  from assms obtain v where v: "dataLayer s = Some v"
    by (cases "dataLayer s") (auto simp: cartReady_def)
  with assms obtain tree where t: "v = JObj tree"
    by (cases v) (auto simp: cartReady_def)
  with assms v obtain cart where c: "map_of tree ''cart'' = Some cart"
    by (cases "map_of tree ''cart''") (auto simp: cartReady_def)
  with assms v t have d: "cart = JObj [] \<or> fullCart cart" by (simp add: cartReady_def)
  then obtain cartFields where f: "cart = JObj cartFields"
    by (cases cart) (auto simp: fullCart_def)
  show thesis using that[of tree cartFields] r v t c d f by auto
qed

lemma cartReadyI:
  assumes "dataLayerReady s" "dataLayer s = Some (JObj tree)" "map_of tree ''cart'' = Some cart"
    "cart = JObj [] \<or> fullCart cart"
  shows "cartReady s"
  using assms by (auto simp: cartReady_def)

lemma fullCart_nonempty: "fullCart (JObj cartFields) \<Longrightarrow> cartFields \<noteq> []"
  by (auto simp: fullCart_def)

lemma executeAddToCart_ready:
  assumes "cartReady s"
  shows "\<exists>s' cart'. executeAddToCart now p s = Inr s' \<and> cartReady s' \<and>
           getProp (snapshot s') ''cart'' = Some cart' \<and> fullCart cart' \<and>
           events s' = events s @ [(''updated'', snapshot s')] \<and>
           cartQueue s' = cartQueue s \<and> dataLayerQueue s' = dataLayerQueue s"
proof -
  from assms obtain tree cartFields where st: "dataLayerReady s" "dataLayer s = Some (JObj tree)"
    "map_of tree ''cart'' = Some (JObj cartFields)" "cartFields = [] \<or> fullCart (JObj cartFields)"
    by (rule cartReadyE)
  define currentCart where "currentCart = (if objectKeys (JObj cartFields) \<noteq> [] then JObj cartFields else emptyCart)"
  have full: "fullCart currentCart"
    using st(4) by (auto simp: currentCart_def objectKeys_def fullCart_emptyCart dest: fullCart_nonempty)
  then obtain products where ps: "cartProducts currentCart = Inr products"
    "list_all lineItemOk (map snd products)" "distinct (map fst products)"
    using fullCart_products by blast
  then obtain products' where ps': "addLineItem p products = Inr products'"
    "list_all lineItemOk (map snd products')" "distinct (map fst products')"
    using addLineItem_ok by blast
  then obtain cart' where c': "recalculateTotals products' currentCart = Inr cart'" "fullCart cart'"
    using recalculateTotals_full by blast
  define s' where "s' = dispatchDataLayerEvent ''updated''
      (persist now ''Could not persist cart''
        (s\<lparr>dataLayer := Some (JObj (AList.update ''cart'' cart' tree))\<rparr>))"
  have run: "executeAddToCart now p s = Inr s'"
    using st ps(1) ps'(1) c'(1)
    by (simp add: executeAddToCart_def dataLayerMissing_def snapshot_def getProp_def
        currentCart_def[symmetric] s'_def Let_def)
  have dl: "dataLayer s' = Some (JObj (AList.update ''cart'' cart' tree))"
    by (simp add: s'_def)
  have r': "dataLayerReady s'" by (simp add: s'_def st(1))
  have m': "map_of (AList.update ''cart'' cart' tree) ''cart'' = Some cart'"
    by (simp add: update_conv')
  have d': "cart' = JObj [] \<or> fullCart cart'" using c'(2) by blast
  have "cartReady s'" using r' dl m' d' by (rule cartReadyI)
  moreover have "getProp (snapshot s') ''cart'' = Some cart'"
    using dl by (simp add: snapshot_def getProp_def update_conv')
  moreover have "events s' = events s @ [(''updated'', snapshot s')]"
    by (simp add: s'_def)
  moreover have "cartQueue s' = cartQueue s" "dataLayerQueue s' = dataLayerQueue s"
    by (simp_all add: s'_def)
  ultimately show ?thesis using run c'(2) by blast
qed


lemma splitOn_cart: "splitOn CHR ''.'' ''cart'' = [''cart'']"
  by simp

lemma readCurrentCart_ready:
  assumes "dataLayer s = Some (JObj tree)" "map_of tree ''cart'' = Some (JObj cartFields)"
  shows "readCurrentCart s = Inr (JObj cartFields, s)"
  using assms
  by (simp add: readCurrentCart_def getDataLayerProperty_def dataLayerMissing_def snapshot_def
      getProp_def)

lemma replaceCart_ready:
  assumes "dataLayerReady s" "dataLayer s = Some (JObj tree)" "fullCart cart'"
  shows "cartReady (updateDataLayer now (Some (JObj [(''cart'', cart')])) False s)"
proof -
  have dl: "dataLayer (updateDataLayer now (Some (JObj [(''cart'', cart')])) False s) =
        Some (JObj (AList.update ''cart'' cart' tree))"
    using assms(1,2)
    by (simp add: updateDataLayer_applied applyUpdate_def spreadOver_def)
  have r: "dataLayerReady (updateDataLayer now (Some (JObj [(''cart'', cart')])) False s)"
    using assms(1,2) by (simp add: updateDataLayer_def Let_def dataLayerMissing_def)
  have m: "map_of (AList.update ''cart'' cart' tree) ''cart'' = Some cart'"
    by (simp add: update_conv')
  have d: "cart' = JObj [] \<or> fullCart cart'" using assms(3) by blast
  show ?thesis using r dl m d by (rule cartReadyI)
qed

lemma cartReady_logLine: "cartReady s \<Longrightarrow> cartReady (logLine l m s)"
  by (simp add: cartReady_def)

lemma removeFromCart_ready:
  assumes "cartReady s"
  shows "removeFromCart now productId s = Inl TypeError \<or>
         (\<exists>s'. removeFromCart now productId s = Inr s' \<and> cartReady s')"
proof -
  from assms obtain tree cartFields where st: "dataLayerReady s" "dataLayer s = Some (JObj tree)"
    "map_of tree ''cart'' = Some (JObj cartFields)" "cartFields = [] \<or> fullCart (JObj cartFields)"
    by (rule cartReadyE)
  have rd: "readCurrentCart s = Inr (JObj cartFields, s)"
    using st(2,3) by (rule readCurrentCart_ready)
  show ?thesis
  proof (cases "cartFields = []")
    case True
    then have "removeFromCart now productId s = Inl TypeError"
      using rd by (simp add: removeFromCart_def cartProducts_def)
    then show ?thesis by blast
  next
    case False
    with st(4) have full: "fullCart (JObj cartFields)" by blast
    then obtain products where ps: "cartProducts (JObj cartFields) = Inr products"
      "list_all lineItemOk (map snd products)" "distinct (map fst products)"
      using fullCart_products by blast
    have del: "list_all lineItemOk (map snd (AList.delete productId products))"
      "distinct (map fst (AList.delete productId products))"
      using ps by (simp_all add: list_all_delete distinct_delete)
    then obtain cart' where c': "recalculateTotals (AList.delete productId products) (JObj cartFields) = Inr cart'"
      "fullCart cart'"
      using recalculateTotals_full by blast
    show ?thesis
    proof (cases "case map_of products productId of
                    None \<Rightarrow> productId \<in> set objectPrototypeMembers
                  | Some item \<Rightarrow> truthy item")
      case True
      then have "removeFromCart now productId s =
          Inr (logLine Log ''Removed product from cart''
                 (updateDataLayer now (Some (JObj [(''cart'', cart')])) False s))"
        using rd ps(1) c'(1) by (simp add: removeFromCart_def)
      moreover have "cartReady (logLine Log ''Removed product from cart''
                 (updateDataLayer now (Some (JObj [(''cart'', cart')])) False s))"
        using st(1,2) c'(2) by (intro cartReady_logLine replaceCart_ready)
      ultimately show ?thesis by blast
    next
      case False
      then have "removeFromCart now productId s = Inr s"
        using rd ps(1) by (simp add: removeFromCart_def)
      then show ?thesis using assms by blast
    qed
  qed
qed

lemma updateQuantity_ready:
  assumes "cartReady s"
  shows "updateQuantity now productId newQuantity s = Inl TypeError \<or>
         (\<exists>s'. updateQuantity now productId newQuantity s = Inr s' \<and> cartReady s')"
proof (cases "newQuantity < 1")
  case True
  then show ?thesis
    using removeFromCart_ready[OF assms, of now productId] by (simp add: updateQuantity_def)
next
  case notless: False
  from assms obtain tree cartFields where st: "dataLayerReady s" "dataLayer s = Some (JObj tree)"
    "map_of tree ''cart'' = Some (JObj cartFields)" "cartFields = [] \<or> fullCart (JObj cartFields)"
    by (rule cartReadyE)
  have rd: "readCurrentCart s = Inr (JObj cartFields, s)"
    using st(2,3) by (rule readCurrentCart_ready)
  show ?thesis
  proof (cases "cartFields = []")
    case True
    then have "updateQuantity now productId newQuantity s = Inl TypeError"
      using rd notless by (simp add: updateQuantity_def cartProducts_def)
    then show ?thesis by blast
  next
    case False
    with st(4) have full: "fullCart (JObj cartFields)" by blast
    then obtain products where ps: "cartProducts (JObj cartFields) = Inr products"
      "list_all lineItemOk (map snd products)" "distinct (map fst products)"
      using fullCart_products by blast
    show ?thesis
    proof (cases "map_of products productId")
      case None
      show ?thesis
      proof (cases "productId \<in> set objectPrototypeMembers")
        case True
        from ps obtain cart' where c': "recalculateTotals products (JObj cartFields) = Inr cart'"
          "fullCart cart'"
          using recalculateTotals_full by blast
        have "updateQuantity now productId newQuantity s =
            Inr (updateDataLayer now (Some (JObj [(''cart'', cart')])) False s)"
          using rd ps(1) None True c'(1) notless by (simp add: updateQuantity_def)
        moreover have "cartReady (updateDataLayer now (Some (JObj [(''cart'', cart')])) False s)"
          using st(1,2) c'(2) by (rule replaceCart_ready)
        ultimately show ?thesis by blast
      next
        case False
        then have "updateQuantity now productId newQuantity s = Inr s"
          using rd ps(1) None notless by (simp add: updateQuantity_def)
        then show ?thesis using assms by blast
      qed
    next
      case (Some existing)
      with ps have ok: "lineItemOk existing" by (auto dest: list_all_lookup)
      then have obj: "isObject existing" and tr: "truthy existing"
        by (auto simp: lineItemOk_def isLineItem_def isObject_truthy)
      from ok obtain price where price: "numberProp existing ''price'' = Some price"
        by (auto simp: lineItemOk_def isLineItem_def)
      define item3 where "item3 = JObj (AList.update ''total'' (JNum (of_int newQuantity * price))
                 (AList.update ''subTotal'' (JNum (of_int newQuantity * price))
                   (AList.update ''quantity'' (JNum (of_int newQuantity)) (spread existing))))"
      have ok3: "lineItemOk item3"
        unfolding item3_def using obj price by (rule lineItemOk_updated)
      have upd: "list_all lineItemOk (map snd (AList.update productId item3 products))"
        "distinct (map fst (AList.update productId item3 products))"
        using ps ok3 by (simp_all add: list_all_update distinct_update)
      then obtain cart' where c': "recalculateTotals (AList.update productId item3 products) (JObj cartFields) = Inr cart'"
        "fullCart cart'"
        using recalculateTotals_full by blast
      have "updateQuantity now productId newQuantity s =
          Inr (updateDataLayer now (Some (JObj [(''cart'', cart')])) False s)"
        using rd ps(1) Some obj tr price c'(1) notless
        by (simp add: updateQuantity_def Let_def item3_def[symmetric])
      moreover have "cartReady (updateDataLayer now (Some (JObj [(''cart'', cart')])) False s)"
        using st(1,2) c'(2) by (rule replaceCart_ready)
      ultimately show ?thesis by blast
    qed
  qed
qed

lemma addToCart_ready:
  assumes "cartReady s"
  shows "\<exists>s'. addToCart now (Some p) s = Inr s' \<and> cartReady s'"
proof (cases "validProduct (Some p)")
  case False
  then show ?thesis
    using assms by (auto simp: addToCart_def cartReady_logLine)
next
  case True
  from assms have "dataLayerReady s" "\<not> dataLayerMissing s"
    by (auto elim!: cartReadyE simp: dataLayerMissing_def)
  then have "addToCart now (Some p) s = executeAddToCart now p s"
    using True by (simp add: addToCart_def)
  then show ?thesis
    using executeAddToCart_ready[OF assms, of now p] by auto
qed

lemma cartStep_ready:
  assumes "cartReady s"
  shows "cartStep now operation s = Inl TypeError \<or>
         (\<exists>s'. cartStep now operation s = Inr s' \<and> cartReady s')"
proof (cases operation)
  case (Add p)
  then show ?thesis using addToCart_ready[OF assms, of now p] by auto
next
  case (Remove productId)
  then show ?thesis using removeFromCart_ready[OF assms, of now productId] by simp
next
  case (SetQuantity productId newQuantity)
  then show ?thesis using updateQuantity_ready[OF assms, of now productId newQuantity] by simp
qed

lemma runCart_ready: "cartReady s \<Longrightarrow> cartReady (runCart now ops s)"
proof (induction ops arbitrary: s)
  case Nil
  then show ?case by simp
next
  case (Cons operation ops)
  from cartStep_ready[OF Cons.prems, of now operation] show ?case
  proof
    assume "cartStep now operation s = Inl TypeError"
    then show ?thesis using Cons by simp
  next
    assume "\<exists>s'. cartStep now operation s = Inr s' \<and> cartReady s'"
    then show ?thesis using Cons.IH by auto
  qed
qed

lemma cartReady_invariant:
  assumes "cartReady s"
  shows "cartInvariant (cartOf s)"
proof -
  from assms obtain tree cartFields where st: "dataLayerReady s" "dataLayer s = Some (JObj tree)"
    "map_of tree ''cart'' = Some (JObj cartFields)" "cartFields = [] \<or> fullCart (JObj cartFields)"
    by (rule cartReadyE)
  then have "cartOf s = JObj cartFields"
    by (simp add: cartOf_def snapshot_def getProp_def)
  with st(4) show ?thesis
    by (auto simp: empty_invariant fullCart_invariant)
qed


lemma removeFromCart_result:
  assumes "dataLayerReady s" "dataLayer s = Some (JObj tree)" "map_of tree ''cart'' = Some cart"
    "fullCart cart" "map_of (lineItems cart) productId = Some item"
  shows "\<exists>s1 cart1. removeFromCart now productId s = Inr s1 \<and> dataLayerReady s1 \<and>
           dataLayer s1 = Some (JObj (AList.update ''cart'' cart1 tree)) \<and> fullCart cart1 \<and>
           lineItems cart1 = AList.delete productId (lineItems cart)"
proof -
  from assms(4) obtain cartFields where c: "cart = JObj cartFields"
    by (cases cart) (auto simp: fullCart_def)
  from assms(4) obtain products where ps: "cartProducts cart = Inr products" "lineItems cart = products"
    "list_all lineItemOk (map snd products)" "distinct (map fst products)"
    using fullCart_products by blast
  have rd: "readCurrentCart s = Inr (cart, s)"
    using assms(2,3) c by (simp add: readCurrentCart_ready)
  have "lineItemOk item" using ps assms(5) by (auto dest: list_all_lookup)
  then have tr: "truthy item" by (simp add: lineItemOk_def isLineItem_def isObject_truthy)
  have "list_all lineItemOk (map snd (AList.delete productId products))"
    "distinct (map fst (AList.delete productId products))"
    using ps by (simp_all add: list_all_delete distinct_delete)
  then obtain cart1 where c1: "recalculateTotals (AList.delete productId products) cart = Inr cart1"
    "fullCart cart1" "lineItems cart1 = AList.delete productId products"
    using recalculateTotals_full by blast
  define s1 where "s1 = logLine Log ''Removed product from cart''
                 (updateDataLayer now (Some (JObj [(''cart'', cart1)])) False s)"
  have run: "removeFromCart now productId s = Inr s1"
    using rd ps(1,2) assms(5) tr c1(1) by (simp add: removeFromCart_def s1_def)
  have dl: "dataLayer s1 = Some (JObj (AList.update ''cart'' cart1 tree))"
    using assms(1,2) by (simp add: s1_def updateDataLayer_applied applyUpdate_def spreadOver_def)
  have r: "dataLayerReady s1"
    using assms(1,2) by (simp add: s1_def updateDataLayer_def Let_def dataLayerMissing_def)
  show ?thesis using run dl r c1(2,3) ps(2) by auto
qed

lemma executeAddToCart_result:
  assumes "dataLayer s = Some (JObj tree)" "map_of tree ''cart'' = Some cart" "fullCart cart"
  shows "\<exists>s2 products'. executeAddToCart now p s = Inr s2 \<and>
           addLineItem p (lineItems cart) = Inr products' \<and>
           lineItems (cartOf s2) = products' \<and> fullCart (cartOf s2)"
proof -
  from assms(3) obtain cartFields where c: "cart = JObj cartFields"
    by (cases cart) (auto simp: fullCart_def)
  with assms(3) have ne: "objectKeys cart \<noteq> []"
    by (auto simp: objectKeys_def dest: fullCart_nonempty)
  from assms(3) obtain products where ps: "cartProducts cart = Inr products" "lineItems cart = products"
    "list_all lineItemOk (map snd products)" "distinct (map fst products)"
    using fullCart_products by blast
  then obtain products' where ps': "addLineItem p products = Inr products'"
    "list_all lineItemOk (map snd products')" "distinct (map fst products')"
    using addLineItem_ok by blast
  then obtain cart' where c': "recalculateTotals products' cart = Inr cart'" "fullCart cart'"
    "lineItems cart' = products'"
    using recalculateTotals_full by blast
  define s2 where "s2 = dispatchDataLayerEvent ''updated''
      (persist now ''Could not persist cart''
        (s\<lparr>dataLayer := Some (JObj (AList.update ''cart'' cart' tree))\<rparr>))"
  have run: "executeAddToCart now p s = Inr s2"
    using assms(1,2) c ne ps(1) ps'(1) c'(1)
    by (simp add: executeAddToCart_def dataLayerMissing_def snapshot_def getProp_def s2_def Let_def)
  have "cartOf s2 = cart'"
    by (simp add: s2_def cartOf_def getProp_def update_conv')
  then show ?thesis using run ps(2) ps'(1) c'(2,3) by auto
qed

section \<open>Claim C2: the cart invariants\<close>

text \<open>
  C2. Start from a ready container whose cart is the empty cart \<^verbatim>\<open>{}\<close> of a fresh tree
  and run any sequence of \<^verbatim>\<open>addToCart\<close>, \<^verbatim>\<open>removeFromCart\<close> and \<^verbatim>\<open>updateQuantity\<close>
  (which removes for a quantity below 1). In the cart that results, the product count is
  the sum of the quantities of the line items, the subtotal is the sum of their
  subtotals, each line item's subtotal is its price times its quantity, and the total
  equals the subtotal. Since every prefix of a sequence is a sequence, this holds after
  every single operation. No operation of such a sequence leaves the model; the only
  exception is the \<open>TypeError\<close> of a removal or quantity change on the cart \<^verbatim>\<open>{}\<close>,
  which changes nothing.
\<close>

theorem cart_invariants:
  assumes "dataLayerReady s0" and "dataLayer s0 = Some (JObj tree)"
    and "map_of tree ''cart'' = Some (JObj [])"
  shows "cartInvariant (cartOf (runCart now ops s0)) \<and>
         cartStep now operation (runCart now ops s0) \<noteq> Inl OutsideModel"
proof -
  have "cartReady s0"
    using assms by (auto intro: cartReadyI)
  then have ready: "cartReady (runCart now ops s0)"
    by (rule runCart_ready)
  then have "cartInvariant (cartOf (runCart now ops s0))"
    by (rule cartReady_invariant)
  moreover have "cartStep now operation (runCart now ops s0) \<noteq> Inl OutsideModel"
    using cartStep_ready[OF ready, of now operation] by auto
  ultimately show ?thesis by blast
qed

theorem cart_invariants_witness:
  "dataLayerReady readyState \<and> dataLayer readyState = Some smallTree \<and>
   getProp smallTree ''cart'' = Some (JObj []) \<and>
   cartInvariant (cartOf (runCart 5 [Remove ''sku1'', Add shirt, Add socks, Add shirt,
                                      SetQuantity ''sku2'' 4, SetQuantity ''sku1'' 0] readyState)) \<and>
   lineItems (cartOf (runCart 5 [Remove ''sku1'', Add shirt, Add socks, Add shirt,
                                  SetQuantity ''sku2'' 4] readyState)) \<noteq> [] \<and>
   cartNumber ''productCount'' (cartOf (runCart 5 [Remove ''sku1'', Add shirt, Add socks, Add shirt,
                                  SetQuantity ''sku2'' 4] readyState)) = 8 \<and>
   cartNumber ''subTotal'' (cartOf (runCart 5 [Remove ''sku1'', Add shirt, Add socks, Add shirt,
                                  SetQuantity ''sku2'' 4] readyState)) = 62 \<and>
   cartNumber ''total'' (cartOf (runCart 5 [Remove ''sku1'', Add shirt, Add socks, Add shirt,
                                  SetQuantity ''sku2'' 4, SetQuantity ''sku1'' 0] readyState)) = 12"
proof -
  let ?tree = "[(''page'', JObj [(''name'', JStr ''home''), (''title'', JStr ''HOME'')]),
                (''cart'', JObj []),
                (''person'', JObj [(''gender'', JStr ''f''),
                                   (''name'', JObj [(''firstName'', JStr ''Ada'')])])]"
  have h1: "dataLayerReady readyState" by (simp add: readyState_def)
  have h2: "dataLayer readyState = Some (JObj ?tree)" by (simp add: readyState_def smallTree_def)
  have h3: "map_of ?tree ''cart'' = Some (JObj [])" by simp
  have inv: "cartInvariant (cartOf (runCart 5 [Remove ''sku1'', Add shirt, Add socks, Add shirt,
                                      SetQuantity ''sku2'' 4, SetQuantity ''sku1'' 0] readyState))"
    using cart_invariants[OF h1 h2 h3, of 5 _ "Remove ''sku1''"] by blast
  have e1: "lineItems (cartOf (runCart 5 [Remove ''sku1'', Add shirt, Add socks, Add shirt,
                                  SetQuantity ''sku2'' 4] readyState)) \<noteq> []"
    by code_simp
  have e2: "cartNumber ''productCount'' (cartOf (runCart 5 [Remove ''sku1'', Add shirt, Add socks, Add shirt,
                                  SetQuantity ''sku2'' 4] readyState)) = 8"
    by code_simp
  have e3: "cartNumber ''subTotal'' (cartOf (runCart 5 [Remove ''sku1'', Add shirt, Add socks, Add shirt,
                                  SetQuantity ''sku2'' 4] readyState)) = 62"
    by code_simp
  have e4: "cartNumber ''total'' (cartOf (runCart 5 [Remove ''sku1'', Add shirt, Add socks, Add shirt,
                                  SetQuantity ''sku2'' 4, SetQuantity ''sku1'' 0] readyState)) = 12"
    by code_simp
  from h1 h2 h3 inv e1 e2 e3 e4 show ?thesis
    by (simp add: smallTree_def getProp_def)
qed


section \<open>Claim C4: remove, then add the same product\<close>

text \<open>
  In a ready container whose cart is well formed and holds a line item under an id
  \<open>X\<close> that is not the name of a member of \<^verbatim>\<open>Object.prototype\<close>, \<^verbatim>\<open>removeFromCart(X)\<close>
  succeeds and leaves a cart without \<open>X\<close>; adding a product with the id \<open>X\<close> then stores
  the new line item built from that product alone, whose quantity is the requested one
  (1 when none, or 0, is requested). Nothing of the removed line item comes back.
  \<^verbatim>\<open>executeAddToCart\<close> does this for any such \<open>X\<close>, and the public \<^verbatim>\<open>addToCart\<close> for any
  such \<open>X\<close> that it accepts as an id (a non-empty string).
\<close>

lemma remove_then_add:
  assumes "dataLayerReady s" and "dataLayer s = Some (JObj tree)"
    and "map_of tree ''cart'' = Some cart" and "fullCart cart"
    and "map_of (lineItems cart) X = Some item"
    and "p_id p = Some X"
    and "X \<notin> set objectPrototypeMembers"
  shows "\<exists>s1 s2. removeFromCart now X s = Inr s1 \<and>
           map_of (lineItems (cartOf s1)) X = None \<and>
           executeAddToCart now' p s1 = Inr s2 \<and>
           map_of (lineItems (cartOf s2)) X = Some (newLineItem p) \<and>
           itemField ''quantity'' (newLineItem p) = requestedQuantity p \<and>
           (X \<noteq> [] \<longrightarrow> addToCart now' (Some p) s1 = Inr s2)"
proof -
  from removeFromCart_result[OF assms(1-5), of now] obtain s1 cart1 where
    s1: "removeFromCart now X s = Inr s1" "dataLayerReady s1"
    "dataLayer s1 = Some (JObj (AList.update ''cart'' cart1 tree))" "fullCart cart1"
    "lineItems cart1 = AList.delete X (lineItems cart)"
    by blast
  have m1: "map_of (AList.update ''cart'' cart1 tree) ''cart'' = Some cart1"
    by (simp add: update_conv')
  have cart1: "cartOf s1 = cart1"
    using s1(3) by (simp add: cartOf_def snapshot_def getProp_def update_conv')
  have gone: "map_of (lineItems (cartOf s1)) X = None"
    by (simp add: cart1 s1(5) delete_conv')
  from executeAddToCart_result[OF s1(3) m1 s1(4), of now' p] obtain s2 products' where
    s2: "executeAddToCart now' p s1 = Inr s2" "addLineItem p (lineItems cart1) = Inr products'"
    "lineItems (cartOf s2) = products'"
    by blast
  have key: "productKey p = X" using assms(6) by (simp add: productKey_def)
  have "addLineItem p (lineItems cart1) = Inr (AList.update X (newLineItem p) (lineItems cart1))"
    using gone key assms(7) by (simp add: addLineItem_def cart1)
  with s2(2) have "products' = AList.update X (newLineItem p) (lineItems cart1)" by simp
  then have fresh: "map_of (lineItems (cartOf s2)) X = Some (newLineItem p)"
    by (simp add: s2(3) update_conv')
  have q: "itemField ''quantity'' (newLineItem p) = requestedQuantity p"
    by (cases "p_id p") (simp_all add: newLineItem_def itemField_def numberProp_def getProp_def)
  have "\<not> dataLayerMissing s1" using s1(3) by (simp add: dataLayerMissing_def)
  then have api: "X \<noteq> [] \<longrightarrow> addToCart now' (Some p) s1 = Inr s2"
    using s1(2) s2(1) assms(6) by (simp add: addToCart_def validProduct_def)
  from s1(1) gone s2(1) fresh q api show ?thesis by blast
qed

text \<open>
  With an id that names a member of \<^verbatim>\<open>Object.prototype\<close> and that the products do not
  own, the add stores no line item: the products are as they were.
\<close>

lemma addLineItem_inherited:
  "map_of products (productKey p) = None \<Longrightarrow> productKey p \<in> set objectPrototypeMembers \<Longrightarrow>
   addLineItem p products = Inr products"
  by (simp add: addLineItem_def)


text \<open>
  C4. The claim says that for every id \<open>X\<close> a removal of \<open>X\<close> followed by an add of \<open>X\<close>
  yields a line item \<open>X\<close> whose quantity is the one requested by the add.
  \<^verbatim>\<open>executeAddToCart\<close> decides whether the product is in the cart with the read
  \<^verbatim>\<open>currentCart.products[productKey]\<close> (line 164, under the comment
  \<^verbatim>\<open>Check if product already exists in cart\<close>). After the removal of the id
  \<^verbatim>\<open>constructor\<close> that read finds the member inherited from \<^verbatim>\<open>Object.prototype\<close>, so
  the add takes the branch of an existing product and stores nothing. Evaluated on a
  ready container whose well-formed cart holds five items under the id \<^verbatim>\<open>constructor\<close>:
  the removal succeeds and leaves a cart without the id; the add of two items with
  that id succeeds, dispatches its notification, and leaves a cart with no line item
  and a product count of 0. The same add into the cart \<^verbatim>\<open>{}\<close> of a fresh tree stores
  nothing either.
\<close>

theorem inherited_id_not_added:
  "fullCart (cartOf constructorState) \<and>
   map_of (lineItems (cartOf constructorState)) ''constructor'' = Some constructorItem \<and>
   itemField ''quantity'' constructorItem = 5 \<and>
   p_id kit = Some ''constructor'' \<and> requestedQuantity kit = 2 \<and>
   (case removeFromCart 5 ''constructor'' constructorState of
      Inl e \<Rightarrow> False
    | Inr s1 \<Rightarrow>
        map_of (lineItems (cartOf s1)) ''constructor'' = None \<and>
        (case addToCart 6 (Some kit) s1 of
           Inl e \<Rightarrow> False
         | Inr s2 \<Rightarrow>
             map_of (lineItems (cartOf s2)) ''constructor'' = None \<and>
             lineItems (cartOf s2) = [] \<and>
             cartNumber ''productCount'' (cartOf s2) = 0 \<and>
             map fst (events s2) = [''updated'', ''updated''])) \<and>
   (case addToCart 6 (Some kit) readyState of
      Inl e \<Rightarrow> False
    | Inr s2 \<Rightarrow> lineItems (cartOf s2) = [] \<and> map fst (events s2) = [''updated''])"
  by code_simp


theorem inherited_id_not_added_witness:
  "\<exists>s X item p. map_of (lineItems (cartOf s)) X = Some item \<and> p_id p = Some X \<and>
     (\<exists>s1 s2. removeFromCart 5 X s = Inr s1 \<and> addToCart 6 (Some p) s1 = Inr s2 \<and>
              map_of (lineItems (cartOf s2)) X = None)"
  using inherited_id_not_added
  by (intro exI[of _ constructorState] exI[of _ "''constructor''"] exI[of _ constructorItem]
      exI[of _ kit]) (auto split: sum.splits)


section \<open>Properties of startup and of the queues\<close>

lemma executeAddToCart_addedTree:
  "executeAddToCart now p s =
     (if dataLayerMissing s
      then Inr (logLine Error ''DataLayer not available for cart operation'' s)
      else (case addedTree p (snapshot s) of
              Inl e \<Rightarrow> Inl e
            | Inr tree' \<Rightarrow>
                Inr (dispatchDataLayerEvent ''updated''
                       (persist now ''Could not persist cart'' (s\<lparr>dataLayer := Some tree'\<rparr>)))))"
  by (simp add: executeAddToCart_def addedTree_def Let_def split: option.splits sum.splits)

lemma executeAddToCart_cartQueue:
  "executeAddToCart now p (s\<lparr>cartQueue := q\<rparr>) =
     (case executeAddToCart now p s of Inl e \<Rightarrow> Inl e | Inr x \<Rightarrow> Inr (x\<lparr>cartQueue := q\<rparr>))"
  by (simp add: executeAddToCart_addedTree logLine_def dispatchDataLayerEvent_def persist_def
      snapshot_def split: sum.splits)

lemma executeAddToCart_timers:
  "executeAddToCart now p (s\<lparr>timers := q\<rparr>) =
     (case executeAddToCart now p s of Inl e \<Rightarrow> Inl e | Inr x \<Rightarrow> Inr (x\<lparr>timers := q\<rparr>))"
  by (simp add: executeAddToCart_addedTree logLine_def dispatchDataLayerEvent_def persist_def
      snapshot_def split: sum.splits)

lemma executeAddToCart_keeps:
  assumes "executeAddToCart now p s = Inr x"
  shows "timers x = timers s" "cartQueue x = cartQueue s" "dataLayerQueue x = dataLayerQueue s"
    "dataLayerReady x = dataLayerReady s" "accessorDefined x = accessorDefined s"
  using assms
  by (auto simp: executeAddToCart_addedTree split: if_splits sum.splits)


lemma executeAddToCart_events:
  assumes "executeAddToCart now p s = Inr x" "\<not> dataLayerMissing s"
  shows "events x = events s @ [(''updated'', snapshot x)]"
  using assms
  by (auto simp: executeAddToCart_addedTree split: if_splits sum.splits)

lemma clearExpired_fields [simp]:
  "dataLayer (clearExpired now s) = dataLayer s"
  "dataLayerReady (clearExpired now s) = dataLayerReady s"
  "dataLayerUpdating (clearExpired now s) = dataLayerUpdating s"
  "dataLayerQueue (clearExpired now s) = dataLayerQueue s"
  "cartQueue (clearExpired now s) = cartQueue s"
  "accessorDefined (clearExpired now s) = accessorDefined s"
  "storageFull (clearExpired now s) = storageFull s"
  "events (clearExpired now s) = events s"
  "timers (clearExpired now s) = timers s"
  "console (clearExpired now s) = console s"
  by (simp_all add: clearExpired_def split: option.splits)

lemma processDataLayerQueue_fields [simp]:
  "dataLayerReady (processDataLayerQueue now s) = dataLayerReady s"
  "dataLayerUpdating (processDataLayerQueue now s) = dataLayerUpdating s"
  "dataLayerQueue (processDataLayerQueue now s) = []"
  "cartQueue (processDataLayerQueue now s) = cartQueue s"
  "accessorDefined (processDataLayerQueue now s) = accessorDefined s"
  "storageFull (processDataLayerQueue now s) = storageFull s"
  "timers (processDataLayerQueue now s) = timers s"
  by (simp_all add: processDataLayerQueue_def Let_def)

lemma cartQueue_commutes:
  "isDataValid now (s\<lparr>cartQueue := q\<rparr>) = isDataValid now s"
  "clearExpired now (s\<lparr>cartQueue := q\<rparr>) = (clearExpired now s)\<lparr>cartQueue := q\<rparr>"
  "restoreOrCreate now (s\<lparr>cartQueue := q\<rparr>) = restoreOrCreate now s"
  "persist now w (s\<lparr>cartQueue := q\<rparr>) = (persist now w s)\<lparr>cartQueue := q\<rparr>"
  "processDataLayerQueue now (s\<lparr>cartQueue := q\<rparr>) = (processDataLayerQueue now s)\<lparr>cartQueue := q\<rparr>"
  by (simp_all add: isDataValid_def clearExpired_def restoreOrCreate_def persist_def logLine_def
      processDataLayerQueue_def dispatchDataLayerEvent_def snapshot_def Let_def
      split: option.splits)

lemma startedState_cartQueue:
  "startedState now tree' (s\<lparr>cartQueue := q\<rparr>) = (startedState now tree' s)\<lparr>cartQueue := q\<rparr>"
  by (simp add: startedState_def processDataLayerQueue_def persist_def clearExpired_def
      isDataValid_def logLine_def dispatchDataLayerEvent_def snapshot_def Let_def
      split: option.splits)

lemma startedState_fields [simp]:
  "dataLayerReady (startedState now tree' s)"
  "accessorDefined (startedState now tree' s)"
  "cartQueue (startedState now tree' s) = cartQueue s"
  "timers (startedState now tree' s) = timers s"
  "dataLayerQueue (startedState now tree' s) = []"
  by (simp_all add: startedState_def)

lemma build_normal:
  assumes "\<not> accessorDefined s" "restoreOrCreate now s = Inr tree"
    "updatePageInfo documentTitle tree = Inr tree'"
  shows "buildCustomDataLayer now documentTitle s =
     (case processCartQueue now (startedState now tree' s) of
        (s5, None) \<Rightarrow> (s5\<lparr>timers := timers s5 @ [initialTag s]\<rparr>, None)
      | (s5, Some OutsideModel) \<Rightarrow> (s5, Some OutsideModel)
      | (s5, Some e) \<Rightarrow> buildFallback now s5)"
  using assms
  by (simp add: buildCustomDataLayer_def startedState_def Let_def)


lemma initialTag_cartQueue [simp]: "initialTag (s\<lparr>cartQueue := q\<rparr>) = initialTag s"
  by (simp add: initialTag_def)

lemma processDataLayerQueue_drain:
  assumes "dataLayerQueue s \<noteq> []"
  shows "dataLayer (processDataLayerQueue now s) =
           Some (fold (\<lambda>(updates, merge) tree. applyUpdate updates merge tree)
                   (dataLayerQueue s) (snapshot s))"
    and "events (processDataLayerQueue now s) =
           events s @ [(''updated'', snapshot (processDataLayerQueue now s))]"
  using assms by (simp_all add: processDataLayerQueue_def Let_def)

lemma processDataLayerQueue_empty:
  "dataLayerQueue s = [] \<Longrightarrow> processDataLayerQueue now s = s"
  by (simp add: processDataLayerQueue_def)

lemma cartReady_not_missing: "cartReady s \<Longrightarrow> dataLayerReady s \<and> \<not> dataLayerMissing s"
  by (auto elim!: cartReadyE simp: dataLayerMissing_def)

lemma forEach_adds:
  assumes "cartReady s" "list_all (\<lambda>p. validProduct (Some p)) ps"
  shows "forEachCartOperation now ps s = (runCart now (map Add ps) s, None) \<and>
         map fst (events (runCart now (map Add ps) s)) =
           map fst (events s) @ replicate (length ps) ''updated'' \<and>
         cartQueue (runCart now (map Add ps) s) = cartQueue s"
  using assms
proof (induction ps arbitrary: s)
  case Nil
  then show ?case by simp
next
  case (Cons p ps)
  from Cons.prems have valid: "validProduct (Some p)" and rest: "list_all (\<lambda>p. validProduct (Some p)) ps"
    by simp_all
  from executeAddToCart_ready[OF Cons.prems(1), of now p] obtain s' where
    s': "executeAddToCart now p s = Inr s'" "cartReady s'"
    "events s' = events s @ [(''updated'', snapshot s')]" "cartQueue s' = cartQueue s"
    by blast
  have api: "addToCart now (Some p) s = Inr s'"
    using valid cartReady_not_missing[OF Cons.prems(1)] s'(1) by (simp add: addToCart_def)
  from Cons.IH[OF s'(2) rest] s'(1,3,4) api show ?case
    by (simp add: replicate_append_same)
qed

lemma processCartQueue_adds:
  assumes "cartReady s" "list_all (\<lambda>p. validProduct (Some p)) (cartQueue s)"
  shows "processCartQueue now s = ((runCart now (map Add (cartQueue s)) s)\<lparr>cartQueue := []\<rparr>, None)"
proof (cases "cartQueue s = []")
  case True
  then show ?thesis by (simp add: processCartQueue_def)
next
  case False
  then show ?thesis
    using forEach_adds[OF assms, of now] by (simp add: processCartQueue_def)
qed

lemma updatePageInfo_object: "updatePageInfo documentTitle tree = Inr tree' \<Longrightarrow> isObject tree'"
  by (auto simp: updatePageInfo_def Let_def split: jsval.splits option.splits if_splits)

lemma applyUpdate_object: "isObject tree \<Longrightarrow> isObject (applyUpdate updates merge tree)"
  by (simp add: applyUpdate_def deepMerge_isObject spreadOver_def)

lemma fold_applyUpdate_object:
  "isObject tree \<Longrightarrow>
   isObject (fold (\<lambda>(updates, merge) tree. applyUpdate updates merge tree) queue tree)"
  by (induction queue arbitrary: tree) (auto simp: applyUpdate_object)

lemma startedState_not_missing:
  assumes "isObject tree'"
  shows "\<not> dataLayerMissing (startedState now tree' s)"
proof (cases "dataLayerQueue s = []")
  case True
  then show ?thesis
    using assms
    by (simp add: startedState_def processDataLayerQueue_def dataLayerMissing_def isObject_truthy)
next
  case False
  then show ?thesis
    using assms fold_applyUpdate_object[OF assms, of "dataLayerQueue s"]
    by (simp add: startedState_def processDataLayerQueue_def Let_def dataLayerMissing_def
        snapshot_def isObject_truthy)
qed

lemma queued_add_same_state:
  assumes "\<not> dataLayerReady s0" "cartQueue s0 = []" "\<not> accessorDefined s0"
    "restoreOrCreate now s0 = Inr tree" "updatePageInfo documentTitle tree = Inr tree'"
    "validProduct (Some p)"
    "addToCart now (Some p) (fst (buildCustomDataLayer now documentTitle s0)) = Inr s2"
  shows "addToCart now (Some p) s0 = Inr (s0\<lparr>cartQueue := [p]\<rparr>)"
    and "buildCustomDataLayer now documentTitle (s0\<lparr>cartQueue := [p]\<rparr>) = (s2, None)"
    and "events s2 = events (fst (buildCustomDataLayer now documentTitle s0)) @ [(''updated'', snapshot s2)]"
proof -
  define st where "st = startedState now tree' s0"
  define T where "T = timers st @ [initialTag s0]"
  have q: "cartQueue st = []" by (simp add: st_def assms(2))
  have b0: "buildCustomDataLayer now documentTitle s0 = (st\<lparr>timers := T\<rparr>, None)"
    using build_normal[OF assms(3,4,5)] q by (simp add: st_def[symmetric] processCartQueue_def T_def)
  have nm: "\<not> dataLayerMissing st"
    unfolding st_def using updatePageInfo_object[OF assms(5)] by (rule startedState_not_missing)
  have "addToCart now (Some p) (st\<lparr>timers := T\<rparr>) = executeAddToCart now p (st\<lparr>timers := T\<rparr>)"
    using assms(6) nm by (simp add: addToCart_def st_def)
  with assms(7) b0 have "executeAddToCart now p (st\<lparr>timers := T\<rparr>) = Inr s2" by simp
  then obtain y where y: "executeAddToCart now p st = Inr y" "s2 = y\<lparr>timers := T\<rparr>"
    by (auto simp: executeAddToCart_timers split: sum.splits)
  have keep: "timers y = timers st" "cartQueue y = []"
    using executeAddToCart_keeps[OF y(1)] q by simp_all
  show "addToCart now (Some p) s0 = Inr (s0\<lparr>cartQueue := [p]\<rparr>)"
    using assms(1,2,6) by (simp add: addToCart_def)
  have "processCartQueue now (st\<lparr>cartQueue := [p]\<rparr>) = (y, None)"
    using y(1) keep(2) by (simp add: processCartQueue_def executeAddToCart_cartQueue)
  then show "buildCustomDataLayer now documentTitle (s0\<lparr>cartQueue := [p]\<rparr>) = (s2, None)"
    using build_normal[of "s0\<lparr>cartQueue := [p]\<rparr>" now tree documentTitle tree'] assms(3,4,5)
    by (simp add: cartQueue_commutes startedState_cartQueue st_def[symmetric] y(2) keep(1) T_def)
  show "events s2 = events (fst (buildCustomDataLayer now documentTitle s0)) @ [(''updated'', snapshot s2)]"
    using executeAddToCart_events[OF y(1) nm] by (simp add: b0 y(2) snapshot_def)
qed



section \<open>Claim C3: draining the queues at startup\<close>

text \<open>
  C3 as stated does not hold: the cart queue is drained by calling \<open>executeAddToCart\<close>
  for each entry, and each call dispatches its own notification. A startup with two
  queued cart operations and no queued update emits two \<^verbatim>\<open>updated\<close> notifications.
\<close>

theorem cart_queue_counterexample:
  "map fst (events (fst (buildCustomDataLayer 1000 ''Home''
                           (freshState\<lparr>cartQueue := [shirt, socks]\<rparr>)))) =
     [''updated'', ''updated''] \<and>
   snd (buildCustomDataLayer 1000 ''Home'' (freshState\<lparr>cartQueue := [shirt, socks]\<rparr>)) = None"
  by code_simp


text \<open>
  C3, amended. The update queue, when it is not empty, is drained in arrival order with
  the normal merge algorithm and exactly one \<^verbatim>\<open>updated\<close> notification is dispatched for
  the whole drain; an empty update queue is left alone, without a notification. The cart
  queue is drained in arrival order by running each entry as an ordinary add: on a ready
  container with a well-formed cart and valid queued products the drain leaves the state
  that issuing those adds one after the other leaves (with the queue emptied), and one
  \<^verbatim>\<open>updated\<close> notification is dispatched per entry. On the normal startup path, a
  \<^verbatim>\<open>cart.add\<close> issued before readiness is queued, and the startup then ends in exactly
  the state that the same add issued after the startup produces, with exactly one
  notification for it.
\<close>

theorem queue_drains:
  "(dataLayerQueue s \<noteq> [] \<longrightarrow>
      dataLayer (processDataLayerQueue now s) =
        Some (fold (\<lambda>(updates, merge) tree. applyUpdate updates merge tree)
                (dataLayerQueue s) (snapshot s)) \<and>
      dataLayerQueue (processDataLayerQueue now s) = [] \<and>
      events (processDataLayerQueue now s) =
        events s @ [(''updated'', snapshot (processDataLayerQueue now s))]) \<and>
   (dataLayerQueue s = [] \<longrightarrow> processDataLayerQueue now s = s) \<and>
   (cartReady c \<and> list_all (\<lambda>p. validProduct (Some p)) (cartQueue c) \<longrightarrow>
      processCartQueue now c = ((runCart now (map Add (cartQueue c)) c)\<lparr>cartQueue := []\<rparr>, None) \<and>
      map fst (events (runCart now (map Add (cartQueue c)) c)) =
        map fst (events c) @ replicate (length (cartQueue c)) ''updated'') \<and>
   (\<not> dataLayerReady s0 \<and> cartQueue s0 = [] \<and> \<not> accessorDefined s0 \<and>
    restoreOrCreate now s0 = Inr tree \<and> updatePageInfo documentTitle tree = Inr tree' \<and>
    validProduct (Some p) \<and>
    addToCart now (Some p) (fst (buildCustomDataLayer now documentTitle s0)) = Inr s2 \<longrightarrow>
      addToCart now (Some p) s0 = Inr (s0\<lparr>cartQueue := [p]\<rparr>) \<and>
      buildCustomDataLayer now documentTitle (s0\<lparr>cartQueue := [p]\<rparr>) = (s2, None) \<and>
      events s2 =
        events (fst (buildCustomDataLayer now documentTitle s0)) @ [(''updated'', snapshot s2)])"
proof (intro conjI impI)
  assume "dataLayerQueue s \<noteq> []"
  then show "dataLayer (processDataLayerQueue now s) =
        Some (fold (\<lambda>(updates, merge) tree. applyUpdate updates merge tree)
                (dataLayerQueue s) (snapshot s))"
    and "events (processDataLayerQueue now s) =
        events s @ [(''updated'', snapshot (processDataLayerQueue now s))]"
    by (rule processDataLayerQueue_drain)+
next
  show "dataLayerQueue (processDataLayerQueue now s) = []" by simp
next
  assume "dataLayerQueue s = []"
  then show "processDataLayerQueue now s = s" by (rule processDataLayerQueue_empty)
next
  assume a: "cartReady c \<and> list_all (\<lambda>p. validProduct (Some p)) (cartQueue c)"
  then show "processCartQueue now c = ((runCart now (map Add (cartQueue c)) c)\<lparr>cartQueue := []\<rparr>, None)"
    by (simp add: processCartQueue_adds)
  from a show "map fst (events (runCart now (map Add (cartQueue c)) c)) =
        map fst (events c) @ replicate (length (cartQueue c)) ''updated''"
    using forEach_adds[of c "cartQueue c" now] by simp
next
  assume a: "\<not> dataLayerReady s0 \<and> cartQueue s0 = [] \<and> \<not> accessorDefined s0 \<and>
    restoreOrCreate now s0 = Inr tree \<and> updatePageInfo documentTitle tree = Inr tree' \<and>
    validProduct (Some p) \<and>
    addToCart now (Some p) (fst (buildCustomDataLayer now documentTitle s0)) = Inr s2"
  then show "addToCart now (Some p) s0 = Inr (s0\<lparr>cartQueue := [p]\<rparr>)"
    and "buildCustomDataLayer now documentTitle (s0\<lparr>cartQueue := [p]\<rparr>) = (s2, None)"
    and "events s2 =
        events (fst (buildCustomDataLayer now documentTitle s0)) @ [(''updated'', snapshot s2)]"
    using queued_add_same_state[of s0 now tree documentTitle tree' p s2] by blast+
qed


theorem queue_drains_witness:
  "dataLayerQueue queuedWrites \<noteq> [] \<and>
   dataLayer (processDataLayerQueue 1000 queuedWrites) =
     Some (JObj [(''page'', JObj [(''name'', JStr ''cart'')]),
                 (''cart'', JObj []),
                 (''person'', JObj [(''gender'', JStr ''m''),
                                    (''name'', JObj [(''firstName'', JStr ''Ada'')])])]) \<and>
   map fst (events (processDataLayerQueue 1000 queuedWrites)) = [''updated''] \<and>
   dataLayerQueue readyState = [] \<and> events (processDataLayerQueue 1000 readyState) = [] \<and>
   cartReady queuedAdds \<and> list_all (\<lambda>p. validProduct (Some p)) (cartQueue queuedAdds) \<and>
   processCartQueue 1000 queuedAdds =
     ((runCart 1000 [Add shirt, Add socks] queuedAdds)\<lparr>cartQueue := []\<rparr>, None) \<and>
   map fst (events (runCart 1000 [Add shirt, Add socks] queuedAdds)) = [''updated'', ''updated''] \<and>
   \<not> dataLayerReady persistedState \<and> cartQueue persistedState = [] \<and>
   \<not> accessorDefined persistedState \<and>
   restoreOrCreate 1000 persistedState = Inr smallTree \<and>
   \<not> isl (updatePageInfo ''Home'' smallTree) \<and> validProduct (Some shirt) \<and>
   (\<exists>s2. addToCart 1000 (Some shirt) (fst (buildCustomDataLayer 1000 ''Home'' persistedState)) = Inr s2 \<and>
         addToCart 1000 (Some shirt) persistedState = Inr (persistedState\<lparr>cartQueue := [shirt]\<rparr>) \<and>
         buildCustomDataLayer 1000 ''Home'' (persistedState\<lparr>cartQueue := [shirt]\<rparr>) = (s2, None) \<and>
         map fst (events s2) = [''updated''])"
proof -
  have a1: "dataLayerQueue queuedWrites \<noteq> []" by (simp add: queuedWrites_def)
  have a2: "fold (\<lambda>(updates, merge) tree. applyUpdate updates merge tree)
                (dataLayerQueue queuedWrites) (snapshot queuedWrites) =
     JObj [(''page'', JObj [(''name'', JStr ''cart'')]),
                 (''cart'', JObj []),
                 (''person'', JObj [(''gender'', JStr ''m''),
                                    (''name'', JObj [(''firstName'', JStr ''Ada'')])])]"
    by code_simp
  have a3: "events queuedWrites = []" by (simp add: queuedWrites_def readyState_def)
  have b1: "dataLayerQueue readyState = []" by (simp add: readyState_def)
  have b2: "events readyState = []" by (simp add: readyState_def)
  have c1: "cartReady queuedAdds" by code_simp
  have c2: "list_all (\<lambda>p. validProduct (Some p)) (cartQueue queuedAdds)" by code_simp
  have c3: "cartQueue queuedAdds = [shirt, socks]" "events queuedAdds = []"
    by (simp_all add: queuedAdds_def readyState_def)
  have d1: "\<not> dataLayerReady persistedState" "cartQueue persistedState = []"
    "\<not> accessorDefined persistedState"
    by (simp_all add: persistedState_def freshState_def)
  have d2: "restoreOrCreate 1000 persistedState = Inr smallTree" by code_simp
  have d3: "\<not> isl (updatePageInfo ''Home'' smallTree)" by code_simp
  then obtain tree' where d3': "updatePageInfo ''Home'' smallTree = Inr tree'"
    by (cases "updatePageInfo ''Home'' smallTree") auto
  have d4: "validProduct (Some shirt)" by code_simp
  have d5: "\<not> isl (addToCart 1000 (Some shirt) (fst (buildCustomDataLayer 1000 ''Home'' persistedState)))"
    by code_simp
  then obtain s2 where d5': "addToCart 1000 (Some shirt) (fst (buildCustomDataLayer 1000 ''Home'' persistedState)) = Inr s2"
    by (cases "addToCart 1000 (Some shirt) (fst (buildCustomDataLayer 1000 ''Home'' persistedState))") auto
  have d6: "events (fst (buildCustomDataLayer 1000 ''Home'' persistedState)) = []" by code_simp
  note t1 = queue_drains[of queuedWrites 1000 queuedAdds persistedState smallTree "''Home''" tree' shirt s2]
  note t2 = queue_drains[of readyState 1000 queuedAdds persistedState smallTree "''Home''" tree' shirt s2]
  from t1 a1 have "dataLayer (processDataLayerQueue 1000 queuedWrites) =
        Some (fold (\<lambda>(updates, merge) tree. applyUpdate updates merge tree)
                (dataLayerQueue queuedWrites) (snapshot queuedWrites))"
    and "events (processDataLayerQueue 1000 queuedWrites) =
        events queuedWrites @ [(''updated'', snapshot (processDataLayerQueue 1000 queuedWrites))]"
    by blast+
  then have A: "dataLayer (processDataLayerQueue 1000 queuedWrites) =
     Some (JObj [(''page'', JObj [(''name'', JStr ''cart'')]),
                 (''cart'', JObj []),
                 (''person'', JObj [(''gender'', JStr ''m''),
                                    (''name'', JObj [(''firstName'', JStr ''Ada'')])])])"
    "map fst (events (processDataLayerQueue 1000 queuedWrites)) = [''updated'']"
    by (simp_all only: a2 a3 list.map append_Nil fst_conv)
  from t2 b1 have "processDataLayerQueue 1000 readyState = readyState" by blast
  then have B: "events (processDataLayerQueue 1000 readyState) = []" by (simp only: b2)
  from t1 c1 c2 have "processCartQueue 1000 queuedAdds =
      ((runCart 1000 (map Add (cartQueue queuedAdds)) queuedAdds)\<lparr>cartQueue := []\<rparr>, None)"
    and "map fst (events (runCart 1000 (map Add (cartQueue queuedAdds)) queuedAdds)) =
        map fst (events queuedAdds) @ replicate (length (cartQueue queuedAdds)) ''updated''"
    by blast+
  then have C: "processCartQueue 1000 queuedAdds =
     ((runCart 1000 [Add shirt, Add socks] queuedAdds)\<lparr>cartQueue := []\<rparr>, None)"
    "map fst (events (runCart 1000 [Add shirt, Add socks] queuedAdds)) = [''updated'', ''updated'']"
    by (simp_all add: c3)
  from t1 d1 d2 d3' d4 d5' have D0:
    "addToCart 1000 (Some shirt) persistedState = Inr (persistedState\<lparr>cartQueue := [shirt]\<rparr>)"
    "buildCustomDataLayer 1000 ''Home'' (persistedState\<lparr>cartQueue := [shirt]\<rparr>) = (s2, None)"
    "events s2 =
        events (fst (buildCustomDataLayer 1000 ''Home'' persistedState)) @ [(''updated'', snapshot s2)]"
    by blast+
  then have D: "map fst (events s2) = [''updated'']" by (simp add: d6)
  from d5' D0(1,2) D have E: "\<exists>s2. addToCart 1000 (Some shirt) (fst (buildCustomDataLayer 1000 ''Home'' persistedState)) = Inr s2 \<and>
         addToCart 1000 (Some shirt) persistedState = Inr (persistedState\<lparr>cartQueue := [shirt]\<rparr>) \<and>
         buildCustomDataLayer 1000 ''Home'' (persistedState\<lparr>cartQueue := [shirt]\<rparr>) = (s2, None) \<and>
         map fst (events s2) = [''updated'']"
    by (intro exI[of _ s2] conjI)
  from a1 A b1 B c1 c2 C d1 d2 d3 d4 E show ?thesis by (intro conjI)
qed



section \<open>Claim C5: clearing the data layer\<close>

text \<open>
  What \<open>clearDataLayer\<close> does, for every state: the two queues are emptied and the two
  keys of the persisted tree are removed; the tree in memory and the two keys of the
  checkout data are as before.
\<close>

lemma clearDataLayer_fields:
  "dataLayer (clearDataLayer s) = dataLayer s"
  "dataLayerQueue (clearDataLayer s) = []"
  "cartQueue (clearDataLayer s) = []"
  "map_of (localStorage (clearDataLayer s)) STORAGE_KEY = None"
  "map_of (localStorage (clearDataLayer s)) STORAGE_TIMESTAMP_KEY = None"
  "map_of (localStorage (clearDataLayer s)) CHECKOUT_STORAGE_KEY = map_of (localStorage s) CHECKOUT_STORAGE_KEY"
  "map_of (localStorage (clearDataLayer s)) CHECKOUT_TIMESTAMP_KEY = map_of (localStorage s) CHECKOUT_TIMESTAMP_KEY"
  by (simp_all add: clearDataLayer_def delete_conv' STORAGE_KEY_def STORAGE_TIMESTAMP_KEY_def
      CHECKOUT_STORAGE_KEY_def CHECKOUT_TIMESTAMP_KEY_def)


text \<open>
  C5. The claim says that \<^verbatim>\<open>clear()\<close> wipes the in-memory state tree and its
  persisted record and leaves the checkout data alone. Evaluated on a container that
  holds a cart with five shirts, pending queue entries and both persisted records:
  the persisted record of the tree is removed and the checkout record is unchanged, but
  the tree in memory is still the one with the cart, and the next write persists it
  again.
\<close>

theorem clearDataLayer_keeps_tree:
  "dataLayer shopState = Some (JObj [(''page'', JObj []), (''cart'', exampleCart)]) \<and>
   dataLayer (clearDataLayer shopState) = Some (JObj [(''page'', JObj []), (''cart'', exampleCart)]) \<and>
   map_of (localStorage (clearDataLayer shopState)) STORAGE_KEY = None \<and>
   map_of (localStorage (clearDataLayer shopState)) STORAGE_TIMESTAMP_KEY = None \<and>
   map_of (localStorage (clearDataLayer shopState)) CHECKOUT_STORAGE_KEY =
     Some (Tree (JObj [(''city'', JStr ''Oslo'')])) \<and>
   map_of (localStorage (clearDataLayer shopState)) CHECKOUT_TIMESTAMP_KEY = Some (Time 400) \<and>
   map_of (localStorage (updateDataLayer 600 (Some (JObj [])) True (clearDataLayer shopState)))
     STORAGE_KEY = Some (Tree (JObj [(''page'', JObj []), (''cart'', exampleCart)]))"
  by code_simp

theorem clearDataLayer_keeps_tree_witness:
  "\<exists>s tree. dataLayer s = Some tree \<and> dataLayer (clearDataLayer s) = Some tree \<and>
     map_of (localStorage (clearDataLayer s)) STORAGE_KEY = None \<and>
     map_of (localStorage (updateDataLayer 600 (Some (JObj [])) True (clearDataLayer s)))
       STORAGE_KEY = Some (Tree tree)"
  using clearDataLayer_keeps_tree
  by (intro exI[of _ shopState] exI[of _ "JObj [(''page'', JObj []), (''cart'', exampleCart)]"]) simp


section \<open>Claim C6: loading the persisted record at startup\<close>

lemma updatePageInfo_result:
  assumes "case map_of sections ''page'' of None \<Rightarrow> True | Some p \<Rightarrow> \<not> truthy p \<or> isObject p"
  shows "\<exists>tree'. updatePageInfo documentTitle (JObj sections) = Inr tree' \<and>
           sameExceptPageInfo documentTitle (JObj sections) tree'"
proof -
  define page where "page = (case map_of sections ''page'' of
                         None \<Rightarrow> JObj []
                       | Some p \<Rightarrow> if truthy p then p else JObj [])"
  have "isObject page"
    using assms by (auto simp: page_def split: option.splits)
  then obtain pageFields where pf: "page = JObj pageFields" by (auto dest: isObject_cases)
  define tree' where "tree' = JObj (AList.update ''page''
                               (JObj (AList.update ''name'' (JStr (toLowerCase documentTitle))
                                        (AList.update ''title'' (JStr documentTitle) pageFields)))
                               sections)"
  have run: "updatePageInfo documentTitle (JObj sections) = Inr tree'"
    using pf by (simp add: updatePageInfo_def page_def[symmetric] tree'_def)
  have other: "getPath (JObj sections) [''page'', field] = map_of pageFields field" for field
  proof (cases "map_of sections ''page''")
    case None
    then show ?thesis using pf by (simp add: page_def getProp_def)
  next
    case (Some p)
    show ?thesis
    proof (cases "truthy p")
      case True
      then show ?thesis using pf Some by (auto simp: page_def getProp_def split: option.splits)
    next
      case False
      then have "\<not> isObject p" by (auto dest: isObject_truthy)
      then show ?thesis using pf Some False by (auto simp: page_def getProp_def)
    qed
  qed
  have mine: "getPath tree' [''page'', field] =
      map_of (AList.update ''name'' (JStr (toLowerCase documentTitle))
                (AList.update ''title'' (JStr documentTitle) pageFields)) field" for field
    by (auto simp: tree'_def getProp_def update_conv' split: option.splits)
  have c1: "isObject tree'" by (simp add: tree'_def)
  have c2: "\<forall>key. key \<noteq> ''page'' \<longrightarrow> getProp tree' key = getProp (JObj sections) key"
    by (simp add: tree'_def getProp_def update_conv')
  have c3: "getPath tree' [''page'', ''title''] = Some (JStr documentTitle)"
    unfolding mine by (simp add: update_conv')
  have c4: "getPath tree' [''page'', ''name''] = Some (JStr (toLowerCase documentTitle))"
    unfolding mine by (simp add: update_conv')
  have c5: "\<forall>field. field \<noteq> ''title'' \<and> field \<noteq> ''name'' \<longrightarrow>
         getPath tree' [''page'', field] = getPath (JObj sections) [''page'', field]"
    unfolding mine other by (simp add: update_conv')
  have "sameExceptPageInfo documentTitle (JObj sections) tree'"
    unfolding sameExceptPageInfo_def using c1 c2 c3 c4 c5 by blast
  with run show ?thesis by blast
qed

lemma build_loaded:
  assumes "\<not> accessorDefined s" "dataLayerQueue s = []" "cartQueue s = []"
    "restoreOrCreate now s = Inr tree" "updatePageInfo documentTitle tree = Inr tree'"
  shows "dataLayer (fst (buildCustomDataLayer now documentTitle s)) = Some tree'"
  using build_normal[OF assms(1,4,5)] assms(2,3)
  by (simp add: processCartQueue_def startedState_def processDataLayerQueue_def)

lemma restoreOrCreate_expired:
  assumes "map_of (localStorage s) STORAGE_KEY = Some saved"
    "map_of (localStorage s) STORAGE_TIMESTAMP_KEY = Some (Time written)"
    "now - written > STORAGE_TTL"
  shows "restoreOrCreate now s = Inr defaultTree"
  using assms by (simp add: restoreOrCreate_def isDataValid_def)

lemma restoreOrCreate_valid:
  assumes "map_of (localStorage s) STORAGE_KEY = Some (Tree snap)"
    "map_of (localStorage s) STORAGE_TIMESTAMP_KEY = Some (Time written)"
    "now - written \<le> STORAGE_TTL"
  shows "restoreOrCreate now s = Inr snap"
  using assms by (simp add: restoreOrCreate_def isDataValid_def)


text \<open>
  C6 as stated does not hold: a record within its time to live is restored, but the
  title and the name of its page are then overwritten from the current document, so the
  tree is not equal to the stored snapshot.
\<close>

theorem restored_page_counterexample:
  "map_of (localStorage persistedState) STORAGE_KEY = Some (Tree smallTree) \<and>
   map_of (localStorage persistedState) STORAGE_TIMESTAMP_KEY = Some (Time 500) \<and>
   1000 - 500 \<le> STORAGE_TTL \<and>
   dataLayer (fst (buildCustomDataLayer 1000 ''Cart'' persistedState)) \<noteq> Some smallTree"
  by code_simp


text \<open>
  C6, amended. At the first startup, with empty queues: when the persisted record is
  older than its time to live (\<open>now - written > STORAGE_TTL\<close>) the tree is the freshly
  built default tree, and when it is within its time to live and holds a mapping whose
  page is absent, falsy or a mapping, the tree is the stored snapshot; in both cases
  with the title and the name of the page set from the title of the current document
  (the page being created when it is absent or falsy), and with nothing else changed.
\<close>

theorem startup_load:
  "(\<not> accessorDefined s \<and> dataLayerQueue s = [] \<and> cartQueue s = [] \<and>
    map_of (localStorage s) STORAGE_KEY = Some saved \<and>
    map_of (localStorage s) STORAGE_TIMESTAMP_KEY = Some (Time written) \<and>
    now - written > STORAGE_TTL \<longrightarrow>
      (\<exists>tree'. dataLayer (fst (buildCustomDataLayer now documentTitle s)) = Some tree' \<and>
               sameExceptPageInfo documentTitle defaultTree tree')) \<and>
   (\<not> accessorDefined s \<and> dataLayerQueue s = [] \<and> cartQueue s = [] \<and>
    map_of (localStorage s) STORAGE_KEY = Some (Tree (JObj sections)) \<and>
    map_of (localStorage s) STORAGE_TIMESTAMP_KEY = Some (Time written) \<and>
    now - written \<le> STORAGE_TTL \<and>
    (case map_of sections ''page'' of None \<Rightarrow> True | Some p \<Rightarrow> \<not> truthy p \<or> isObject p) \<longrightarrow>
      (\<exists>tree'. dataLayer (fst (buildCustomDataLayer now documentTitle s)) = Some tree' \<and>
               sameExceptPageInfo documentTitle (JObj sections) tree'))"
proof (intro conjI impI)
  assume a: "\<not> accessorDefined s \<and> dataLayerQueue s = [] \<and> cartQueue s = [] \<and>
    map_of (localStorage s) STORAGE_KEY = Some saved \<and>
    map_of (localStorage s) STORAGE_TIMESTAMP_KEY = Some (Time written) \<and>
    now - written > STORAGE_TTL"
  then have r: "restoreOrCreate now s = Inr defaultTree"
    by (simp add: restoreOrCreate_expired)
  obtain sections0 where d: "defaultTree = JObj sections0"
    and p: "case map_of sections0 ''page'' of None \<Rightarrow> True | Some p \<Rightarrow> \<not> truthy p \<or> isObject p"
    by (simp add: defaultTree_def)
  from updatePageInfo_result[OF p, of documentTitle] obtain tree' where
    t: "updatePageInfo documentTitle defaultTree = Inr tree'"
    "sameExceptPageInfo documentTitle defaultTree tree'"
    unfolding d by blast
  from a r t(1) have "dataLayer (fst (buildCustomDataLayer now documentTitle s)) = Some tree'"
    by (simp add: build_loaded)
  with t(2) show "\<exists>tree'. dataLayer (fst (buildCustomDataLayer now documentTitle s)) = Some tree' \<and>
               sameExceptPageInfo documentTitle defaultTree tree'"
    by blast
next
  assume a: "\<not> accessorDefined s \<and> dataLayerQueue s = [] \<and> cartQueue s = [] \<and>
    map_of (localStorage s) STORAGE_KEY = Some (Tree (JObj sections)) \<and>
    map_of (localStorage s) STORAGE_TIMESTAMP_KEY = Some (Time written) \<and>
    now - written \<le> STORAGE_TTL \<and>
    (case map_of sections ''page'' of None \<Rightarrow> True | Some p \<Rightarrow> \<not> truthy p \<or> isObject p)"
  then have r: "restoreOrCreate now s = Inr (JObj sections)"
    by (simp add: restoreOrCreate_valid)
  from a have p: "case map_of sections ''page'' of None \<Rightarrow> True | Some p \<Rightarrow> \<not> truthy p \<or> isObject p"
    by blast
  from updatePageInfo_result[OF p, of documentTitle] obtain tree' where
    t: "updatePageInfo documentTitle (JObj sections) = Inr tree'"
    "sameExceptPageInfo documentTitle (JObj sections) tree'"
    by blast
  from a r t(1) have "dataLayer (fst (buildCustomDataLayer now documentTitle s)) = Some tree'"
    by (simp add: build_loaded)
  with t(2) show "\<exists>tree'. dataLayer (fst (buildCustomDataLayer now documentTitle s)) = Some tree' \<and>
               sameExceptPageInfo documentTitle (JObj sections) tree'"
    by blast
qed


theorem startup_load_witness:
  "\<not> accessorDefined oldRecordState \<and> dataLayerQueue oldRecordState = [] \<and>
   cartQueue oldRecordState = [] \<and>
   map_of (localStorage oldRecordState) STORAGE_KEY = Some (Tree smallTree) \<and>
   map_of (localStorage oldRecordState) STORAGE_TIMESTAMP_KEY = Some (Time 0) \<and>
   2592000001 - 0 > STORAGE_TTL \<and>
   (\<exists>tree'. dataLayer (fst (buildCustomDataLayer 2592000001 ''Cart'' oldRecordState)) = Some tree' \<and>
            sameExceptPageInfo ''Cart'' defaultTree tree') \<and>
   \<not> accessorDefined persistedState \<and> dataLayerQueue persistedState = [] \<and>
   cartQueue persistedState = [] \<and>
   map_of (localStorage persistedState) STORAGE_KEY = Some (Tree smallTree) \<and>
   map_of (localStorage persistedState) STORAGE_TIMESTAMP_KEY = Some (Time 500) \<and>
   1000 - 500 \<le> STORAGE_TTL \<and>
   (\<exists>tree'. dataLayer (fst (buildCustomDataLayer 1000 ''Cart'' persistedState)) = Some tree' \<and>
            sameExceptPageInfo ''Cart'' smallTree tree') \<and>
   dataLayer (fst (buildCustomDataLayer 1000 ''Cart'' persistedState)) =
     Some (JObj [(''page'', JObj [(''name'', JStr ''cart''), (''title'', JStr ''Cart'')]),
                 (''cart'', JObj []),
                 (''person'', JObj [(''gender'', JStr ''f''),
                                    (''name'', JObj [(''firstName'', JStr ''Ada'')])])])"
proof -
  let ?sections = "[(''page'', JObj [(''name'', JStr ''home''), (''title'', JStr ''HOME'')]),
                    (''cart'', JObj []),
                    (''person'', JObj [(''gender'', JStr ''f''),
                                       (''name'', JObj [(''firstName'', JStr ''Ada'')])])]"
  have o: "\<not> accessorDefined oldRecordState" "dataLayerQueue oldRecordState = []"
    "cartQueue oldRecordState = []"
    "map_of (localStorage oldRecordState) STORAGE_KEY = Some (Tree smallTree)"
    "map_of (localStorage oldRecordState) STORAGE_TIMESTAMP_KEY = Some (Time 0)"
    by (simp_all add: oldRecordState_def freshState_def STORAGE_KEY_def STORAGE_TIMESTAMP_KEY_def)
  have ot: "(2592000001 :: int) - 0 > STORAGE_TTL" by (simp add: STORAGE_TTL_def)
  have p: "\<not> accessorDefined persistedState" "dataLayerQueue persistedState = []"
    "cartQueue persistedState = []"
    "map_of (localStorage persistedState) STORAGE_KEY = Some (Tree (JObj ?sections))"
    "map_of (localStorage persistedState) STORAGE_TIMESTAMP_KEY = Some (Time 500)"
    by (simp_all add: persistedState_def freshState_def smallTree_def STORAGE_KEY_def
        STORAGE_TIMESTAMP_KEY_def)
  have pt: "(1000 :: int) - 500 \<le> STORAGE_TTL" by (simp add: STORAGE_TTL_def)
  have pp: "case map_of ?sections ''page'' of None \<Rightarrow> True | Some p \<Rightarrow> \<not> truthy p \<or> isObject p"
    by simp
  note expired = startup_load[of oldRecordState "Tree smallTree" 0 2592000001 "''Cart''" ?sections,
      THEN conjunct1, rule_format]
  note valid = startup_load[of persistedState "Tree smallTree" 500 1000 "''Cart''" ?sections,
      THEN conjunct2, rule_format]
  have E: "\<exists>tree'. dataLayer (fst (buildCustomDataLayer 2592000001 ''Cart'' oldRecordState)) = Some tree' \<and>
            sameExceptPageInfo ''Cart'' defaultTree tree'"
    using o ot by (intro expired conjI)
  have V: "\<exists>tree'. dataLayer (fst (buildCustomDataLayer 1000 ''Cart'' persistedState)) = Some tree' \<and>
            sameExceptPageInfo ''Cart'' smallTree tree'"
    unfolding smallTree_def using p pt pp by (intro valid conjI)
  have X: "dataLayer (fst (buildCustomDataLayer 1000 ''Cart'' persistedState)) =
     Some (JObj [(''page'', JObj [(''name'', JStr ''cart''), (''title'', JStr ''Cart'')]),
                 (''cart'', JObj []),
                 (''person'', JObj [(''gender'', JStr ''f''),
                                    (''name'', JObj [(''firstName'', JStr ''Ada'')])])])"
    by code_simp
  have p4: "map_of (localStorage persistedState) STORAGE_KEY = Some (Tree smallTree)"
    using p(4) by (simp add: smallTree_def)
  from o ot E p(1,2,3) p4 p(5) pt V X show ?thesis by (intro conjI)
qed


section \<open>Claim C7: invalid arguments\<close>

text \<open>
  A payload that is \<^verbatim>\<open>undefined\<close>, falsy or not of type object, and a product that is
  missing or has no id, are logged as an error and dropped: the result is the state
  with one more console line.
\<close>

lemma updateDataLayer_invalid:
  "\<not> validUpdates updates \<Longrightarrow>
   updateDataLayer now updates merge s =
     logLine Error ''Invalid updates provided to updateDataLayer'' s"
  by (auto simp: validUpdates_def updateDataLayer_def split: option.splits)

lemma addToCart_invalid:
  "\<not> validProduct productData \<Longrightarrow>
   addToCart now productData s =
     Inr (logLine Error ''Invalid product data provided to addToCart'' s)"
  by (auto simp: addToCart_def split: option.splits)


text \<open>
  C7. The claim says that every payload that is not a mapping is logged and dropped
  without mutation, persistence or notification. An array is not a mapping
  (\<open>isObject\<close> rejects it), but the check of \<^verbatim>\<open>updateDataLayer\<close> only tests
  \<^verbatim>\<open>typeof updates !== "object"\<close>, which an array passes. Evaluated on a ready
  container: no error is logged; with \<^verbatim>\<open>merge = false\<close> the tree gains the key \<^verbatim>\<open>0\<close>;
  with either mode the tree is persisted and an \<^verbatim>\<open>updated\<close> notification is
  dispatched.
\<close>

theorem array_payload_is_applied:
  "\<not> isObject (JArr [JNum 1]) \<and>
   console (updateDataLayer 7 (Some (JArr [JNum 1])) False readyState) = [] \<and>
   getProp (snapshot (updateDataLayer 7 (Some (JArr [JNum 1])) False readyState)) ''0'' = Some (JNum 1) \<and>
   getProp (snapshot readyState) ''0'' = None \<and>
   map fst (events (updateDataLayer 7 (Some (JArr [JNum 1])) False readyState)) = [''updated''] \<and>
   map_of (localStorage (updateDataLayer 7 (Some (JArr [JNum 1])) False readyState))
     STORAGE_TIMESTAMP_KEY = Some (Time 7) \<and>
   console (updateDataLayer 7 (Some (JArr [JNum 1])) True readyState) = [] \<and>
   map fst (events (updateDataLayer 7 (Some (JArr [JNum 1])) True readyState)) = [''updated''] \<and>
   map_of (localStorage (updateDataLayer 7 (Some (JArr [JNum 1])) True readyState))
     STORAGE_TIMESTAMP_KEY = Some (Time 7)"
  by code_simp

theorem array_payload_is_applied_witness:
  "\<exists>u s. \<not> isObject u \<and> console (updateDataLayer 7 (Some u) False s) = [] \<and>
     map fst (events (updateDataLayer 7 (Some u) False s)) = [''updated''] \<and>
     getProp (snapshot (updateDataLayer 7 (Some u) False s)) ''0'' \<noteq> getProp (snapshot s) ''0''"
  using array_payload_is_applied
  by (intro exI[of _ "JArr [JNum 1]"] exI[of _ readyState]) simp


section \<open>Properties of the event engine\<close>

text \<open>
  An action that \<open>getElementDefaultAction\<close> finds for an element can be replayed on
  that element: \<open>executeDefaultAction\<close> makes the browser do something.
\<close>

lemma default_action_replayable:
  "getElementDefaultAction (Some el) = Some d \<Longrightarrow> \<exists>a. executeDefaultAction (Some d) el = Some a"
  by (auto simp: getElementDefaultAction_def executeDefaultAction_def split: if_splits option.splits)

lemma runCallback_fields:
  "clock (runCallback (snd x) g) = clock g"
  "pending (runCallback (snd x) g) = pending g"
  "trace (runCallback (snd x) g) = trace g @ map (Pair (clock g)) (replayed [x])"
  by (simp_all add: runCallback_def record_effect_def replayed_def List.map_filter_simps
      split: option.splits)

lemma replayed_Cons: "replayed (x # xs) = replayed [x] @ replayed xs"
  by (simp add: replayed_def List.map_filter_simps split: option.splits)

lemma fold_runCallback:
  "clock (fold (\<lambda>task. runCallback (snd task)) tasks g) = clock g \<and>
   pending (fold (\<lambda>task. runCallback (snd task)) tasks g) = pending g \<and>
   trace (fold (\<lambda>task. runCallback (snd task)) tasks g) = trace g @ map (Pair (clock g)) (replayed tasks)"
proof (induction tasks arbitrary: g)
  case Nil
  show ?case by (simp add: replayed_def List.map_filter_simps)
next
  case (Cons x xs)
  show ?case
    using Cons[of "runCallback (snd x) g"] replayed_Cons[of x xs]
    by (simp add: runCallback_fields)
qed

text \<open>
  When time passes to \<open>t\<close>, the trace grows by what the callbacks due by \<open>t\<close> do, all at
  time \<open>t\<close>, and the callbacks not yet due stay pending.
\<close>

lemma advance_trace:
  "clock g \<le> t \<Longrightarrow>
   trace (advance t g) =
     trace g @ map (Pair t) (replayed (sort_key fst (filter (\<lambda>task. fst task \<le> t) (pending g))))"
  by (simp add: advance_def Let_def fold_runCallback)

lemma advance_pending:
  "clock g \<le> t \<Longrightarrow> pending (advance t g) = filter (\<lambda>task. \<not> fst task \<le> t) (pending g)"
  by (simp add: advance_def Let_def fold_runCallback)

lemma replayed_member:
  "task \<in> set tasks \<Longrightarrow> executeDefaultAction (Some (fst (snd task))) (snd (snd task)) = Some a \<Longrightarrow>
   Performed a \<in> set (replayed tasks)"
  by (force simp: replayed_def List.map_filter_def)

lemma delegatedHandler_prevented:
  "rulePreventDefault rule \<Longrightarrow> getElementDefaultAction (Some el) = Some d \<Longrightarrow>
   delegatedHandler rule (Some el) g =
     g\<lparr>trace := trace g @ [(clock g, PreventDefault), (clock g, StopPropagation),
                            (clock g, Dispatched (ruleEvent rule))],
       pending := pending g @ [(clock g + max 0 (ruleBeaconDelay rule), d, el)]\<rparr>"
  by (simp add: delegatedHandler_def dispatchCustomEvent_def setTimeout_def record_effect_def)

text \<open>
  A rule with the trigger \<^verbatim>\<open>click\<close> and a selector, on a page that matches and is not
  excluded, installs a delegated handler that carries the rule's event name, its
  selector, \<^verbatim>\<open>preventDefaultAction\<close> (true when absent) and \<^verbatim>\<open>beaconDelay\<close> (100 when
  absent).
\<close>

lemma click_rule_installed:
  assumes "cfgEvent config = Some eventName" and "eventName \<noteq> []"
    and "cfgElement config = Some element" and "element \<noteq> []"
    and "toLowerCase (fst (resolveTrigger config)) = ''click''"
    and "isPageExcluded b (cfgExcludes config) pagePath = Inr False"
    and "matchesPagePattern b (cfgPage config) pagePath = Inr True"
  shows "processEventConfig b pagePath index config g =
     Inr (g\<lparr>documentClickListeners :=
              AList.delete (listenerKey eventName index element) (documentClickListeners g) @
              [(listenerKey eventName index element,
                \<lparr>ruleEvent = eventName, ruleSelector = element,
                 rulePreventDefault = (case cfgPreventDefaultAction config of None \<Rightarrow> True | Some p \<Rightarrow> p),
                 ruleBeaconDelay = (case cfgBeaconDelay config of None \<Rightarrow> 100 | Some d \<Rightarrow> d)\<rparr>)]\<rparr>)"
  using assms by (simp add: processEventConfig_def Let_def)

lemma literal_triggers:
  "trim ''click'' = ''click''" "trim ''pageload'' = ''pageload''"
  "toLowerCase ''click'' = ''click''" "toLowerCase ''pageload'' = ''pageload''"
  by code_simp+

lemma resolveTrigger_explicit:
  "trim kind \<noteq> [] \<Longrightarrow> resolveTrigger (config\<lparr>cfgTrigger := Some kind\<rparr>) = (kind, ''explicit'')"
  by (auto simp: resolveTrigger_def trim_def)

lemma resolveTrigger_blank:
  "isBlank (cfgTrigger config) \<Longrightarrow>
   fst (resolveTrigger config) = (if isBlank (cfgElement config) then ''pageload'' else ''click'')"
  by (auto simp: resolveTrigger_def inferTrigger_def isBlank_def trim_def split: option.splits)

text \<open>
  The loop body reads a rule only through its resolved trigger and its other six
  fields.
\<close>

lemma processEventConfig_trigger:
  "fst (resolveTrigger config') = fst (resolveTrigger config) \<Longrightarrow>
   cfgElement config' = cfgElement config \<Longrightarrow> cfgPreventDefaultAction config' = cfgPreventDefaultAction config \<Longrightarrow>
   cfgBeaconDelay config' = cfgBeaconDelay config \<Longrightarrow> cfgEvent config' = cfgEvent config \<Longrightarrow>
   cfgExcludes config' = cfgExcludes config \<Longrightarrow> cfgPage config' = cfgPage config \<Longrightarrow>
   processEventConfig b pagePath index config' g = processEventConfig b pagePath index config g"
  unfolding processEventConfig_def by (simp only:)


section \<open>Claim C8: the notification precedes the replayed default action\<close>

text \<open>
  C8. A click is handled at time \<open>clock g\<close> by the delegated handler of a rule with
  \<^verbatim>\<open>preventDefaultAction\<close> true, on an element for which \<open>getElementDefaultAction\<close> finds
  a default action (a link with an address, a form, a submit control inside a form).
  Then the action can be replayed, and the handler records exactly three effects at the
  time of the click, in this order: the default is prevented, propagation is stopped,
  the rule's event is dispatched. The replay is not performed by the handler: it is
  handed to \<^verbatim>\<open>setTimeout\<close> and falls due \<^verbatim>\<open>beaconDelay\<close> milliseconds after the click
  (at once when the delay is negative). When time passes to any \<open>t\<close>, what was recorded
  by the handler stays at the front of the trace. While \<open>t\<close> is before the due time the
  replay is still pending and what happens is what would have happened without the
  click; from the due time on the replay has been performed, after the dispatch.
\<close>

theorem click_dispatch_before_replay:
  assumes prevent: "rulePreventDefault rule"
    and action: "getElementDefaultAction (Some el) = Some d"
    and later: "clock g \<le> t"
  shows "\<exists>a. executeDefaultAction (Some d) el = Some a \<and>
     (let clicked = delegatedHandler rule (Some el) g;
          due = clock g + max 0 (ruleBeaconDelay rule)
      in trace clicked = trace g @ [(clock g, PreventDefault), (clock g, StopPropagation),
                                    (clock g, Dispatched (ruleEvent rule))] \<and>
         pending clicked = pending g @ [(due, d, el)] \<and>
         take (length (trace clicked)) (trace (advance t clicked)) = trace clicked \<and>
         (if t < due
          then since clicked (advance t clicked) = since g (advance t g) \<and>
               (due, d, el) \<in> set (pending (advance t clicked))
          else (t, Performed a) \<in> set (since clicked (advance t clicked))))"
proof -
  obtain a where a: "executeDefaultAction (Some d) el = Some a"
    using default_action_replayable[OF action] by (elim exE)
  define due where "due = clock g + max 0 (ruleBeaconDelay rule)"
  define clicked where "clicked = delegatedHandler rule (Some el) g"
  have c: "clicked = g\<lparr>trace := trace g @ [(clock g, PreventDefault), (clock g, StopPropagation),
                            (clock g, Dispatched (ruleEvent rule))],
       pending := pending g @ [(due, d, el)]\<rparr>"
    unfolding clicked_def due_def by (rule delegatedHandler_prevented[OF prevent action])
  have ck: "clock clicked \<le> t" using later by (simp add: c)
  have t1: "trace clicked = trace g @ [(clock g, PreventDefault), (clock g, StopPropagation),
                                    (clock g, Dispatched (ruleEvent rule))]"
    by (simp add: c)
  have p1: "pending clicked = pending g @ [(due, d, el)]" by (simp add: c)
  have pre: "take (length (trace clicked)) (trace (advance t clicked)) = trace clicked"
    by (simp add: advance_trace[OF ck])
  have early: "since clicked (advance t clicked) = since g (advance t g) \<and>
               (due, d, el) \<in> set (pending (advance t clicked))" if "t < due"
    using that by (simp add: since_def advance_trace[OF ck] advance_trace[OF later]
        advance_pending[OF ck] p1)
  have late: "(t, Performed a) \<in> set (since clicked (advance t clicked))" if "\<not> t < due"
  proof -
    have "(due, d, el) \<in> set (sort_key fst (filter (\<lambda>task. fst task \<le> t) (pending clicked)))"
      using that by (simp add: p1)
    from replayed_member[OF this] a
    have "Performed a \<in> set (replayed (sort_key fst (filter (\<lambda>task. fst task \<le> t) (pending clicked))))"
      by simp
    thus ?thesis by (simp add: since_def advance_trace[OF ck])
  qed
  show ?thesis
    unfolding Let_def clicked_def[symmetric] due_def[symmetric]
    using a t1 p1 pre early late by (intro exI[of _ a]) simp
qed


theorem click_dispatch_before_replay_witness:
  "trace (delegatedHandler checkoutRule (Some checkoutLink) idle) =
     [(1000, PreventDefault), (1000, StopPropagation), (1000, Dispatched ''checkout-click'')] \<and>
   since (delegatedHandler checkoutRule (Some checkoutLink) idle)
     (advance 1099 (delegatedHandler checkoutRule (Some checkoutLink) idle)) = [] \<and>
   (1100, Performed (SetLocation ''/checkout'')) \<in>
     set (since (delegatedHandler checkoutRule (Some checkoutLink) idle)
            (advance 1100 (delegatedHandler checkoutRule (Some checkoutLink) idle)))"
proof -
  have r: "rulePreventDefault checkoutRule" by code_simp
  have d: "getElementDefaultAction (Some checkoutLink) = Some (Navigation ''/checkout'' ''_self'')"
    by code_simp
  have e: "executeDefaultAction (Some (Navigation ''/checkout'' ''_self'')) checkoutLink =
    Some (SetLocation ''/checkout'')" by code_simp
  have k: "clock idle = 1000" "ruleBeaconDelay checkoutRule = 100" "ruleEvent checkoutRule = ''checkout-click''"
    "trace idle = []" "pending idle = []"
    by (simp_all add: idle_def checkoutRule_def)
  have n: "since idle (advance 1099 idle) = []" by code_simp
  have "clock idle \<le> 1099" "clock idle \<le> 1100" by (simp_all add: k)
  from click_dispatch_before_replay[OF r d this(1)] click_dispatch_before_replay[OF r d this(2)]
  show ?thesis
    by (simp add: Let_def e k n)
qed


section \<open>Claim C9: triggers that dispatch at once\<close>

text \<open>
  C9 as stated does not hold for \<^verbatim>\<open>domready\<close>: the \<^verbatim>\<open>switch\<close> of line 455 has no such
  case. A rule for the cart page with the trigger \<^verbatim>\<open>domready\<close>, evaluated on that page,
  which matches and is not excluded, dispatches nothing; the only effect is the warning
  of the default case.
\<close>

theorem domready_counterexample:
  "resolveTrigger (cartViewRule (Some ''domready'') None) = (''domready'', ''explicit'') \<and>
   isPageExcluded cartPage (cfgExcludes (cartViewRule (Some ''domready'') None)) ''/cart'' = Inr False \<and>
   matchesPagePattern cartPage (cfgPage (cartViewRule (Some ''domready'') None)) ''/cart'' = Inr True \<and>
   triggerCustomEvents cartPage readyState [cartViewRule (Some ''domready'') None] None idle =
     Ran (idle\<lparr>trace := [(1000, Warned ''Unknown trigger type'')]\<rparr>, None)"
  by code_simp


text \<open>
  C9, amended. For a rule with an event name, on a page that is not excluded and
  matches the rule's page pattern: when the rule's trigger is, in any letter case,
  \<^verbatim>\<open>pageload\<close> or \<^verbatim>\<open>domcontentloaded\<close>, processing the rule dispatches the rule's event
  at once and does nothing else; when it is \<^verbatim>\<open>domready\<close>, processing the rule dispatches
  nothing and warns of an unknown trigger type.
\<close>

theorem immediate_dispatch:
  assumes "cfgEvent config = Some eventName" and "eventName \<noteq> []"
    and "isPageExcluded b (cfgExcludes config) pagePath = Inr False"
    and "matchesPagePattern b (cfgPage config) pagePath = Inr True"
  shows "(toLowerCase (fst (resolveTrigger config)) = ''pageload'' \<or>
          toLowerCase (fst (resolveTrigger config)) = ''domcontentloaded'' \<longrightarrow>
          processEventConfig b pagePath index config g =
            Inr (g\<lparr>trace := trace g @ [(clock g, Dispatched eventName)]\<rparr>)) \<and>
         (toLowerCase (fst (resolveTrigger config)) = ''domready'' \<longrightarrow>
          processEventConfig b pagePath index config g =
            Inr (g\<lparr>trace := trace g @ [(clock g, Warned ''Unknown trigger type'')]\<rparr>))"
  using assms
  by (auto simp: processEventConfig_def Let_def dispatchCustomEvent_def record_effect_def)


theorem immediate_dispatch_witness:
  "processEventConfig cartPage ''/cart'' 0 (cartViewRule (Some ''PageLoad'') None) idle =
     Inr (idle\<lparr>trace := [(1000, Dispatched ''cart-view'')]\<rparr>) \<and>
   processEventConfig cartPage ''/cart'' 0 (cartViewRule (Some ''DOMContentLoaded'') None) idle =
     Inr (idle\<lparr>trace := [(1000, Dispatched ''cart-view'')]\<rparr>)"
proof -
  have a: "cfgEvent (cartViewRule kind None) = Some ''cart-view''" "''cart-view'' \<noteq> []" for kind
    by (simp_all add: cartViewRule_def)
  have b: "isPageExcluded cartPage (cfgExcludes (cartViewRule kind None)) ''/cart'' = Inr False" for kind
    unfolding cartViewRule_def by code_simp
  have c: "matchesPagePattern cartPage (cfgPage (cartViewRule kind None)) ''/cart'' = Inr True" for kind
    unfolding cartViewRule_def by code_simp
  have d: "toLowerCase (fst (resolveTrigger (cartViewRule (Some ''PageLoad'') None))) = ''pageload''"
    "toLowerCase (fst (resolveTrigger (cartViewRule (Some ''DOMContentLoaded'') None))) = ''domcontentloaded''"
    by code_simp+
  have e: "trace idle = []" "clock idle = 1000" by (simp_all add: idle_def)
  from immediate_dispatch[OF a(1)[of "Some ''PageLoad''"] a(2) b[of "Some ''PageLoad''"]
         c[of "Some ''PageLoad''"], of 0 idle]
    immediate_dispatch[OF a(1)[of "Some ''DOMContentLoaded''"] a(2) b[of "Some ''DOMContentLoaded''"]
         c[of "Some ''DOMContentLoaded''"], of 0 idle]
  show ?thesis by (simp add: d e)
qed


section \<open>Claim C10: the inferred trigger\<close>

text \<open>
  C10. When the trigger of a rule is absent or blank, the trigger the engine uses is
  \<^verbatim>\<open>click\<close> if the rule has a non-blank element selector and \<^verbatim>\<open>pageload\<close> otherwise, and
  the rule is not skipped: the engine does with it exactly what it does with the same
  rule in which that trigger is written out. On a page that matches the rule and is not
  excluded, a rule with an event name and no trigger dispatches its event at once when
  it has no selector, and installs its delegated click handler on the document, under
  the rule's key and with the rule's settings, when it has one. When the trigger is
  given and not blank, it is used as it is written, whatever the selector.
\<close>

theorem trigger_inference:
  "(isBlank (cfgTrigger config) \<longrightarrow>
      fst (resolveTrigger config) = (if isBlank (cfgElement config) then ''pageload'' else ''click'') \<and>
      processEventConfig b pagePath index config g =
        processEventConfig b pagePath index
          (config\<lparr>cfgTrigger := Some (if isBlank (cfgElement config) then ''pageload'' else ''click'')\<rparr>) g) \<and>
   (\<forall>eventName.
      isBlank (cfgTrigger config) \<and> cfgEvent config = Some eventName \<and> eventName \<noteq> [] \<and>
      isPageExcluded b (cfgExcludes config) pagePath = Inr False \<and>
      matchesPagePattern b (cfgPage config) pagePath = Inr True \<longrightarrow>
        (isBlank (cfgElement config) \<longrightarrow>
           processEventConfig b pagePath index config g =
             Inr (g\<lparr>trace := trace g @ [(clock g, Dispatched eventName)]\<rparr>)) \<and>
        (\<forall>element. cfgElement config = Some element \<and> \<not> isBlank (Some element) \<longrightarrow>
           processEventConfig b pagePath index config g =
             Inr (g\<lparr>documentClickListeners :=
                      AList.delete (listenerKey eventName index element) (documentClickListeners g) @
                      [(listenerKey eventName index element,
                        \<lparr>ruleEvent = eventName, ruleSelector = element,
                         rulePreventDefault =
                           (case cfgPreventDefaultAction config of None \<Rightarrow> True | Some p \<Rightarrow> p),
                         ruleBeaconDelay =
                           (case cfgBeaconDelay config of None \<Rightarrow> 100 | Some d \<Rightarrow> d)\<rparr>)]\<rparr>))) \<and>
   (\<forall>kind. cfgTrigger config = Some kind \<and> \<not> isBlank (Some kind) \<longrightarrow>
      resolveTrigger config = (kind, ''explicit''))"
proof (intro conjI impI allI)
  assume bl: "isBlank (cfgTrigger config)"
  show r: "fst (resolveTrigger config) = (if isBlank (cfgElement config) then ''pageload'' else ''click'')"
    by (rule resolveTrigger_blank[OF bl])
  let ?k = "if isBlank (cfgElement config) then ''pageload'' else ''click''"
  have "trim ?k \<noteq> []" by (simp add: literal_triggers)
  from resolveTrigger_explicit[OF this, of config]
  have "fst (resolveTrigger (config\<lparr>cfgTrigger := Some ?k\<rparr>)) = fst (resolveTrigger config)"
    by (simp only: r fst_conv)
  from processEventConfig_trigger[OF this]
  show "processEventConfig b pagePath index config g =
        processEventConfig b pagePath index (config\<lparr>cfgTrigger := Some ?k\<rparr>) g"
    by simp
next
  fix eventName
  assume a: "isBlank (cfgTrigger config) \<and> cfgEvent config = Some eventName \<and> eventName \<noteq> [] \<and>
      isPageExcluded b (cfgExcludes config) pagePath = Inr False \<and>
      matchesPagePattern b (cfgPage config) pagePath = Inr True"
  assume e: "isBlank (cfgElement config)"
  from a e have "toLowerCase (fst (resolveTrigger config)) = ''pageload''"
    by (simp add: resolveTrigger_blank literal_triggers)
  with a show "processEventConfig b pagePath index config g =
             Inr (g\<lparr>trace := trace g @ [(clock g, Dispatched eventName)]\<rparr>)"
    by (simp add: processEventConfig_def Let_def dispatchCustomEvent_def record_effect_def)
next
  fix eventName element
  assume a: "isBlank (cfgTrigger config) \<and> cfgEvent config = Some eventName \<and> eventName \<noteq> [] \<and>
      isPageExcluded b (cfgExcludes config) pagePath = Inr False \<and>
      matchesPagePattern b (cfgPage config) pagePath = Inr True"
  assume e: "cfgElement config = Some element \<and> \<not> isBlank (Some element)"
  then have ne: "element \<noteq> []" by (auto simp: isBlank_def trim_def)
  from a e have t: "toLowerCase (fst (resolveTrigger config)) = ''click''"
    by (simp add: resolveTrigger_blank literal_triggers)
  from a e have c: "cfgEvent config = Some eventName" "eventName \<noteq> []"
    "cfgElement config = Some element"
    "isPageExcluded b (cfgExcludes config) pagePath = Inr False"
    "matchesPagePattern b (cfgPage config) pagePath = Inr True"
    by simp_all
  show "processEventConfig b pagePath index config g =
             Inr (g\<lparr>documentClickListeners :=
                      AList.delete (listenerKey eventName index element) (documentClickListeners g) @
                      [(listenerKey eventName index element,
                        \<lparr>ruleEvent = eventName, ruleSelector = element,
                         rulePreventDefault =
                           (case cfgPreventDefaultAction config of None \<Rightarrow> True | Some p \<Rightarrow> p),
                         ruleBeaconDelay =
                           (case cfgBeaconDelay config of None \<Rightarrow> 100 | Some d \<Rightarrow> d)\<rparr>)]\<rparr>)"
    by (rule click_rule_installed[OF c(1,2,3) ne t c(4,5)])
next
  fix kind
  assume "cfgTrigger config = Some kind \<and> \<not> isBlank (Some kind)"
  thus "resolveTrigger config = (kind, ''explicit'')"
    by (auto simp: resolveTrigger_def isBlank_def trim_def)
qed


theorem trigger_inference_witness:
  "fst (resolveTrigger (cartViewRule None (Some ''.checkout-btn''))) = ''click'' \<and>
   processEventConfig cartPage ''/cart'' 0 (cartViewRule None (Some ''.checkout-btn'')) idle =
     Inr (idle\<lparr>documentClickListeners :=
                [(''cart-view_0_.checkout-btn'',
                  \<lparr>ruleEvent = ''cart-view'', ruleSelector = ''.checkout-btn'',
                   rulePreventDefault = True, ruleBeaconDelay = 100\<rparr>)]\<rparr>) \<and>
   fst (resolveTrigger (cartViewRule (Some ''  '') (Some '' ''))) = ''pageload'' \<and>
   resolveTrigger (cartViewRule (Some ''load'') (Some ''.checkout-btn'')) = (''load'', ''explicit'') \<and>
   processEventConfig cartPage ''/cart'' 0 (cartViewRule None None) idle =
     Inr (idle\<lparr>trace := [(1000, Dispatched ''cart-view'')]\<rparr>)"
proof -
  have a: "isBlank None" "isBlank (Some ''  '')" "isBlank (Some '' '')"
    "\<not> isBlank (Some ''load'')" "\<not> isBlank (Some ''.checkout-btn'')"
    by code_simp+
  have c: "cfgEvent (cartViewRule kind selector) = Some ''cart-view''" "''cart-view'' \<noteq> []"
    "cfgElement (cartViewRule kind selector) = selector"
    "cfgTrigger (cartViewRule kind selector) = kind"
    "cfgPreventDefaultAction (cartViewRule kind selector) = None"
    "cfgBeaconDelay (cartViewRule kind selector) = None" for kind selector
    by (simp_all add: cartViewRule_def)
  have x: "isPageExcluded cartPage (cfgExcludes (cartViewRule kind selector)) ''/cart'' = Inr False"
    for kind selector
    unfolding cartViewRule_def by code_simp
  have m: "matchesPagePattern cartPage (cfgPage (cartViewRule kind selector)) ''/cart'' = Inr True"
    for kind selector
    unfolding cartViewRule_def by code_simp
  have k: "listenerKey ''cart-view'' 0 ''.checkout-btn'' = ''cart-view_0_.checkout-btn''"
    by code_simp
  have i: "documentClickListeners idle = []" "trace idle = []" "clock idle = 1000"
    by (simp_all add: idle_def)
  note clickRule = trigger_inference[of "cartViewRule None (Some ''.checkout-btn'')" cartPage "''/cart''" 0 idle]
  note blankRule = trigger_inference[of "cartViewRule (Some ''  '') (Some '' '')" cartPage "''/cart''" 0 idle]
  note loadRule = trigger_inference[of "cartViewRule (Some ''load'') (Some ''.checkout-btn'')" cartPage "''/cart''" 0 idle]
  note pageRule = trigger_inference[of "cartViewRule None None" cartPage "''/cart''" 0 idle]
  from clickRule[THEN conjunct1]
  have 1: "fst (resolveTrigger (cartViewRule None (Some ''.checkout-btn''))) = ''click''"
    by (simp add: a c)
  from clickRule[THEN conjunct2, THEN conjunct1]
  have 2: "processEventConfig cartPage ''/cart'' 0 (cartViewRule None (Some ''.checkout-btn'')) idle =
     Inr (idle\<lparr>documentClickListeners :=
                [(''cart-view_0_.checkout-btn'',
                  \<lparr>ruleEvent = ''cart-view'', ruleSelector = ''.checkout-btn'',
                   rulePreventDefault = True, ruleBeaconDelay = 100\<rparr>)]\<rparr>)"
    by (simp add: a c x m k i)
  from blankRule[THEN conjunct1]
  have 3: "fst (resolveTrigger (cartViewRule (Some ''  '') (Some '' ''))) = ''pageload''"
    by (simp add: a c)
  from loadRule[THEN conjunct2, THEN conjunct2]
  have 4: "resolveTrigger (cartViewRule (Some ''load'') (Some ''.checkout-btn'')) = (''load'', ''explicit'')"
    by (simp add: a c)
  from pageRule[THEN conjunct2, THEN conjunct1]
  have 5: "processEventConfig cartPage ''/cart'' 0 (cartViewRule None None) idle =
     Inr (idle\<lparr>trace := [(1000, Dispatched ''cart-view'')]\<rparr>)"
    by (simp add: a c x m i)
  from 1 2 3 4 5 show ?thesis by (intro conjI)
qed


end
